theory Spec2Isabelle
  imports Complex_Main
begin

section \<open>Python values and errors\<close>

text \<open>
  The exceptions the modelled code can raise. A function that can raise returns
  \<open>error + 'a\<close>, with \<open>Inl\<close> for the exception.
\<close>

datatype error =
    AssertionError
  | AttributeError
  | IndexError
  | NotImplementedError
  | RuntimeError
  | UnboundLocalError
  | ValueError
  | ZeroDivisionError

text \<open>
  An argument of type \<open>Union[int, Tuple[int, ...]]\<close> (kernel size, stride, dilation).
\<close>

datatype int_or_tuple = IntArg int | TupleArg "int list"

text \<open>\<open>kwargs.pop(key, default)\<close> for an optional keyword argument.\<close>

definition kwargs_pop :: "'a option \<Rightarrow> 'a \<Rightarrow> 'a" where
  "kwargs_pop kw dflt = (case kw of None \<Rightarrow> dflt | Some v \<Rightarrow> v)"

section \<open>Causal convolutions: construction\<close>

subsection \<open>VidTokCausalConv1d\<close>

record causal_conv1d =
  c1_pad_mode :: string
  c1_time_pad :: int
  c1_time_causal_padding :: "int \<times> int"
  c1_kernel_size :: int
  c1_stride :: int
  c1_dilation :: int

text \<open>
  \<open>VidTokCausalConv1d.__init__(in_channels, out_channels, kernel_size, pad_mode, **kwargs)\<close>:
  the keyword arguments \<open>dilation\<close> and \<open>stride\<close> default to 1, a \<open>padding\<close> keyword is
  dropped. The channel counts only size the weights of the inner \<open>nn.Conv1d\<close>, which
  are arguments of the forward function below.
\<close>

definition VidTokCausalConv1d_init ::
  "int \<Rightarrow> string \<Rightarrow> int option \<Rightarrow> int option \<Rightarrow> causal_conv1d" where
  "VidTokCausalConv1d_init kernel_size pad_mode kw_dilation kw_stride =
     (let dilation = kwargs_pop kw_dilation 1;
          stride = kwargs_pop kw_stride 1;
          time_pad = dilation * (kernel_size - 1) + (1 - stride)
      in \<lparr> c1_pad_mode = pad_mode,
           c1_time_pad = time_pad,
           c1_time_causal_padding = (time_pad, 0),
           c1_kernel_size = kernel_size,
           c1_stride = stride,
           c1_dilation = dilation \<rparr>)"

subsection \<open>VidTokCausalConv3d\<close>

text \<open>\<open>cast_tuple(t, length)\<close>: a tuple is returned as it is, an int is repeated.\<close>

definition cast_tuple :: "int_or_tuple \<Rightarrow> nat \<Rightarrow> int list" where
  "cast_tuple t len = (case t of TupleArg xs \<Rightarrow> xs | IntArg n \<Rightarrow> replicate len n)"

record causal_conv3d =
  c3_pad_mode :: string
  c3_time_pad :: int
  c3_time_causal_padding :: "int \<times> int \<times> int \<times> int \<times> int \<times> int"
  c3_kernel_size :: "int list"
  c3_stride :: "int list"
  c3_dilation :: "int list"

text \<open>
  \<open>VidTokCausalConv3d.__init__\<close>. Unpacking \<open>kernel_size\<close> into three names raises
  ValueError unless it has three entries; \<open>dilation[i]\<close> and \<open>stride[i]\<close> raise IndexError
  on a shorter tuple. The padding tuple is in the order of \<open>F.pad\<close>: width left and right,
  height left and right, time left and right. \<open>//\<close> is floor division, as \<open>div\<close> on \<open>int\<close>.
  The width padding is computed from \<open>height_kernel_size\<close>, as the source has it.
\<close>

definition VidTokCausalConv3d_init ::
  "int_or_tuple \<Rightarrow> string \<Rightarrow> int_or_tuple option \<Rightarrow> int_or_tuple option
     \<Rightarrow> error + causal_conv3d" where
  "VidTokCausalConv3d_init kernel_size0 pad_mode kw_dilation kw_stride =
     (let kernel_size = cast_tuple kernel_size0 3;
          dilation = cast_tuple (kwargs_pop kw_dilation (IntArg 1)) 3;
          stride = cast_tuple (kwargs_pop kw_stride (IntArg 1)) 3
      in case kernel_size of
           [time_kernel_size, height_kernel_size, width_kernel_size] \<Rightarrow>
             if length dilation < 3 \<or> length stride < 3 then Inl IndexError
             else
               (let time_pad = dilation ! 0 * (time_kernel_size - 1) + (1 - stride ! 0);
                    height_pad = dilation ! 1 * (height_kernel_size - 1) + (1 - stride ! 1);
                    width_pad = dilation ! 2 * (height_kernel_size - 1) + (1 - stride ! 2)
                in Inr \<lparr> c3_pad_mode = pad_mode,
                         c3_time_pad = time_pad,
                         c3_time_causal_padding =
                           (width_pad div 2, width_pad - width_pad div 2,
                            height_pad div 2, height_pad - height_pad div 2,
                            time_pad, 0),
                         c3_kernel_size = kernel_size,
                         c3_stride = stride,
                         c3_dilation = dilation \<rparr>)
         | _ \<Rightarrow> Inl ValueError)"

subsection \<open>The padding mode a forward call uses\<close>

text \<open>
  Both forward methods start with
  \<^verbatim>\<open>pad_mode = self.pad_mode if self.time_pad < x.shape[2] else "constant"\<close>
  where \<open>x.shape[2]\<close> is the time length of the input (a 3D tensor for the 1D convolution,
  a 5D tensor for the 3D one).
\<close>

definition conv1d_forward_pad_mode :: "causal_conv1d \<Rightarrow> nat \<Rightarrow> string" where
  "conv1d_forward_pad_mode c T =
     (if c1_time_pad c < int T then c1_pad_mode c else ''constant'')"

definition conv3d_forward_pad_mode :: "causal_conv3d \<Rightarrow> nat \<Rightarrow> string" where
  "conv3d_forward_pad_mode c T =
     (if c3_time_pad c < int T then c3_pad_mode c else ''constant'')"

section \<open>Shapes\<close>

text \<open>
  The shape of a 5D tensor: batch, channel, time, height, width. The blocks of the
  encoder and the decoder are followed on shapes: what each does to the five extents,
  and where it raises.
\<close>

type_synonym shape5 = "nat \<times> nat \<times> nat \<times> nat \<times> nat"

definition bind_result :: "error + 'a \<Rightarrow> ('a \<Rightarrow> error + 'b) \<Rightarrow> error + 'b" where
  "bind_result r f = (case r of Inl e \<Rightarrow> Inl e | Inr v \<Rightarrow> f v)"

text \<open>Running a list of fallible steps, stopping at the first error.\<close>

fun sequence_results :: "(error + 'a) list \<Rightarrow> error + 'a list" where
  "sequence_results [] = Inr []"
| "sequence_results (r # rs) =
     bind_result r (\<lambda>v. bind_result (sequence_results rs) (\<lambda>vs. Inr (v # vs)))"

text \<open>
  The output length of a convolution or pooling window over an axis of \<open>n\<close> entries
  (padding included), with kernel \<open>k\<close>, dilation \<open>d\<close> and stride \<open>s\<close>: PyTorch raises when
  the dilated kernel is longer than the axis.
\<close>

definition conv_len :: "int \<Rightarrow> int \<Rightarrow> int \<Rightarrow> int \<Rightarrow> error + nat" where
  "conv_len n k d s =
     (if s \<le> 0 \<or> n < d * (k - 1) + 1 then Inl RuntimeError
      else Inr (nat ((n - d * (k - 1) - 1) div s + 1)))"

text \<open>
  \<open>VidTokCausalConv3d.forward\<close> on a shape: \<open>F.pad\<close> adds the padding tuple to width, height
  and time, then \<open>nn.Conv3d\<close> runs without padding of its own. The channel count is
  changed by the caller.
\<close>

definition causal_conv3d_shape :: "causal_conv3d \<Rightarrow> shape5 \<Rightarrow> error + shape5" where
  "causal_conv3d_shape c sh =
     (case (sh, c3_time_causal_padding c) of
        ((B, C, T, H, W), (pwl, pwr, phl, phr, ptl, ptr)) \<Rightarrow>
          bind_result (conv_len (int T + ptl + ptr) (c3_kernel_size c ! 0) (c3_dilation c ! 0)
                         (c3_stride c ! 0)) (\<lambda>T'.
          bind_result (conv_len (int H + phl + phr) (c3_kernel_size c ! 1) (c3_dilation c ! 1)
                         (c3_stride c ! 1)) (\<lambda>H'.
          bind_result (conv_len (int W + pwl + pwr) (c3_kernel_size c ! 2) (c3_dilation c ! 2)
                         (c3_stride c ! 2)) (\<lambda>W'.
          Inr (B, C, T', H', W')))))"

subsection \<open>VidTokDownsample3D and VidTokUpsample3D on shapes\<close>

text \<open>
  \<open>VidTokDownsample3D.forward\<close>: one zero frame is padded (in front when causal, behind
  otherwise), \<open>nn.AvgPool3d((3, 1, 1), stride=(2, 1, 1))\<close> gives \<open>x1\<close>; the convolution
  with stride \<open>(2, 1, 1)\<close> gives \<open>x2\<close> (the causal one pads by itself; the plain one gets the
  padded \<open>x\<close> and \<open>padding=(0, 1, 1)\<close>); the sum of the two needs equal shapes.
\<close>

definition VidTokDownsample3D_shape :: "bool \<Rightarrow> shape5 \<Rightarrow> error + shape5" where
  "VidTokDownsample3D_shape is_causal sh =
     (case sh of (B, C, T, H, W) \<Rightarrow>
        bind_result (conv_len (int T + 1) 3 1 2) (\<lambda>T1.
        bind_result
          (if is_causal then
             bind_result
               (VidTokCausalConv3d_init (IntArg 3) ''constant'' None (Some (TupleArg [2, 1, 1])))
               (\<lambda>c. causal_conv3d_shape c sh)
           else
             bind_result (conv_len (int T + 1) 3 1 2) (\<lambda>T2.
             bind_result (conv_len (int H + 2) 3 1 1) (\<lambda>H2.
             bind_result (conv_len (int W + 2) 3 1 1) (\<lambda>W2.
             Inr (B, C, T2, H2, W2))))) (\<lambda>sh2.
        if sh2 = (B, C, T1, H, W) then Inr sh2 else Inl RuntimeError)))"


text \<open>
  Modelled from the spec: \<open>VidTokDownsample2D\<close> and \<open>VidTokUpsample2D\<close> (imported from
  the modules \<open>downsampling\<close> and \<open>upsampling\<close>) are the spatial resampling blocks of
  the pyramids: "spatially downsample by 2x" halves height and width, "spatial upsample"
  doubles them; they are applied frame by frame and keep batch, channel and time.
\<close>

definition VidTokDownsample2D_shape :: "shape5 \<Rightarrow> shape5" where
  "VidTokDownsample2D_shape sh = (case sh of (B, C, T, H, W) \<Rightarrow> (B, C, T, H div 2, W div 2))"


text \<open>
  A block with a declared channel count (a resnet block, an attention block, a
  resampling block): a tensor with another channel count raises in its first layer.
  The convolutions of \<open>VidTokResnetBlock\<close> and \<open>VidTokAttnBlockWrapper\<close> have kernel 3 with
  a total padding of 2, or kernel 1 without padding, at stride 1, so these blocks keep
  time, height and width and set the channel count to their \<open>out_channels\<close>.
\<close>

definition channels_block :: "int \<times> int \<Rightarrow> shape5 \<Rightarrow> error + shape5" where
  "channels_block io sh =
     (case sh of (B, C, T, H, W) \<Rightarrow>
        if int C = fst io \<and> 0 \<le> snd io then Inr (B, nat (snd io), T, H, W)
        else Inl RuntimeError)"

text \<open>
  \<open>spatial_temporal_resblk(x, block_s, block_t, temb)\<close>: the spatial block on the frames,
  then the temporal block on the pixel columns; the assertion on a 5D input holds for
  every \<open>shape5\<close>.
\<close>

definition spatial_temporal_resblk_shape ::
  "int \<times> int \<Rightarrow> int \<times> int \<Rightarrow> shape5 \<Rightarrow> error + shape5" where
  "spatial_temporal_resblk_shape block_s block_t sh =
     bind_result (channels_block block_s sh) (channels_block block_t)"

section \<open>Construction of the layers\<close>

text \<open>
  A layer allocates its weights with \<open>torch.empty\<close>, with the layer's channel counts as
  extents: a negative channel count raises RuntimeError, a count of 0 gives an empty
  weight. This is how \<open>nn.Conv1d\<close>, \<open>nn.Conv2d\<close> and \<open>nn.Conv3d\<close> (also inside
  \<open>VidTokCausalConv1d\<close> and \<open>VidTokCausalConv3d\<close>) are built.

  Modelled from the spec: \<open>VidTokLayerNorm\<close>, \<open>VidTokDownsample2D\<close> and \<open>VidTokUpsample2D\<close>
  (imported from the modules \<open>normalization\<close>, \<open>downsampling\<close> and \<open>upsampling\<close>) are the
  layer norm and the spatial resampling blocks of the pyramids; they are taken to hold
  weights of the channel count they are given, and to be built in the same way.
\<close>

definition layer_channels :: "int list \<Rightarrow> error + unit" where
  "layer_channels cs = (if list_all (\<lambda>c. 0 \<le> c) cs then Inr () else Inl RuntimeError)"

text \<open>\<open>nn.Dropout(p)\<close> raises ValueError unless \<open>0 \<le> p \<le> 1\<close>.\<close>

definition nn_Dropout_init :: "real \<Rightarrow> error + unit" where
  "nn_Dropout_init p = (if p < 0 \<or> 1 < p then Inl ValueError else Inr ())"

text \<open>
  \<open>VidTokResnetBlock.__init__\<close> as the pyramids call it (\<open>temb_channels = 0\<close>, so no
  \<open>temb_proj\<close>; \<open>conv_shortcut = False\<close>; a \<open>btype\<close> of the three supported): \<open>norm1\<close>,
  \<open>conv1\<close>, \<open>norm2\<close>, \<open>dropout\<close>, \<open>conv2\<close> and, when the channel counts differ,
  \<open>nin_shortcut\<close>, in this order.
\<close>

definition VidTokResnetBlock_init :: "int \<times> int \<Rightarrow> real \<Rightarrow> error + unit" where
  "VidTokResnetBlock_init io dropout =
     (case io of (in_channels, out_channels) \<Rightarrow>
        bind_result (layer_channels [in_channels]) (\<lambda>_.
        bind_result (layer_channels [in_channels, out_channels]) (\<lambda>_.
        bind_result (layer_channels [out_channels]) (\<lambda>_.
        bind_result (nn_Dropout_init dropout) (\<lambda>_.
        bind_result (layer_channels [out_channels, out_channels]) (\<lambda>_.
        if in_channels \<noteq> out_channels then layer_channels [in_channels, out_channels]
        else Inr ()))))))"

text \<open>
  \<open>VidTokAttnBlockWrapper.__init__\<close>: a norm and the convolutions \<open>q\<close>, \<open>k\<close>, \<open>v\<close> and
  \<open>proj_out\<close>, all on \<open>in_channels\<close>. \<open>VidTokDownsample3D.__init__\<close> and
  \<open>VidTokUpsample3D.__init__\<close>: one convolution from \<open>in_channels\<close> to \<open>out_channels\<close>.
\<close>

definition VidTokAttnBlockWrapper_init :: "int \<Rightarrow> error + unit" where
  "VidTokAttnBlockWrapper_init in_channels =
     bind_result (layer_channels [in_channels]) (\<lambda>_. layer_channels [in_channels, in_channels])"

definition resample3d_init :: "int \<times> int \<Rightarrow> error + unit" where
  "resample3d_init io = layer_channels [fst io, snd io]"

text \<open>A list of resnet blocks, built one after the other.\<close>

definition resnet_blocks_init :: "(int \<times> int) list \<Rightarrow> real \<Rightarrow> error + unit" where
  "resnet_blocks_init blocks dropout =
     bind_result (sequence_results (map (\<lambda>io. VidTokResnetBlock_init io dropout) blocks))
       (\<lambda>_. Inr ())"

section \<open>The encoder pyramid\<close>

text \<open>
  One resolution level of \<open>VidTokEncoder3D\<close>: the \<open>(in_channels, out_channels)\<close> of the
  resnet blocks in \<open>down[i].block\<close> and \<open>down_temporal[i].block\<close>, and the channel counts of
  \<open>down[i].downsample\<close> and \<open>down_temporal[i].downsample\<close> where the attribute is set.
\<close>

record enc_level =
  el_block :: "(int \<times> int) list"
  el_block_temporal :: "(int \<times> int) list"
  el_downsample :: "int option"
  el_downsample_temporal :: "(int \<times> int) option"

record encoder3d =
  enc_is_causal :: bool
  enc_in_channels :: int
  enc_ch :: int
  enc_num_resolutions :: int
  enc_num_res_blocks :: int
  enc_tempo_ds :: "int list"
  enc_down :: "enc_level list"
  enc_mid_channels :: int
  enc_conv_out_channels :: int

text \<open>
  The inner loop of the constructor, \<open>for i_block in range(num_res_blocks)\<close>: a spatial
  block from \<open>block_in\<close> to \<open>block_out\<close>, a temporal block on \<open>block_out\<close>, then
  \<open>block_in = block_out\<close>. The result holds the two block lists and the final \<open>block_in\<close>.
\<close>

primrec enc_res_blocks ::
  "nat \<Rightarrow> int \<Rightarrow> int \<Rightarrow> (int \<times> int) list \<times> (int \<times> int) list \<times> int" where
  "enc_res_blocks 0 block_in block_out = ([], [], block_in)"
| "enc_res_blocks (Suc n) block_in block_out =
     (case enc_res_blocks n block_out block_out of
        (block, block_temporal, block_in') \<Rightarrow>
          ((block_in, block_out) # block, (block_out, block_out) # block_temporal, block_in'))"

text \<open>
  The body of \<open>for i_level in range(self.num_resolutions)\<close>, with
  \<open>in_ch_mult = (1,) + tuple(ch_mult)\<close> and \<open>self.tempo_ds\<close> as the constructor sets them.
\<close>

definition enc_level_init ::
  "int \<Rightarrow> int list \<Rightarrow> int \<Rightarrow> int list \<Rightarrow> nat \<Rightarrow> enc_level \<times> int" where
  "enc_level_init ch ch_mult num_res_blocks tempo_ds i_level =
     (let num_resolutions = int (length ch_mult);
          in_ch_mult = 1 # ch_mult;
          block_in = ch * in_ch_mult ! i_level;
          block_out = ch * ch_mult ! i_level
      in case enc_res_blocks (nat num_res_blocks) block_in block_out of
           (block, block_temporal, block_in') \<Rightarrow>
             (\<lparr> el_block = block,
                el_block_temporal = block_temporal,
                el_downsample =
                  (if int i_level \<noteq> num_resolutions - 1 then Some block_in' else None),
                el_downsample_temporal =
                  (if int i_level \<noteq> num_resolutions - 1 \<and> int i_level \<in> set tempo_ds
                   then Some (block_in', block_in') else None) \<rparr>,
              block_in'))"

text \<open>
  The layers of one level, in the order the constructor builds them: for every
  \<open>i_block\<close> the spatial and then the temporal resnet block, then \<open>VidTokDownsample2D\<close> and
  \<open>VidTokDownsample3D\<close> where the level has them.
\<close>

definition enc_level_layers :: "real \<Rightarrow> enc_level \<Rightarrow> error + unit" where
  "enc_level_layers dropout lv =
     bind_result
       (sequence_results (map (\<lambda>(block_s, block_t).
          bind_result (VidTokResnetBlock_init block_s dropout) (\<lambda>_.
            VidTokResnetBlock_init block_t dropout))
          (zip (el_block lv) (el_block_temporal lv)))) (\<lambda>_.
     bind_result
       (case el_downsample lv of None \<Rightarrow> Inr () | Some c \<Rightarrow> layer_channels [c]) (\<lambda>_.
     case el_downsample_temporal lv of None \<Rightarrow> Inr () | Some io \<Rightarrow> resample3d_init io))"

text \<open>
  \<open>VidTokEncoder3D.__init__\<close>: \<open>conv_in\<close>, the levels, the middle block (resnet,
  attention, resnet), \<open>norm_out\<close> and \<open>conv_out\<close>; the first layer that cannot be built
  raises. With an empty \<open>ch_mult\<close> the level loop never binds \<open>block_in\<close>, and the middle
  block raises UnboundLocalError.
\<close>

definition VidTokEncoder3D_init ::
  "int \<Rightarrow> int \<Rightarrow> int list \<Rightarrow> int \<Rightarrow> real \<Rightarrow> int \<Rightarrow> bool \<Rightarrow> bool \<Rightarrow> error + encoder3d" where
  "VidTokEncoder3D_init in_channels ch ch_mult num_res_blocks dropout z_channels double_z
       is_causal =
     (let num_resolutions = int (length ch_mult);
          tempo_ds = [num_resolutions - 2, num_resolutions - 3];
          levels = map (enc_level_init ch ch_mult num_res_blocks tempo_ds) [0..<length ch_mult]
      in bind_result (layer_channels [in_channels, ch]) (\<lambda>_.
         bind_result (sequence_results (map (\<lambda>lv. enc_level_layers dropout (fst lv)) levels))
           (\<lambda>_.
         if levels = [] then Inl UnboundLocalError
         else
           (let block_in = snd (last levels) in
            bind_result (VidTokResnetBlock_init (block_in, block_in) dropout) (\<lambda>_.
            bind_result (VidTokAttnBlockWrapper_init block_in) (\<lambda>_.
            bind_result (VidTokResnetBlock_init (block_in, block_in) dropout) (\<lambda>_.
            bind_result (layer_channels [block_in]) (\<lambda>_.
            bind_result
              (layer_channels [block_in, if double_z then 2 * z_channels else z_channels])
              (\<lambda>_.
            Inr \<lparr> enc_is_causal = is_causal,
                  enc_in_channels = in_channels,
                  enc_ch = ch,
                  enc_num_resolutions = num_resolutions,
                  enc_num_res_blocks = num_res_blocks,
                  enc_tempo_ds = tempo_ds,
                  enc_down = map fst levels,
                  enc_mid_channels = block_in,
                  enc_conv_out_channels =
                    (if double_z then 2 * z_channels else z_channels) \<rparr>)))))))))"

text \<open>
  The forward pass on shapes. \<open>for i_block in range(self.num_res_blocks)\<close> pairs
  \<open>down[i_level].block[i_block]\<close> with \<open>down_temporal[i_level].block[i_block]\<close>; both lists
  have \<open>num_res_blocks\<close> entries, so the loop is the walk over the zipped lists.
\<close>

fun res_blocks_shape :: "((int \<times> int) \<times> (int \<times> int)) list \<Rightarrow> shape5 \<Rightarrow> error + shape5" where
  "res_blocks_shape [] sh = Inr sh"
| "res_blocks_shape ((block_s, block_t) # bs) sh =
     bind_result (spatial_temporal_resblk_shape block_s block_t sh) (res_blocks_shape bs)"

text \<open>
  One level of the encoder's forward loop: the resnet pairs, then, unless this is the
  last level, the spatial downsample and, at a level of \<open>tempo_ds\<close>, the temporal
  downsample. Reading an attribute the constructor did not set raises AttributeError.
\<close>

definition enc_level_shape :: "encoder3d \<Rightarrow> nat \<Rightarrow> shape5 \<Rightarrow> error + shape5" where
  "enc_level_shape e i_level sh =
     (let lv = enc_down e ! i_level in
      bind_result (res_blocks_shape (zip (el_block lv) (el_block_temporal lv)) sh) (\<lambda>h.
      if int i_level \<noteq> enc_num_resolutions e - 1 then
        (case el_downsample lv of
           None \<Rightarrow> Inl AttributeError
         | Some c \<Rightarrow>
             bind_result (channels_block (c, c) h) (\<lambda>h1.
             (let htmp = VidTokDownsample2D_shape h1 in
              if int i_level \<in> set (enc_tempo_ds e) then
                (case el_downsample_temporal lv of
                   None \<Rightarrow> Inl AttributeError
                 | Some io \<Rightarrow>
                     bind_result (channels_block io htmp)
                       (VidTokDownsample3D_shape (enc_is_causal e)))
              else Inr htmp)))
      else Inr h))"

fun enc_levels_shape :: "encoder3d \<Rightarrow> nat list \<Rightarrow> shape5 \<Rightarrow> error + shape5" where
  "enc_levels_shape e [] sh = Inr sh"
| "enc_levels_shape e (i_level # ls) sh =
     bind_result (enc_level_shape e i_level sh) (enc_levels_shape e ls)"

text \<open>
  \<open>VidTokEncoder3D.forward\<close>: \<open>conv_in\<close>, the levels, the middle block (resnet, attention,
  resnet), \<open>norm_out\<close> and \<open>conv_out\<close>. The checkpointed branch computes the same.
\<close>

definition VidTokEncoder3D_shape :: "encoder3d \<Rightarrow> shape5 \<Rightarrow> error + shape5" where
  "VidTokEncoder3D_shape e x =
     bind_result (channels_block (enc_in_channels e, enc_ch e) x) (\<lambda>h0.
     bind_result (enc_levels_shape e [0..<nat (enc_num_resolutions e)] h0) (\<lambda>h.
     bind_result (channels_block (enc_mid_channels e, enc_mid_channels e) h) (\<lambda>h'.
     channels_block (enc_mid_channels e, enc_conv_out_channels e) h')))"

section \<open>The decoder pyramid\<close>

record dec_level =
  dl_block :: "(int \<times> int) list"
  dl_block_temporal :: "(int \<times> int) list"
  dl_upsample :: "int option"
  dl_upsample_temporal :: "(int \<times> int) option"

record decoder3d =
  dec_is_causal :: bool
  dec_z_channels :: int
  dec_num_resolutions :: int
  dec_num_res_blocks :: int
  dec_tempo_us :: "int list"
  dec_mid_channels :: int
  dec_up :: "dec_level list"
  dec_norm_channels :: int
  dec_out_channels :: int

text \<open>
  The block loop of the decoder's constructor, \<open>for i_block in range(num_res_blocks + 1)\<close>.
\<close>

primrec dec_res_blocks :: "nat \<Rightarrow> int \<Rightarrow> int \<Rightarrow> (int \<times> int) list \<times> int" where
  "dec_res_blocks 0 block_in block_out = ([], block_in)"
| "dec_res_blocks (Suc n) block_in block_out =
     (case dec_res_blocks n block_out block_out of
        (block, block_in') \<Rightarrow> ((block_in, block_out) # block, block_in'))"

text \<open>
  The first loop of the constructor runs over \<open>reversed(range(num_resolutions))\<close> and
  threads \<open>block_in\<close>; each level is inserted at the front of \<open>self.up\<close>. The function
  takes the levels still to build, highest first, and returns \<open>self.up\<close> in index order
  with the last \<open>block_in\<close>.
\<close>

fun dec_up_init :: "int \<Rightarrow> int list \<Rightarrow> int \<Rightarrow> nat list \<Rightarrow> int
    \<Rightarrow> ((int \<times> int) list \<times> int option) list \<times> int" where
  "dec_up_init ch ch_mult num_res_blocks [] block_in = ([], block_in)"
| "dec_up_init ch ch_mult num_res_blocks (i_level # ls) block_in =
     (case dec_res_blocks (nat (num_res_blocks + 1)) block_in (ch * ch_mult ! i_level) of
        (block, block_in') \<Rightarrow>
          (case dec_up_init ch ch_mult num_res_blocks ls block_in' of
             (ups, block_in'') \<Rightarrow>
               (ups @ [(block, if i_level \<noteq> 0 then Some block_in' else None)], block_in'')))"

text \<open>
  The second loop builds \<open>self.up_temporal\<close>: at every level \<open>num_res_blocks + 1\<close> blocks on
  \<open>ch * ch_mult[i_level]\<close> channels, and a \<open>VidTokUpsample3D\<close> at the levels of \<open>tempo_us\<close>.
\<close>

definition dec_up_temporal_init ::
  "int \<Rightarrow> int list \<Rightarrow> int \<Rightarrow> int list \<Rightarrow> nat \<Rightarrow> (int \<times> int) list \<times> (int \<times> int) option" where
  "dec_up_temporal_init ch ch_mult num_res_blocks tempo_us i_level =
     (let block_in = ch * ch_mult ! i_level;
          block_out = ch * ch_mult ! i_level
      in case dec_res_blocks (nat (num_res_blocks + 1)) block_in block_out of
           (block, block_in') \<Rightarrow>
             (block, if int i_level \<in> set tempo_us then Some (block_in', block_in') else None))"

text \<open>
  \<open>VidTokDecoder3D.__init__\<close>. \<open>ch_mult[self.num_resolutions - 1]\<close> on an empty list is
  \<open>ch_mult[-1]\<close> and raises IndexError. Then \<open>conv_in\<close>, the middle block, the levels
  of \<open>self.up\<close> (resnet blocks, then \<open>VidTokUpsample2D\<close>) and of \<open>self.up_temporal\<close> (resnet
  blocks, then \<open>VidTokUpsample3D\<close>), both from the last level down, are built, and the
  final \<open>norm_out\<close> and \<open>conv_out\<close>, which take the \<open>block_in\<close> the second loop leaves,
  \<open>ch * ch_mult[0]\<close>; the first layer that cannot be built raises.
\<close>

definition VidTokDecoder3D_init ::
  "int \<Rightarrow> int list \<Rightarrow> int \<Rightarrow> real \<Rightarrow> int \<Rightarrow> int \<Rightarrow> bool \<Rightarrow> error + decoder3d" where
  "VidTokDecoder3D_init ch ch_mult num_res_blocks dropout z_channels out_channels is_causal =
     (if ch_mult = [] then Inl IndexError
      else
        (let num_resolutions = int (length ch_mult);
             block_in = ch * ch_mult ! (length ch_mult - 1);
             tempo_us = [1, 2];
             ups = fst (dec_up_init ch ch_mult num_res_blocks (rev [0..<length ch_mult]) block_in);
             ups_temporal =
               map (dec_up_temporal_init ch ch_mult num_res_blocks tempo_us) [0..<length ch_mult]
         in bind_result (layer_channels [z_channels, block_in]) (\<lambda>_.
            bind_result (VidTokResnetBlock_init (block_in, block_in) dropout) (\<lambda>_.
            bind_result (VidTokAttnBlockWrapper_init block_in) (\<lambda>_.
            bind_result (VidTokResnetBlock_init (block_in, block_in) dropout) (\<lambda>_.
            bind_result
              (sequence_results (map (\<lambda>u.
                 bind_result (resnet_blocks_init (fst u) dropout) (\<lambda>_.
                   case snd u of None \<Rightarrow> Inr () | Some c \<Rightarrow> layer_channels [c]))
                 (rev ups))) (\<lambda>_.
            bind_result
              (sequence_results (map (\<lambda>t.
                 bind_result (resnet_blocks_init (fst t) dropout) (\<lambda>_.
                   case snd t of None \<Rightarrow> Inr () | Some io \<Rightarrow> resample3d_init io))
                 (rev ups_temporal))) (\<lambda>_.
            bind_result (layer_channels [ch * ch_mult ! 0]) (\<lambda>_.
            bind_result (layer_channels [ch * ch_mult ! 0, out_channels]) (\<lambda>_.
            Inr \<lparr> dec_is_causal = is_causal,
                  dec_z_channels = z_channels,
                  dec_num_resolutions = num_resolutions,
                  dec_num_res_blocks = num_res_blocks,
                  dec_tempo_us = tempo_us,
                  dec_mid_channels = block_in,
                  dec_up =
                    map (\<lambda>(u, t). \<lparr> dl_block = fst u, dl_block_temporal = fst t,
                                    dl_upsample = snd u, dl_upsample_temporal = snd t \<rparr>)
                      (zip ups ups_temporal),
                  dec_norm_channels = ch * ch_mult ! 0,
                  dec_out_channels = out_channels \<rparr>))))))))))"




section \<open>The autoencoder\<close>

subsection \<open>Python arithmetic\<close>

text \<open>\<open>int(r)\<close> on a float truncates towards zero.\<close>

definition py_int :: "real \<Rightarrow> int" where
  "py_int r = (if 0 \<le> r then \<lfloor>r\<rfloor> else \<lceil>r\<rceil>)"

text \<open>\<open>2 ** e\<close> on ints; a negative exponent gives a float.\<close>

definition py_pow2 :: "int \<Rightarrow> real" where
  "py_pow2 e = (if 0 \<le> e then 2 ^ nat e else 1 / 2 ^ nat (- e))"

text \<open>
  The integer part of the exact logarithm to base 8 of \<open>c \<ge> 1\<close>: the \<open>k\<close> with
  \<open>8 ^ k \<le> c < 8 ^ (k + 1)\<close>. The program does not compute this number: it takes
  \<open>int(math.log(c, 8))\<close>, the integer part of a float, which is a parameter of the
  constructor below. The function serves to say when that float is exact in its integer
  part, and as the float of a platform where it always is (\<open>exact_log8\<close>).
\<close>

function py_int_log8 :: "int \<Rightarrow> int" where
  "py_int_log8 c = (if c < 8 then 0 else 1 + py_int_log8 (c div 8))"
  by pat_completeness auto
termination
  by (relation "measure nat") auto

declare py_int_log8.simps [simp del]

definition exact_log8 :: "int \<Rightarrow> real" where
  "exact_log8 c = real_of_int (py_int_log8 c)"

text \<open>
  \<open>a or b\<close> on an optional number: \<open>None\<close> and zero are falsy, so \<open>b\<close> is taken for them.
\<close>

definition py_or :: "'a::zero option \<Rightarrow> 'a \<Rightarrow> 'a" where
  "py_or a b = (case a of None \<Rightarrow> b | Some v \<Rightarrow> if v = 0 then b else v)"

text \<open>
  The length of the slice \<open>[start:stop]\<close> of an axis of \<open>n\<close> entries: a negative bound
  counts from the end, and both are clamped to the axis.
\<close>

definition py_clamp_index :: "nat \<Rightarrow> int \<Rightarrow> int" where
  "py_clamp_index n i = (if i < 0 then max 0 (int n + i) else min (int n) i)"


text \<open>\<open>range(0, stop, step)\<close>: ValueError for a zero step, empty for a negative one.\<close>

definition py_range_step :: "nat \<Rightarrow> int \<Rightarrow> error + nat list" where
  "py_range_step stop step =
     (if step = 0 then Inl ValueError
      else if step < 0 then Inr []
      else Inr (map (\<lambda>q. q * nat step) [0..<(stop + nat step - 1) div nat step]))"

subsection \<open>Configuration and state\<close>

text \<open>The arguments of \<open>AutoencoderVidTok.__init__\<close>, kept as \<open>self.config\<close>.\<close>

record vidtok_config =
  in_channels :: int
  out_channels :: int
  ch :: int
  ch_mult :: "int list"
  z_channels :: int
  double_z :: bool
  num_res_blocks :: int
  dropout :: real
  cfg_temporal_compression_ratio :: int
  cfg_regularizer :: string
  codebook_size :: int
  cfg_is_causal :: bool
  sample_height :: int
  sample_width :: int

record autoencoder =
  config :: vidtok_config
  is_causal :: bool
  encoder :: encoder3d
  decoder :: decoder3d
  temporal_compression_ratio :: int
  regularizer :: string
  use_slicing :: bool
  use_tiling :: bool
  tile_sample_min_height :: int
  tile_sample_min_width :: int
  tile_latent_min_height :: int
  tile_latent_min_width :: int
  tile_overlap_factor_height :: real
  tile_overlap_factor_width :: real

text \<open>
  The checks on the regularizer in the constructor. The message of the first assertion is
  the f-string \<^verbatim>\<open>f"Invalid regularizer: {self.regtype}. ..."\<close>; no attribute \<open>regtype\<close>
  is ever set, so when the assertion fails, building its message raises AttributeError.

  The second assertion compares \<open>z_channels\<close> with \<open>int(math.log(codebook_size, 8))\<close>.
  \<open>math.log\<close> raises ValueError for an argument that is not positive; for a positive one
  it returns a float, the rounded quotient of two rounded logarithms, which the model
  does not compute: the function \<open>math_log8\<close>, from a positive integer to the float that
  \<open>math.log(c, 8)\<close> returns for it, is a parameter. (The floats of CPython have the
  integer part of the exact logarithm for every \<open>c\<close> up to \<open>8 ^ 15\<close>; at \<open>8 ^ 16 - 1\<close>
  the float is 16.0, one more than the integer part of the exact logarithm.)

  Modelled from the spec: \<open>FSQRegularizer\<close> (imported from the module \<open>vae\<close>) is the
  quantizer; its constructor is taken to build a quantizer for the levels it is given.
\<close>

definition check_regularizer :: "(int \<Rightarrow> real) \<Rightarrow> vidtok_config \<Rightarrow> error + unit" where
  "check_regularizer math_log8 c =
     (if cfg_regularizer c \<notin> set [''kl'', ''fsq''] then Inl AttributeError
      else if cfg_regularizer c = ''fsq'' then
        (if codebook_size c \<le> 0 then Inl ValueError
         else if z_channels c = py_int (math_log8 (codebook_size c)) \<and> double_z c = False
           then Inr ()
         else Inl AssertionError)
      else Inr ())"

text \<open>
  \<open>AutoencoderVidTok.__init__\<close>: encoder, decoder, the checks, then the defaults. The
  latent tile sizes are \<open>int\<close> of a float quotient by a power of two, which is the exact
  quotient for tile sizes below \<open>2 ^ 53\<close>.
\<close>

definition AutoencoderVidTok_init ::
  "(int \<Rightarrow> real) \<Rightarrow> vidtok_config \<Rightarrow> error + autoencoder" where
  "AutoencoderVidTok_init math_log8 c =
     bind_result
       (VidTokEncoder3D_init (in_channels c) (ch c) (ch_mult c) (num_res_blocks c)
          (dropout c) (z_channels c) (double_z c) (cfg_is_causal c)) (\<lambda>enc.
     bind_result
       (VidTokDecoder3D_init (ch c) (ch_mult c) (num_res_blocks c) (dropout c)
          (z_channels c) (out_channels c) (cfg_is_causal c)) (\<lambda>dec.
     bind_result (check_regularizer math_log8 c) (\<lambda>_.
     (let tsmh = sample_height c div 2;
          tsmw = sample_width c div 2
      in Inr \<lparr> config = c,
               is_causal = cfg_is_causal c,
               encoder = enc,
               decoder = dec,
               temporal_compression_ratio = cfg_temporal_compression_ratio c,
               regularizer = cfg_regularizer c,
               use_slicing = False,
               use_tiling = False,
               tile_sample_min_height = tsmh,
               tile_sample_min_width = tsmw,
               tile_latent_min_height =
                 py_int (real_of_int tsmh / py_pow2 (int (length (ch_mult c)) - 1)),
               tile_latent_min_width =
                 py_int (real_of_int tsmw / py_pow2 (int (length (ch_mult c)) - 1)),
               tile_overlap_factor_height = 1 / 8,
               tile_overlap_factor_width = 1 / 8 \<rparr>))))"

subsection \<open>The runtime toggles\<close>

text \<open>
  \<open>enable_tiling\<close>: every optional argument is combined with the stored value by \<open>or\<close>;
  the latent tile sizes are computed from the sample tile sizes just stored.
\<close>

definition enable_tiling ::
  "autoencoder \<Rightarrow> int option \<Rightarrow> int option \<Rightarrow> real option \<Rightarrow> real option \<Rightarrow> autoencoder" where
  "enable_tiling m tsmh_arg tsmw_arg tofh_arg tofw_arg =
     (let tsmh = py_or tsmh_arg (tile_sample_min_height m);
          tsmw = py_or tsmw_arg (tile_sample_min_width m)
      in m \<lparr> use_tiling := True,
             tile_sample_min_height := tsmh,
             tile_sample_min_width := tsmw,
             tile_latent_min_height :=
               py_int (real_of_int tsmh / py_pow2 (int (length (ch_mult (config m))) - 1)),
             tile_latent_min_width :=
               py_int (real_of_int tsmw / py_pow2 (int (length (ch_mult (config m))) - 1)),
             tile_overlap_factor_height := py_or tofh_arg (tile_overlap_factor_height m),
             tile_overlap_factor_width := py_or tofw_arg (tile_overlap_factor_width m) \<rparr>)"

definition disable_tiling :: "autoencoder \<Rightarrow> autoencoder" where
  "disable_tiling m = m \<lparr> use_tiling := False \<rparr>"

definition enable_slicing :: "autoencoder \<Rightarrow> autoencoder" where
  "enable_slicing m = m \<lparr> use_slicing := True \<rparr>"

definition disable_slicing :: "autoencoder \<Rightarrow> autoencoder" where
  "disable_slicing m = m \<lparr> use_slicing := False \<rparr>"

subsection \<open>Tiled encoding and decoding on shapes\<close>











subsection \<open>Encode, decode and forward on shapes\<close>









subsection \<open>The levels that resample time\<close>

text \<open>
  The encoder's constructor sets \<open>down_temporal[i].downsample\<close> at the levels \<open>i\<close> that are
  not the last one and are in \<open>tempo_ds = [L - 2, L - 3]\<close>; the decoder's sets
  \<open>up_temporal[i].upsample\<close> at the levels in \<open>tempo_us = [1, 2]\<close>.
\<close>

definition tlevel :: "nat \<Rightarrow> nat \<Rightarrow> bool" where
  "tlevel L i = (int i \<noteq> int L - 1 \<and> (int i = int L - 2 \<or> int i = int L - 3))"


text \<open>The levels of a constructed encoder that hold a temporal downsample.\<close>

definition enc_temporal_levels :: "encoder3d \<Rightarrow> nat list" where
  "enc_temporal_levels e =
     filter (\<lambda>i. el_downsample_temporal (enc_down e ! i) \<noteq> None) [0..<length (enc_down e)]"

subsection \<open>Valid configurations\<close>

text \<open>
  A configuration with positive channel counts, at least one level, positive
  multipliers, at least one resnet block per level and a dropout rate between 0 and 1:
  the layers of the pyramids can then be built and fit each other.
\<close>

definition well_formed_config :: "vidtok_config \<Rightarrow> bool" where
  "well_formed_config c =
     (0 < in_channels c \<and> 0 < out_channels c \<and> 0 < ch c \<and> ch_mult c \<noteq> []
      \<and> list_all (\<lambda>k. 0 < k) (ch_mult c)
      \<and> 0 < z_channels c \<and> 1 \<le> num_res_blocks c \<and> 0 \<le> dropout c \<and> dropout c \<le> 1)"


text \<open>
  The states of an autoencoder constructed from a configuration: the runtime toggles
  change the slicing and tiling flags and the tile settings, and nothing else.
\<close>

definition constructed_from ::
  "(int \<Rightarrow> real) \<Rightarrow> vidtok_config \<Rightarrow> autoencoder \<Rightarrow> bool" where
  "constructed_from math_log8 c m =
     (case AutoencoderVidTok_init math_log8 c of
        Inl _ \<Rightarrow> False
      | Inr m0 \<Rightarrow>
          config m = config m0 \<and> is_causal m = is_causal m0 \<and> encoder m = encoder m0
          \<and> decoder m = decoder m0 \<and> regularizer m = regularizer m0
          \<and> temporal_compression_ratio m = temporal_compression_ratio m0)"

subsection \<open>Two configurations\<close>

text \<open>
  The configuration of the repository's test script (\<open>test.py\<close>), and the discrete
  configuration of the spec's round trip (codebook size \<open>8 ^ 4\<close>, four latent channels).
\<close>

definition test_config :: vidtok_config where
  "test_config =
     \<lparr> in_channels = 3, out_channels = 3, ch = 128, ch_mult = [1, 2, 4, 4],
       z_channels = 16, double_z = True, num_res_blocks = 2, dropout = 0,
       cfg_temporal_compression_ratio = 4, cfg_regularizer = ''kl'',
       codebook_size = 262144, cfg_is_causal = True,
       sample_height = 256, sample_width = 256 \<rparr>"


section \<open>Tensor values\<close>

text \<open>
  Tensors as nested lists of reals, outermost axis first: a 3D tensor of the 1D
  convolution is batch, channel, time; a 5D tensor is batch, channel, time, height,
  width. The reals stand for the floats of the program: rounding is not modelled.
\<close>

type_synonym tensor3 = "real list list list"
type_synonym tensor5 = "real list list list list list"

text \<open>The extent of the next axis, read off the first entry (0 for an empty list).\<close>

definition hd_len :: "'a list list \<Rightarrow> nat" where
  "hd_len xs = (case xs of [] \<Rightarrow> 0 | x # _ \<Rightarrow> length x)"

definition hd_or :: "'a \<Rightarrow> 'a list \<Rightarrow> 'a" where
  "hd_or d xs = (case xs of [] \<Rightarrow> d | x # _ \<Rightarrow> x)"

definition shape5_of :: "tensor5 \<Rightarrow> shape5" where
  "shape5_of x =
     (length x, hd_len x, hd_len (hd_or [] x), hd_len (hd_or [] (hd_or [] x)),
      hd_len (hd_or [] (hd_or [] (hd_or [] x))))"

text \<open>A nested list is a tensor of a given shape when every list has the length of its axis.\<close>

definition is_tensor5 :: "shape5 \<Rightarrow> tensor5 \<Rightarrow> bool" where
  "is_tensor5 sh x =
     (case sh of (B, C, T, H, W) \<Rightarrow>
        length x = B \<and> list_all (\<lambda>s. length s = C \<and> list_all (\<lambda>ch. length ch = T
          \<and> list_all (\<lambda>fr. length fr = H \<and> list_all (\<lambda>row. length row = W) fr) ch) s) x)"

definition is_tensor3 :: "nat \<times> nat \<times> nat \<Rightarrow> tensor3 \<Rightarrow> bool" where
  "is_tensor3 sh x =
     (case sh of (N, C, T) \<Rightarrow>
        length x = N \<and> list_all (\<lambda>s. length s = C \<and> list_all (\<lambda>ch. length ch = T) s) x)"

section \<open>Padding\<close>

text \<open>
  \<open>torch.nn.functional.pad\<close> along one axis, by \<open>l\<close> entries in front and \<open>r\<close> behind. A
  negative amount crops. \<open>constant\<close> fills with the value \<open>z\<close> (zero), \<open>replicate\<close> repeats
  the edge entry, \<open>reflect\<close> mirrors the entries next to the edge (the edge itself is not
  repeated, so the amount must be smaller than the axis), \<open>circular\<close> wraps around. An
  unknown mode raises NotImplementedError.
\<close>

definition pad_front :: "string \<Rightarrow> nat \<Rightarrow> 'a \<Rightarrow> 'a list \<Rightarrow> 'a list" where
  "pad_front mode l z xs =
     (if mode = ''constant'' then replicate l z
      else if mode = ''replicate'' then replicate l (hd_or z xs)
      else if mode = ''reflect'' then rev (take l (drop 1 xs))
      else drop (length xs - l) xs)"

definition pad_back :: "string \<Rightarrow> nat \<Rightarrow> 'a \<Rightarrow> 'a list \<Rightarrow> 'a list" where
  "pad_back mode r z xs =
     (if mode = ''constant'' then replicate r z
      else if mode = ''replicate'' then replicate r (hd_or z (rev xs))
      else if mode = ''reflect'' then take r (drop 1 (rev xs))
      else take r xs)"

definition F_pad_axis :: "string \<Rightarrow> int \<Rightarrow> int \<Rightarrow> 'a \<Rightarrow> 'a list \<Rightarrow> error + 'a list" where
  "F_pad_axis mode l r z xs =
     (let n = int (length xs) in
      if mode \<notin> set [''constant'', ''replicate'', ''reflect'', ''circular'']
        then Inl NotImplementedError
      else if n + l + r < 0 then Inl RuntimeError
      else if mode = ''replicate'' \<and> n = 0 \<and> (0 < l \<or> 0 < r) then Inl RuntimeError
      else if mode = ''reflect'' \<and> (n \<le> l \<or> n \<le> r) then Inl RuntimeError
      else if mode = ''circular'' \<and> (n < l \<or> n < r) then Inl RuntimeError
      else Inr (pad_front mode (nat l) z xs
                @ drop (nat (- l)) (take (nat (n + min r 0)) xs)
                @ pad_back mode (nat r) z xs))"

text \<open>Mapping a fallible function over a list, stopping at the first error.\<close>

definition map_results :: "('a \<Rightarrow> error + 'b) \<Rightarrow> 'a list \<Rightarrow> error + 'b list" where
  "map_results f xs = sequence_results (map f xs)"

section \<open>The causal convolutions: forward\<close>

subsection \<open>VidTokCausalConv1d.forward\<close>

text \<open>
  \<open>nn.Conv1d\<close> without padding on a padded tensor: with weight \<open>w\<close> (output channel,
  input channel, tap) and bias \<open>b\<close>, the output at step \<open>t\<close> sums the taps at the steps
  \<open>t * stride + i * dilation\<close>. The channel count of the input must be that of the weight.
\<close>

definition conv1d_at ::
  "real list list list \<Rightarrow> real list \<Rightarrow> nat \<Rightarrow> nat \<Rightarrow> nat \<Rightarrow> real list list \<Rightarrow> nat \<Rightarrow> nat \<Rightarrow> real"
  where
  "conv1d_at w b k d s xp out_ch t =
     b ! out_ch + (\<Sum>c\<leftarrow>[0..<length xp]. \<Sum>i\<leftarrow>[0..<k]. w ! out_ch ! c ! i * xp ! c ! (t * s + i * d))"

definition nn_Conv1d ::
  "real list list list \<Rightarrow> real list \<Rightarrow> int \<Rightarrow> int \<Rightarrow> int \<Rightarrow> tensor3 \<Rightarrow> error + tensor3" where
  "nn_Conv1d w b k d s xp =
     (if k < 1 \<or> d < 1 then Inl RuntimeError
      else if \<not> list_all (\<lambda>sample. length sample = hd_len w) xp then Inl RuntimeError
      else
        bind_result (conv_len (int (hd_len (hd_or [] xp))) k d s) (\<lambda>T'.
        Inr (map (\<lambda>sample.
               map (\<lambda>out_ch.
                 map (conv1d_at w b (nat k) (nat d) (nat s) sample out_ch) [0..<T'])
               [0..<length w]) xp)))"

text \<open>
  \<open>VidTokCausalConv1d.forward\<close>: the padding mode is chosen from the time length
  \<open>x.shape[2]\<close>, the time axis is padded by \<open>(time_pad, 0)\<close>, and the convolution runs.
\<close>

definition VidTokCausalConv1d_forward ::
  "causal_conv1d \<Rightarrow> real list list list \<Rightarrow> real list \<Rightarrow> tensor3 \<Rightarrow> error + tensor3" where
  "VidTokCausalConv1d_forward c w b x =
     (let pad_mode = conv1d_forward_pad_mode c (hd_len (hd_or [] x)) in
      bind_result
        (map_results (map_results
           (F_pad_axis pad_mode (fst (c1_time_causal_padding c))
              (snd (c1_time_causal_padding c)) 0)) x) (\<lambda>xp.
      nn_Conv1d w b (c1_kernel_size c) (c1_dilation c) (c1_stride c) xp))"

subsection \<open>VidTokCausalConv3d.forward\<close>

text \<open>
  \<open>F.pad\<close> of a 5D tensor by a six-entry tuple pads width, height and time; in every
  mode the three axes are padded one after the other. The constant fill of the height
  axis is a row of zeros, that of the time axis a frame of zeros.
\<close>

definition pad_frame ::
  "string \<Rightarrow> int \<Rightarrow> int \<Rightarrow> int \<Rightarrow> int \<Rightarrow> real list \<Rightarrow> real list list \<Rightarrow> error + real list list"
  where
  "pad_frame mode pwl pwr phl phr zero_row frame =
     bind_result (map_results (F_pad_axis mode pwl pwr 0) frame)
       (F_pad_axis mode phl phr zero_row)"

definition F_pad5 ::
  "string \<Rightarrow> int \<times> int \<times> int \<times> int \<times> int \<times> int \<Rightarrow> tensor5 \<Rightarrow> error + tensor5" where
  "F_pad5 mode pads x =
     (case (pads, shape5_of x) of
        ((pwl, pwr, phl, phr, ptl, ptr), (B, C, T, H, W)) \<Rightarrow>
          (let zero_row = replicate (nat (int W + pwl + pwr)) (0::real);
               zero_frame = replicate (nat (int H + phl + phr)) zero_row
           in map_results (map_results (\<lambda>frames.
                bind_result
                  (map_results (pad_frame mode pwl pwr phl phr zero_row) frames)
                  (F_pad_axis mode ptl ptr zero_frame))) x))"

text \<open>
  \<open>nn.Conv3d\<close> without padding: weight \<open>w\<close> (output channel, input channel, time tap,
  height tap, width tap) and bias \<open>b\<close>.
\<close>

definition conv3d_at ::
  "real list list list list list \<Rightarrow> real list \<Rightarrow> nat list \<Rightarrow> nat list \<Rightarrow> nat list
     \<Rightarrow> real list list list list \<Rightarrow> nat \<Rightarrow> nat \<Rightarrow> nat \<Rightarrow> nat \<Rightarrow> real" where
  "conv3d_at w b k d s xp out_ch t y x =
     b ! out_ch +
     (\<Sum>c\<leftarrow>[0..<length xp]. \<Sum>i\<leftarrow>[0..<k ! 0]. \<Sum>j\<leftarrow>[0..<k ! 1]. \<Sum>l\<leftarrow>[0..<k ! 2].
        w ! out_ch ! c ! i ! j ! l
          * xp ! c ! (t * s ! 0 + i * d ! 0) ! (y * s ! 1 + j * d ! 1) ! (x * s ! 2 + l * d ! 2))"

definition nn_Conv3d ::
  "real list list list list list \<Rightarrow> real list \<Rightarrow> int list \<Rightarrow> int list \<Rightarrow> int list
     \<Rightarrow> tensor5 \<Rightarrow> error + tensor5" where
  "nn_Conv3d w b k d s xp =
     (if \<not> list_all (\<lambda>v. 1 \<le> v) (k @ d) then Inl RuntimeError
      else if \<not> list_all (\<lambda>sample. length sample = hd_len w) xp then Inl RuntimeError
      else
        (case shape5_of xp of (B, C, T, H, W) \<Rightarrow>
           bind_result (conv_len (int T) (k ! 0) (d ! 0) (s ! 0)) (\<lambda>T'.
           bind_result (conv_len (int H) (k ! 1) (d ! 1) (s ! 1)) (\<lambda>H'.
           bind_result (conv_len (int W) (k ! 2) (d ! 2) (s ! 2)) (\<lambda>W'.
           Inr (map (\<lambda>sample.
                  map (\<lambda>out_ch.
                    map (\<lambda>t. map (\<lambda>y. map (\<lambda>x.
                      conv3d_at w b (map nat k) (map nat d) (map nat s) sample out_ch t y x)
                      [0..<W']) [0..<H']) [0..<T'])
                  [0..<length w]) xp))))))"

definition VidTokCausalConv3d_forward ::
  "causal_conv3d \<Rightarrow> real list list list list list \<Rightarrow> real list \<Rightarrow> tensor5 \<Rightarrow> error + tensor5"
  where
  "VidTokCausalConv3d_forward c w b x =
     (let pad_mode = conv3d_forward_pad_mode c (fst (snd (snd (shape5_of x)))) in
      bind_result (F_pad5 pad_mode (c3_time_causal_padding c) x) (\<lambda>xp.
      nn_Conv3d w b (c3_kernel_size c) (c3_dilation c) (c3_stride c) xp))"

text \<open>A weight of one output and one input channel with all 27 taps equal to 1.\<close>

definition ones_kernel3 :: "real list list list list list" where
  "ones_kernel3 = [[replicate 3 (replicate 3 (replicate 3 1))]]"

subsection \<open>The mixed resampling blocks: forward\<close>

text \<open>
  The mix parameter is a float, which can be driven to an infinity; \<open>torch.sigmoid\<close> is
  0 at minus infinity and 1 at plus infinity.
\<close>

datatype float_value = MinusInfinity | Finite real | PlusInfinity

definition torch_sigmoid :: "float_value \<Rightarrow> real" where
  "torch_sigmoid v =
     (case v of MinusInfinity \<Rightarrow> 0 | Finite r \<Rightarrow> 1 / (1 + exp (- r)) | PlusInfinity \<Rightarrow> 1)"

text \<open>
  Elementwise arithmetic on 5D tensors: a scalar times a tensor, and the sum of two
  tensors, which must have one shape (broadcasting of unequal shapes is not modelled:
  the two paths of a block built with equal channel counts have one shape).
\<close>

definition tensor_scale :: "real \<Rightarrow> tensor5 \<Rightarrow> tensor5" where
  "tensor_scale a x = map (map (map (map (map (\<lambda>v. a * v))))) x"

definition same_shape5 :: "tensor5 \<Rightarrow> tensor5 \<Rightarrow> bool" where
  "same_shape5 x y =
     list_all2 (list_all2 (list_all2 (list_all2 (\<lambda>r s. length r = length s)))) x y"

definition tensor_add :: "tensor5 \<Rightarrow> tensor5 \<Rightarrow> error + tensor5" where
  "tensor_add x y =
     (if same_shape5 x y
      then Inr (map2 (map2 (map2 (map2 (map2 (\<lambda>u v. u + v))))) x y)
      else Inl RuntimeError)"

text \<open>\<open>alpha * x1 + (1 - alpha) * x2\<close>, the last line of both forward methods.\<close>

definition mix_paths :: "real \<Rightarrow> tensor5 \<Rightarrow> tensor5 \<Rightarrow> error + tensor5" where
  "mix_paths alpha x1 x2 = tensor_add (tensor_scale alpha x1) (tensor_scale (1 - alpha) x2)"

text \<open>
  \<open>nn.AvgPool3d((3, 1, 1), stride=(2, 1, 1))\<close>: the mean of three consecutive frames,
  every second step.
\<close>

definition AvgPool3d_311 :: "tensor5 \<Rightarrow> error + tensor5" where
  "AvgPool3d_311 x =
     (case shape5_of x of (B, C, T, H, W) \<Rightarrow>
        bind_result (conv_len (int T) 3 1 2) (\<lambda>T'.
        Inr (map (map (\<lambda>ch.
               map (\<lambda>t. map (\<lambda>y. map (\<lambda>x.
                 (ch ! (2 * t) ! y ! x + ch ! (2 * t + 1) ! y ! x + ch ! (2 * t + 2) ! y ! x) / 3)
                 [0..<W]) [0..<H]) [0..<T'])) x)))"

text \<open>
  A mixed block holds its causality flag, the weight and bias of its convolution, and
  the mix parameter.
\<close>

record mixed_block =
  mb_is_causal :: bool
  mb_weight :: "real list list list list list"
  mb_bias :: "real list"
  mb_mix_factor :: float_value

text \<open>
  The two paths of \<open>VidTokDownsample3D.forward\<close>: \<open>x1\<close>, the average pool of the input
  padded by one zero frame (in front when causal, behind otherwise), and \<open>x2\<close>, the
  convolution with stride \<open>(2, 1, 1)\<close>: \<open>VidTokCausalConv3d(.., 3, stride=(2, 1, 1))\<close> on
  the input, or \<open>nn.Conv3d(.., 3, stride=(2, 1, 1), padding=(0, 1, 1))\<close> on the padded
  input (the non-causal branch rebinds \<open>x\<close> to the padded tensor).
\<close>

definition VidTokDownsample3D_paths :: "mixed_block \<Rightarrow> tensor5 \<Rightarrow> error + tensor5 \<times> tensor5" where
  "VidTokDownsample3D_paths blk x =
     (if mb_is_causal blk then
        bind_result (F_pad5 ''constant'' (0, 0, 0, 0, 1, 0) x) (\<lambda>xpad.
        bind_result (AvgPool3d_311 xpad) (\<lambda>x1.
        bind_result
          (VidTokCausalConv3d_init (IntArg 3) ''constant'' None (Some (TupleArg [2, 1, 1])))
          (\<lambda>conv.
        bind_result (VidTokCausalConv3d_forward conv (mb_weight blk) (mb_bias blk) x) (\<lambda>x2.
        Inr (x1, x2)))))
      else
        bind_result (F_pad5 ''constant'' (0, 0, 0, 0, 0, 1) x) (\<lambda>xpad.
        bind_result (AvgPool3d_311 xpad) (\<lambda>x1.
        bind_result (F_pad5 ''constant'' (1, 1, 1, 1, 0, 0) xpad) (\<lambda>xpad2.
        bind_result
          (nn_Conv3d (mb_weight blk) (mb_bias blk) [3, 3, 3] [1, 1, 1] [2, 1, 1] xpad2) (\<lambda>x2.
        Inr (x1, x2))))))"

definition VidTokDownsample3D_forward :: "mixed_block \<Rightarrow> tensor5 \<Rightarrow> error + tensor5" where
  "VidTokDownsample3D_forward blk x =
     (let alpha = torch_sigmoid (mb_mix_factor blk) in
      bind_result (VidTokDownsample3D_paths blk x) (\<lambda>(x1, x2). mix_paths alpha x1 x2))"

text \<open>
  \<open>F.interpolate(.., scale_factor=[2.0, 1.0, 1.0], mode="nearest")\<close> on one sample: every
  frame is repeated once. The casts to \<open>float32\<close> and back change no real.
\<close>

definition interpolate_time2 :: "real list list list list \<Rightarrow> real list list list list" where
  "interpolate_time2 sx = map (\<lambda>ch. concat (map (\<lambda>frame. [frame, frame]) ch)) sx"

text \<open>
  The two paths of \<open>VidTokUpsample3D.forward\<close>: the samples interpolated one by one and
  concatenated (\<open>torch.cat\<close> needs at least one), and the convolution
  (\<open>VidTokCausalConv3d(.., 3)\<close> or \<open>nn.Conv3d(.., 3, padding=1)\<close>) of the result.
\<close>

definition VidTokUpsample3D_paths :: "mixed_block \<Rightarrow> tensor5 \<Rightarrow> error + tensor5 \<times> tensor5" where
  "VidTokUpsample3D_paths blk x =
     (if x = [] then Inl RuntimeError
      else
        (let xup = map interpolate_time2 x in
         bind_result
           (if mb_is_causal blk then
              bind_result (VidTokCausalConv3d_init (IntArg 3) ''constant'' None None) (\<lambda>conv.
              VidTokCausalConv3d_forward conv (mb_weight blk) (mb_bias blk) xup)
            else
              bind_result (F_pad5 ''constant'' (1, 1, 1, 1, 1, 1) xup) (\<lambda>xpad.
              nn_Conv3d (mb_weight blk) (mb_bias blk) [3, 3, 3] [1, 1, 1] [1, 1, 1] xpad))
           (\<lambda>xconv. Inr (xup, xconv))))"

definition VidTokUpsample3D_forward :: "mixed_block \<Rightarrow> tensor5 \<Rightarrow> error + tensor5" where
  "VidTokUpsample3D_forward blk x =
     (let alpha = torch_sigmoid (mb_mix_factor blk) in
      bind_result (VidTokUpsample3D_paths blk x) (\<lambda>(x1, x2). mix_paths alpha x1 x2))"

text \<open>A block with one channel, an all-ones kernel and no bias.\<close>

definition unit_block :: mixed_block where
  "unit_block = \<lparr> mb_is_causal = True, mb_weight = ones_kernel3, mb_bias = [0],
                  mb_mix_factor = Finite 2 \<rparr>"


section \<open>Tiled encoding and decoding on values\<close>

subsection \<open>Slices, broadcasting and concatenation\<close>

text \<open>
  The slice \<open>xs[start:stop]\<close> of a list, and the slice
  \<open>x[:, :, :, h0:h1, w0:w1]\<close> of a 5D tensor.
\<close>

definition py_slice :: "int \<Rightarrow> int \<Rightarrow> 'a list \<Rightarrow> 'a list" where
  "py_slice start stop xs =
     (let lo = nat (py_clamp_index (length xs) start);
          hi = nat (py_clamp_index (length xs) stop)
      in take (hi - lo) (drop lo xs))"

definition slice_hw :: "int \<Rightarrow> int \<Rightarrow> int \<Rightarrow> int \<Rightarrow> tensor5 \<Rightarrow> tensor5" where
  "slice_hw h0 h1 w0 w1 x =
     map (map (map (\<lambda>frame. map (py_slice w0 w1) (py_slice h0 h1 frame)))) x"

text \<open>
  Broadcasting along one axis: an axis of the wanted extent is taken as it is, an axis of
  extent 1 is repeated, anything else is a RuntimeError. \<open>zip_broadcast f as bs\<close> brings
  \<open>as\<close> to the extent of \<open>bs\<close> and combines the entries pairwise.
\<close>

definition broadcast_to :: "nat \<Rightarrow> 'a list \<Rightarrow> error + 'a list" where
  "broadcast_to n xs =
     (if length xs = n then Inr xs
      else if length xs = 1 then Inr (replicate n (hd xs))
      else Inl RuntimeError)"

definition zip_broadcast ::
  "('a \<Rightarrow> 'b \<Rightarrow> error + 'c) \<Rightarrow> 'a list \<Rightarrow> 'b list \<Rightarrow> error + 'c list" where
  "zip_broadcast f as bs =
     bind_result (broadcast_to (length bs) as) (\<lambda>as'.
       map_results (\<lambda>(a, b). f a b) (zip as' bs))"

text \<open>A loop over a list that updates a state and stops at the first error.\<close>

fun fold_results :: "('a \<Rightarrow> 's \<Rightarrow> error + 's) \<Rightarrow> 'a list \<Rightarrow> 's \<Rightarrow> error + 's" where
  "fold_results f [] s = Inr s"
| "fold_results f (x # xs) s = bind_result (f x s) (fold_results f xs)"

text \<open>
  \<open>torch.cat\<close> of tensor values along the width (\<open>dim=4\<close>), the height (\<open>dim=3\<close>) and the
  batch (\<open>dim=0\<close>, the default): the list must not be empty, and the tensors must agree
  in every other extent.
\<close>

fun cat_dim4_values :: "tensor5 list \<Rightarrow> error + tensor5" where
  "cat_dim4_values [] = Inl RuntimeError"
| "cat_dim4_values [t] = Inr t"
| "cat_dim4_values (t # ts) =
     bind_result (cat_dim4_values ts) (\<lambda>r.
       case (shape5_of t, shape5_of r) of ((B, C, T, H, W), (B', C', T', H', W')) \<Rightarrow>
         if (B, C, T, H) = (B', C', T', H')
         then Inr (map2 (map2 (map2 (map2 (@)))) t r)
         else Inl RuntimeError)"

fun cat_dim3_values :: "tensor5 list \<Rightarrow> error + tensor5" where
  "cat_dim3_values [] = Inl RuntimeError"
| "cat_dim3_values [t] = Inr t"
| "cat_dim3_values (t # ts) =
     bind_result (cat_dim3_values ts) (\<lambda>r.
       case (shape5_of t, shape5_of r) of ((B, C, T, H, W), (B', C', T', H', W')) \<Rightarrow>
         if (B, C, T, W) = (B', C', T', W')
         then Inr (map2 (map2 (map2 (@))) t r)
         else Inl RuntimeError)"

subsection \<open>blend_v and blend_h\<close>

text \<open>
  One pass of the loop of \<open>blend_v\<close>:
  \<^verbatim>\<open>b[:, :, :, y, :] = a[:, :, :, -e + y, :] * (1 - y / e) + b[:, :, :, y, :] * (y / e)\<close>.
  The row \<open>y\<close> of every frame of \<open>b\<close> is overwritten; the batch, channel, time and width
  axes of \<open>a\<close> are broadcast to those of \<open>b\<close>. \<open>/\<close> is the division of floats.
\<close>

definition blend_v_at :: "nat \<Rightarrow> nat \<Rightarrow> tensor5 \<Rightarrow> tensor5 \<Rightarrow> error + tensor5" where
  "blend_v_at e y a b =
     zip_broadcast (zip_broadcast (zip_broadcast (\<lambda>fa fb.
       bind_result (broadcast_to (length (fb ! y)) (fa ! (length fa - e + y))) (\<lambda>ra.
         Inr (fb[y := map2 (\<lambda>u v. u * (1 - real y / real e) + v * (real y / real e))
                        ra (fb ! y)]))))) a b"

text \<open>
  One pass of the loop of \<open>blend_h\<close>:
  \<^verbatim>\<open>b[:, :, :, :, x] = a[:, :, :, :, -e + x] * (1 - x / e) + b[:, :, :, :, x] * (x / e)\<close>.
\<close>

definition blend_h_at :: "nat \<Rightarrow> nat \<Rightarrow> tensor5 \<Rightarrow> tensor5 \<Rightarrow> error + tensor5" where
  "blend_h_at e x a b =
     zip_broadcast (zip_broadcast (zip_broadcast (zip_broadcast (\<lambda>ra rb.
       Inr (rb[x := ra ! (length ra - e + x) * (1 - real x / real e)
                      + rb ! x * (real x / real e)]))))) a b"

text \<open>
  \<open>blend_v(a, b, blend_extent)\<close> and \<open>blend_h\<close>: the extent is cut down to the heights
  (widths) of the two tensors, the loop writes into \<open>b\<close>, and \<open>b\<close> is returned. The value
  returned here is the content of \<open>b\<close> after the call.
\<close>

definition blend_v :: "tensor5 \<Rightarrow> tensor5 \<Rightarrow> int \<Rightarrow> error + tensor5" where
  "blend_v a b blend_extent =
     (case (shape5_of a, shape5_of b) of ((Ba, Ca, Ta, Ha, Wa), (Bb, Cb, Tb, Hb, Wb)) \<Rightarrow>
        (let e = nat (min (min (int Ha) (int Hb)) blend_extent)
         in fold_results (\<lambda>y b. blend_v_at e y a b) [0..<e] b))"

definition blend_h :: "tensor5 \<Rightarrow> tensor5 \<Rightarrow> int \<Rightarrow> error + tensor5" where
  "blend_h a b blend_extent =
     (case (shape5_of a, shape5_of b) of ((Ba, Ca, Ta, Ha, Wa), (Bb, Cb, Tb, Hb, Wb)) \<Rightarrow>
        (let e = nat (min (min (int Wa) (int Wb)) blend_extent)
         in fold_results (\<lambda>x b. blend_h_at e x a b) [0..<e] b))"

subsection \<open>The two loop nests\<close>

text \<open>
  The first loop nest of \<open>tiled_encode\<close> and \<open>tiled_decode\<close>: the tile at \<open>(i, j)\<close> is the
  slice \<open>[i : i + tile_min_height, j : j + tile_min_width]\<close> of the spatial plane, passed
  through the network \<open>net\<close> (the forward function of the encoder or of the decoder, which
  returns a new tensor for every tile).
\<close>

definition tile_rows ::
  "(tensor5 \<Rightarrow> error + tensor5) \<Rightarrow> tensor5 \<Rightarrow> int \<Rightarrow> int \<Rightarrow> int \<Rightarrow> int
     \<Rightarrow> error + tensor5 list list" where
  "tile_rows net x overlap_height overlap_width tile_min_height tile_min_width =
     (case shape5_of x of (B, C, T, height, width) \<Rightarrow>
        bind_result (py_range_step height overlap_height) (\<lambda>is.
        map_results (\<lambda>i.
          bind_result (py_range_step width overlap_width) (\<lambda>js.
          map_results (\<lambda>j.
            net (slice_hw (int i) (int i + tile_min_height)
                   (int j) (int j + tile_min_width) x)) js)) is))"

text \<open>
  The body of the second loop nest for the tile at \<open>(i, j)\<close>. The grid \<open>rows\<close> is the
  store: \<open>tile\<close> is the tensor \<open>rows[i][j]\<close> itself, \<open>blend_v\<close> and \<open>blend_h\<close> write into it,
  so after each call the entry \<open>(i, j)\<close> of the grid holds the blended tile. The upper
  neighbour is read from the grid as \<open>rows[i - 1][j]\<close> and the left one as \<open>row[j - 1]\<close>,
  where \<open>row\<close> is the list \<open>rows[i]\<close>.
\<close>

definition blend_tile ::
  "int \<Rightarrow> int \<Rightarrow> nat \<Rightarrow> nat \<Rightarrow> tensor5 list list \<Rightarrow> error + tensor5 list list" where
  "blend_tile blend_extent_height blend_extent_width i j rows =
     bind_result
       (if 0 < i then
          (if j < length (rows ! (i - 1)) then
             bind_result (blend_v (rows ! (i - 1) ! j) (rows ! i ! j) blend_extent_height)
               (\<lambda>tile. Inr (rows[i := (rows ! i)[j := tile]]))
           else Inl IndexError)
        else Inr rows) (\<lambda>rows1.
     if 0 < j then
       bind_result (blend_h (rows1 ! i ! (j - 1)) (rows1 ! i ! j) blend_extent_width)
         (\<lambda>tile. Inr (rows1[i := (rows1 ! i)[j := tile]]))
     else Inr rows1)"

text \<open>
  The inner loop over the tiles of row \<open>i\<close>: each tile is blended, its crop
  \<open>tile[:, :, :, :row_limit_height, :row_limit_width]\<close> is appended to \<open>result_row\<close>, and
  the crops are concatenated along the width. The state is the grid and \<open>result_row\<close>.
\<close>

definition stitch_row ::
  "int \<Rightarrow> int \<Rightarrow> int \<Rightarrow> int \<Rightarrow> nat \<Rightarrow> tensor5 list list
     \<Rightarrow> error + tensor5 list list \<times> tensor5" where
  "stitch_row blend_extent_height blend_extent_width row_limit_height row_limit_width i rows =
     bind_result
       (fold_results (\<lambda>j (rows, result_row).
          bind_result (blend_tile blend_extent_height blend_extent_width i j rows) (\<lambda>rows'.
            Inr (rows', result_row
                   @ [slice_hw 0 row_limit_height 0 row_limit_width (rows' ! i ! j)])))
          [0..<length (rows ! i)] (rows, [])) (\<lambda>(rows', result_row).
     bind_result (cat_dim4_values result_row) (\<lambda>r. Inr (rows', r)))"

text \<open>
  The outer loop over the rows, and the concatenation of the result rows along the
  height. The grid as the loops leave it is returned with the result.
\<close>

definition stitch_rows ::
  "tensor5 list list \<Rightarrow> int \<Rightarrow> int \<Rightarrow> int \<Rightarrow> int \<Rightarrow> error + tensor5 list list \<times> tensor5" where
  "stitch_rows rows blend_extent_height blend_extent_width row_limit_height row_limit_width =
     bind_result
       (fold_results (\<lambda>i (rows, result_rows).
          bind_result
            (stitch_row blend_extent_height blend_extent_width row_limit_height
               row_limit_width i rows) (\<lambda>(rows', r).
            Inr (rows', result_rows @ [r])))
          [0..<length rows] (rows, [])) (\<lambda>(rows', result_rows).
     bind_result (cat_dim3_values result_rows) (\<lambda>r. Inr (rows', r)))"

subsection \<open>tiled_encode and tiled_decode\<close>

text \<open>
  The local variables of \<open>tiled_encode\<close>: \<open>overlap_height\<close>, \<open>overlap_width\<close>,
  \<open>blend_extent_height\<close>, \<open>blend_extent_width\<close>, \<open>row_limit_height\<close>, \<open>row_limit_width\<close>.
\<close>

definition tiled_encode_locals :: "autoencoder \<Rightarrow> int \<times> int \<times> int \<times> int \<times> int \<times> int" where
  "tiled_encode_locals m =
     (let overlap_height = py_int (real_of_int (tile_sample_min_height m)
                                    * (1 - tile_overlap_factor_height m));
          overlap_width = py_int (real_of_int (tile_sample_min_width m)
                                   * (1 - tile_overlap_factor_width m));
          blend_extent_height = py_int (real_of_int (tile_latent_min_height m)
                                         * tile_overlap_factor_height m);
          blend_extent_width = py_int (real_of_int (tile_latent_min_width m)
                                        * tile_overlap_factor_width m);
          row_limit_height = tile_latent_min_height m - blend_extent_height;
          row_limit_width = tile_latent_min_width m - blend_extent_width
      in (overlap_height, overlap_width, blend_extent_height, blend_extent_width,
          row_limit_height, row_limit_width))"

text \<open>
  \<open>tiled_encode\<close>, with the forward function \<open>enc\<close> of the encoder. The run returns the
  grid of the encoded tiles as the first loop nest built it, the grid as the second loop
  nest left it, and the result; \<open>tiled_encode\<close> returns the result.
\<close>

definition tiled_encode_run ::
  "autoencoder \<Rightarrow> (tensor5 \<Rightarrow> error + tensor5) \<Rightarrow> tensor5
     \<Rightarrow> error + tensor5 list list \<times> tensor5 list list \<times> tensor5" where
  "tiled_encode_run m enc x =
     (case tiled_encode_locals m of
        (overlap_height, overlap_width, blend_extent_height, blend_extent_width,
         row_limit_height, row_limit_width) \<Rightarrow>
       bind_result
         (tile_rows enc x overlap_height overlap_width
            (tile_sample_min_height m) (tile_sample_min_width m)) (\<lambda>rows.
       bind_result
         (stitch_rows rows blend_extent_height blend_extent_width row_limit_height
            row_limit_width) (\<lambda>(rows', r). Inr (rows, rows', r))))"

definition tiled_encode ::
  "autoencoder \<Rightarrow> (tensor5 \<Rightarrow> error + tensor5) \<Rightarrow> tensor5 \<Rightarrow> error + tensor5" where
  "tiled_encode m enc x =
     bind_result (tiled_encode_run m enc x) (\<lambda>(rows, rows', r). Inr r)"

text \<open>
  \<open>tiled_decode\<close>, with the forward function \<open>dec\<close> of the decoder: the same code with the
  sample and the latent tile sizes in each other's place.
\<close>

definition tiled_decode_locals :: "autoencoder \<Rightarrow> int \<times> int \<times> int \<times> int \<times> int \<times> int" where
  "tiled_decode_locals m =
     (let overlap_height = py_int (real_of_int (tile_latent_min_height m)
                                    * (1 - tile_overlap_factor_height m));
          overlap_width = py_int (real_of_int (tile_latent_min_width m)
                                   * (1 - tile_overlap_factor_width m));
          blend_extent_height = py_int (real_of_int (tile_sample_min_height m)
                                         * tile_overlap_factor_height m);
          blend_extent_width = py_int (real_of_int (tile_sample_min_width m)
                                        * tile_overlap_factor_width m);
          row_limit_height = tile_sample_min_height m - blend_extent_height;
          row_limit_width = tile_sample_min_width m - blend_extent_width
      in (overlap_height, overlap_width, blend_extent_height, blend_extent_width,
          row_limit_height, row_limit_width))"

definition tiled_decode_run ::
  "autoencoder \<Rightarrow> (tensor5 \<Rightarrow> error + tensor5) \<Rightarrow> tensor5
     \<Rightarrow> error + tensor5 list list \<times> tensor5 list list \<times> tensor5" where
  "tiled_decode_run m dec z =
     (case tiled_decode_locals m of
        (overlap_height, overlap_width, blend_extent_height, blend_extent_width,
         row_limit_height, row_limit_width) \<Rightarrow>
       bind_result
         (tile_rows dec z overlap_height overlap_width
            (tile_latent_min_height m) (tile_latent_min_width m)) (\<lambda>rows.
       bind_result
         (stitch_rows rows blend_extent_height blend_extent_width row_limit_height
            row_limit_width) (\<lambda>(rows', r). Inr (rows, rows', r))))"

definition tiled_decode ::
  "autoencoder \<Rightarrow> (tensor5 \<Rightarrow> error + tensor5) \<Rightarrow> tensor5 \<Rightarrow> error + tensor5" where
  "tiled_decode m dec z =
     bind_result (tiled_decode_run m dec z) (\<lambda>(rows, rows', r). Inr r)"

subsection \<open>The stitched result in terms of a grid\<close>

text \<open>
  What the loops are meant to compute for the tile at \<open>(i, j)\<close>, with the neighbours
  given: the tile of the first grid, blended with \<open>upper\<close> when \<open>i > 0\<close> and then with
  \<open>left_tile\<close> when \<open>j > 0\<close>.
\<close>

definition blend_with ::
  "tensor5 \<Rightarrow> tensor5 \<Rightarrow> tensor5 \<Rightarrow> int \<Rightarrow> int \<Rightarrow> nat \<Rightarrow> nat \<Rightarrow> error + tensor5" where
  "blend_with upper left_tile tile blend_extent_height blend_extent_width i j =
     bind_result (if 0 < i then blend_v upper tile blend_extent_height else Inr tile)
       (\<lambda>tile1. if 0 < j then blend_h left_tile tile1 blend_extent_width else Inr tile1)"

text \<open>The crops of the tiles of a grid, concatenated along the width and the height.\<close>

definition crop_and_cat :: "tensor5 list list \<Rightarrow> int \<Rightarrow> int \<Rightarrow> error + tensor5" where
  "crop_and_cat rows row_limit_height row_limit_width =
     bind_result
       (map_results (\<lambda>row.
          cat_dim4_values (map (slice_hw 0 row_limit_height 0 row_limit_width) row)) rows)
       cat_dim3_values"

text \<open>
  The state of the second loop nest when it reaches the tile at \<open>(i, j)\<close>, in terms of
  the first grid \<open>rows\<close>: every tile before \<open>(i, j)\<close> (in an earlier row, or earlier in
  row \<open>i\<close>) holds its blend with the neighbours as the store has them, every other tile is
  as the network returned it.
\<close>

definition grid_state ::
  "tensor5 list list \<Rightarrow> int \<Rightarrow> int \<Rightarrow> tensor5 list list \<Rightarrow> nat \<Rightarrow> nat \<Rightarrow> bool" where
  "grid_state rows blend_extent_height blend_extent_width store i j \<longleftrightarrow>
     length store = length rows
     \<and> (\<forall>k < length rows. length (store ! k) = length (rows ! k))
     \<and> (\<forall>k l. k < length rows \<and> l < length (rows ! k) \<longrightarrow>
          (if k < i \<or> (k = i \<and> l < j)
           then Inr (store ! k ! l)
                  = blend_with (store ! (k - 1) ! l) (store ! k ! (l - 1)) (rows ! k ! l)
                      blend_extent_height blend_extent_width k l
           else store ! k ! l = rows ! k ! l))"


subsection \<open>A small tiled model\<close>

text \<open>
  A network of one causal convolution with one channel, the all-ones kernel and no bias,
  and the model of \<open>test.py\<close> with tiling enabled for tiles of 24 by 24 and overlap factors
  of 7/8 (for encoding) and of 1/2 (for decoding).
\<close>

definition unit_net :: "tensor5 \<Rightarrow> error + tensor5" where
  "unit_net x =
     bind_result (VidTokCausalConv3d_init (IntArg 3) ''constant'' None None) (\<lambda>conv.
       VidTokCausalConv3d_forward conv ones_kernel3 [0] x)"

definition tiled_model :: "real \<Rightarrow> autoencoder" where
  "tiled_model overlap_factor =
     enable_tiling (projr (AutoencoderVidTok_init exact_log8 test_config)) (Some 24) (Some 24)
       (Some overlap_factor) (Some overlap_factor)"

definition counting_plane :: "nat \<Rightarrow> nat \<Rightarrow> tensor5" where
  "counting_plane h w = [[[map (\<lambda>y. map (\<lambda>x. real (y * w + x + 1)) [0..<w]) [0..<h]]]]"


text \<open>
  The tiles of the plane \<open>counting_plane 4 6\<close> as the network returns them in
  \<open>tiled_encode\<close>, and as the second loop nest leaves them.
\<close>

definition encoded_tiles :: "tensor5 list list" where
  "encoded_tiles =
     [[[[[[[18, 30, 36, 42, 48, 34], [45, 72, 81, 90, 99, 69],
           [81, 126, 135, 144, 153, 105], [66, 102, 108, 114, 120, 82]]]]],
       [[[[[30, 48, 34], [63, 99, 69], [99, 153, 105], [78, 120, 82]]]]]],
      [[[[[[39, 60, 63, 66, 69, 47]]]]], [[[[[45, 69, 47]]]]]]]"

definition encoded_tiles_blended :: "tensor5 list list" where
  "encoded_tiles_blended =
     [[[[[[[18, 30, 36, 42, 48, 34], [45, 72, 81, 90, 99, 69],
           [81, 126, 135, 144, 153, 105], [66, 102, 108, 114, 120, 82]]]]],
       [[[[[48, 41, 34], [99, 84, 69], [153, 129, 105], [120, 101, 82]]]]]],
      [[[[[[66, 102, 108, 114, 120, 82]]]]], [[[[[120, 183 / 2, 82]]]]]]]"

text \<open>The same for the plane \<open>counting_plane 2 4\<close> in \<open>tiled_decode\<close>.\<close>

definition decoded_tiles :: "tensor5 list list" where
  "decoded_tiles =
     [[[[[[[14, 24, 18], [14, 24, 18]]]]], [[[[[18, 30, 22], [18, 30, 22]]]]],
       [[[[[22, 22], [22, 22]]]]], [[[[[12], [12]]]]]],
      [[[[[[11, 18, 13]]]]], [[[[[13, 21, 15]]]]], [[[[[15, 15]]]]], [[[[[8]]]]]]]"

definition decoded_tiles_blended :: "tensor5 list list" where
  "decoded_tiles_blended =
     [[[[[[[14, 24, 18], [14, 24, 18]]]]], [[[[[14, 26, 62 / 3], [14, 26, 62 / 3]]]]],
       [[[[[26, 64 / 3], [26, 64 / 3]]]]], [[[[[64 / 3], [64 / 3]]]]]],
      [[[[[[14, 24, 18]]]]], [[[[[14, 74 / 3, 178 / 9]]]]],
       [[[[[74 / 3, 185 / 9]]]]], [[[[[185 / 9]]]]]]]"


section \<open>forward on values\<close>






section \<open>Padding amounts of the causal convolutions\<close>

lemma conv1d_time_padding:
  "c1_time_causal_padding (VidTokCausalConv1d_init k pm (Some d) (Some s)) =
     (d * (k - 1) + (1 - s), 0)"
  by (simp add: VidTokCausalConv1d_init_def kwargs_pop_def Let_def)

lemma conv3d_init_tuple:
  "VidTokCausalConv3d_init (TupleArg [kt, kh, kw]) pm (Some (TupleArg [dt, dh, dw]))
       (Some (TupleArg [st, sh, sw])) =
     Inr \<lparr> c3_pad_mode = pm,
           c3_time_pad = dt * (kt - 1) + (1 - st),
           c3_time_causal_padding =
             ((dw * (kh - 1) + (1 - sw)) div 2,
              (dw * (kh - 1) + (1 - sw)) - (dw * (kh - 1) + (1 - sw)) div 2,
              (dh * (kh - 1) + (1 - sh)) div 2,
              (dh * (kh - 1) + (1 - sh)) - (dh * (kh - 1) + (1 - sh)) div 2,
              dt * (kt - 1) + (1 - st), 0),
           c3_kernel_size = [kt, kh, kw],
           c3_stride = [st, sh, sw],
           c3_dilation = [dt, dh, dw] \<rparr>"
  by (simp add: VidTokCausalConv3d_init_def kwargs_pop_def cast_tuple_def Let_def)

text \<open>
  Claim C3. The time padding is \<open>d * (k - 1) + (1 - s)\<close> of the time axis, on the leading
  side only (the lemmas above), and the height padding comes from the height axis. The
  width padding does not come from the width axis's own kernel size: with kernel
  \<open>(3, 3, 5)\<close>, dilation 1 and stride 1 the width is padded by \<open>(1, 1)\<close>, the amount of a
  width kernel of 3, where its own kernel size 5 gives \<open>(2, 2)\<close>.
\<close>

theorem conv3d_width_pad_uses_height_kernel:
  "map_sum id c3_time_causal_padding
     (VidTokCausalConv3d_init (TupleArg [3, 3, 5]) ''constant'' None None)
   = Inr (1, 1, 1, 1, 2, 0)
   \<and> (let width_pad = (1::int) * (5 - 1) + (1 - 1)
      in (width_pad div 2, width_pad - width_pad div 2)) = (2, 2)"
  by (simp add: VidTokCausalConv3d_init_def kwargs_pop_def cast_tuple_def Let_def)

text \<open>
  Claim C7, as the code has it: a causal convolution built from kernel size \<open>k\<close>,
  dilation \<open>d\<close> and stride \<open>s\<close> pads with the configured mode exactly when the time padding
  \<open>d * (k - 1) + (1 - s)\<close> is smaller than the time length of the input, and with
  \<open>constant\<close> as soon as the padding reaches the time length (equal or larger).
\<close>

theorem causal_conv_pad_mode_fallback:
  "conv1d_forward_pad_mode (VidTokCausalConv1d_init k pm (Some d) (Some s)) T =
     (if int T \<le> d * (k - 1) + (1 - s) then ''constant'' else pm)
   \<and> map_sum id (\<lambda>c. conv3d_forward_pad_mode c T)
       (VidTokCausalConv3d_init (TupleArg [k, kh, kw]) pm (Some (TupleArg [d, dh, dw]))
          (Some (TupleArg [s, sh, sw]))) =
     Inr (if int T \<le> d * (k - 1) + (1 - s) then ''constant'' else pm)"
  by (simp add: conv3d_init_tuple conv1d_forward_pad_mode_def conv3d_forward_pad_mode_def
      VidTokCausalConv1d_init_def kwargs_pop_def Let_def)

text \<open>
  The claim as stated (fallback only when the padding exceeds the time length) fails
  when the two are equal: kernel size 3 gives a time padding of 2, and on an input of
  two time steps the configured mode \<open>replicate\<close> is replaced by \<open>constant\<close>.
\<close>

theorem causal_conv_pad_mode_counterexample:
  "\<not> (c1_time_pad (VidTokCausalConv1d_init 3 ''replicate'' None None) > int 2)
   \<and> conv1d_forward_pad_mode (VidTokCausalConv1d_init 3 ''replicate'' None None) 2
       = ''constant''
   \<and> c1_pad_mode (VidTokCausalConv1d_init 3 ''replicate'' None None) = ''replicate''"
  by (simp add: conv1d_forward_pad_mode_def VidTokCausalConv1d_init_def kwargs_pop_def Let_def)

section \<open>Shapes through the pyramids\<close>

lemma bind_result_simps [simp]:
  "bind_result (Inr v) f = f v" "bind_result (Inl e) f = Inl e"
  by (simp_all add: bind_result_def)

lemma bind_result_Inr:
  "bind_result r f = Inr v \<longleftrightarrow> (\<exists>u. r = Inr u \<and> f u = Inr v)"
  by (cases r) simp_all

lemma sequence_results_Inr: "sequence_results rs = Inr vs \<longleftrightarrow> rs = map Inr vs"
proof (induction rs arbitrary: vs)
  case Nil
  show ?case by auto
next
  case (Cons r rs)
  show ?case
  proof (cases r)
    case (Inl e)
    then show ?thesis by (cases vs) auto
  next
    case (Inr v)
    show ?thesis
    proof (cases "sequence_results rs")
      case (Inl e)
      then have "\<And>ws. rs \<noteq> map Inr ws" using Cons.IH by (metis sum.distinct(1))
      then show ?thesis using Inl Inr by (cases vs) auto
    next
      case r2: (Inr ws)
      then have "rs = map Inr ws" using Cons.IH by simp
      then show ?thesis using r2 Inr by (cases vs) (auto simp: Cons.IH)
    qed
  qed
qed

lemma sequence_results_units:
  assumes "\<And>x. x \<in> set xs \<Longrightarrow> f x = Inr ()"
  shows "sequence_results (map f xs) = Inr (map (\<lambda>_. ()) xs)"
  using assms by (induction xs) simp_all

lemma enc_res_blocks_Suc:
  "enc_res_blocks (Suc k) bi bo = ((bi, bo) # replicate k (bo, bo), replicate (Suc k) (bo, bo), bo)"
  by (induction k arbitrary: bi) simp_all

lemma dec_res_blocks_Suc:
  "dec_res_blocks (Suc k) bi bo = ((bi, bo) # replicate k (bo, bo), bo)"
  by (induction k arbitrary: bi) simp_all

lemma res_blocks_same:
  "0 \<le> c \<Longrightarrow>
   res_blocks_shape (replicate k ((c, c), (c, c))) (B, nat c, T, H, W) = Inr (B, nat c, T, H, W)"
  by (induction k) (simp_all add: spatial_temporal_resblk_shape_def channels_block_def)

lemma res_blocks_level:
  assumes "0 \<le> bo" "int C = bi"
  shows "res_blocks_shape (zip ((bi, bo) # replicate k (bo, bo)) (replicate (Suc k) (bo, bo)))
           (B, C, T, H, W) = Inr (B, nat bo, T, H, W)"
  using assms
  by (simp add: zip_replicate spatial_temporal_resblk_shape_def channels_block_def res_blocks_same)

lemma half_len: "2 \<le> T \<Longrightarrow> nat ((int T - 2) div 2 + 1) = T div 2"
  by linarith

lemma causal_conv3d_stride2:
  "VidTokCausalConv3d_init (IntArg 3) ''constant'' None (Some (TupleArg [2, 1, 1])) =
     Inr \<lparr> c3_pad_mode = ''constant'', c3_time_pad = 1,
           c3_time_causal_padding = (1, 1, 1, 1, 1, 0),
           c3_kernel_size = [3, 3, 3], c3_stride = [2, 1, 1], c3_dilation = [1, 1, 1] \<rparr>"
  by (simp add: VidTokCausalConv3d_init_def kwargs_pop_def cast_tuple_def Let_def
      numeral_3_eq_3)

lemma causal_conv3d_stride1:
  "VidTokCausalConv3d_init (IntArg 3) ''constant'' None None =
     Inr \<lparr> c3_pad_mode = ''constant'', c3_time_pad = 2,
           c3_time_causal_padding = (1, 1, 1, 1, 2, 0),
           c3_kernel_size = [3, 3, 3], c3_stride = [1, 1, 1], c3_dilation = [1, 1, 1] \<rparr>"
  by (simp add: VidTokCausalConv3d_init_def kwargs_pop_def cast_tuple_def Let_def
      numeral_3_eq_3)

lemma conv_len_k3_s1:
  "conv_len m 3 1 1 = (if m < 3 then Inl RuntimeError else Inr (nat (m - 2)))"
  by (simp add: conv_len_def)

lemma conv_len_k3_s2:
  "conv_len m 3 1 2 = (if m < 3 then Inl RuntimeError else Inr (nat ((m - 3) div 2 + 1)))"
  by (simp add: conv_len_def)

lemma VidTokDownsample3D_shape_ok:
  assumes "2 \<le> T" "1 \<le> H" "1 \<le> W"
  shows "VidTokDownsample3D_shape causal (B, C, T, H, W) = Inr (B, C, T div 2, H, W)"
proof -
  have t: "nat ((int T + 1 - 3) div 2 + 1) = T div 2" using assms(1) by linarith
  have "conv_len (int T + 1) 3 1 2 = Inr (T div 2)"
    unfolding conv_len_k3_s2 using assms(1) t by simp
  then show ?thesis using assms
    by (simp add: VidTokDownsample3D_shape_def causal_conv3d_stride2 causal_conv3d_shape_def
      conv_len_k3_s1)
qed


lemma encoder_init_Inr:
  assumes "VidTokEncoder3D_init ic c ms n dr z dz causal = Inr e"
  shows "ms \<noteq> []"
    and "e = \<lparr> enc_is_causal = causal, enc_in_channels = ic, enc_ch = c,
           enc_num_resolutions = int (length ms), enc_num_res_blocks = n,
           enc_tempo_ds = [int (length ms) - 2, int (length ms) - 3],
           enc_down = map (\<lambda>i. fst (enc_level_init c ms n
                          [int (length ms) - 2, int (length ms) - 3] i)) [0..<length ms],
           enc_mid_channels = snd (enc_level_init c ms n
                          [int (length ms) - 2, int (length ms) - 3] (length ms - 1)),
           enc_conv_out_channels = (if dz then 2 * z else z) \<rparr>"
proof -
  show ms: "ms \<noteq> []"
    using assms
    by (auto simp: VidTokEncoder3D_init_def Let_def bind_result_Inr split: if_splits)
  then have "[0..<length ms] \<noteq> []" by simp
  then have "last [0..<length ms] = length ms - 1"
    using ms by (metis last_upt length_greater_0_conv)
  then show "e = \<lparr> enc_is_causal = causal, enc_in_channels = ic, enc_ch = c,
           enc_num_resolutions = int (length ms), enc_num_res_blocks = n,
           enc_tempo_ds = [int (length ms) - 2, int (length ms) - 3],
           enc_down = map (\<lambda>i. fst (enc_level_init c ms n
                          [int (length ms) - 2, int (length ms) - 3] i)) [0..<length ms],
           enc_mid_channels = snd (enc_level_init c ms n
                          [int (length ms) - 2, int (length ms) - 3] (length ms - 1)),
           enc_conv_out_channels = (if dz then 2 * z else z) \<rparr>"
    using assms ms
    by (auto simp: VidTokEncoder3D_init_def Let_def bind_result_Inr last_map comp_def
        split: if_splits)
qed

lemma enc_level_init_pos:
  assumes "1 \<le> n"
  shows "enc_level_init c ms n ds i =
     (\<lparr> el_block = (c * (1 # ms) ! i, c * ms ! i) # replicate (nat n - 1) (c * ms ! i, c * ms ! i),
        el_block_temporal = replicate (Suc (nat n - 1)) (c * ms ! i, c * ms ! i),
        el_downsample = (if int i \<noteq> int (length ms) - 1 then Some (c * ms ! i) else None),
        el_downsample_temporal =
          (if int i \<noteq> int (length ms) - 1 \<and> int i \<in> set ds
           then Some (c * ms ! i, c * ms ! i) else None) \<rparr>, c * ms ! i)"
proof -
  have "nat n = Suc (nat n - 1)" using assms by simp
  then have "enc_res_blocks (nat n) bi bo =
      ((bi, bo) # replicate (nat n - 1) (bo, bo), replicate (Suc (nat n - 1)) (bo, bo), bo)" for bi bo
    using enc_res_blocks_Suc[of "nat n - 1" bi bo] by simp
  then show ?thesis unfolding enc_level_init_def Let_def by simp
qed

lemma enc_level_shape_ok:
  assumes e: "VidTokEncoder3D_init ic c ms n dr z dz causal = Inr e" and n: "1 \<le> n"
    and i: "i < length ms" and pos: "0 \<le> c * ms ! i" and C: "int C = c * (1 # ms) ! i"
    and T: "tlevel (length ms) i \<longrightarrow> 2 \<le> T"
    and H: "Suc i < length ms \<longrightarrow> 2 \<le> H \<and> 2 \<le> W"
  shows "enc_level_shape e i (B, C, T, H, W) =
     Inr (B, nat (c * ms ! i),
          if tlevel (length ms) i then T div 2 else T,
          if Suc i < length ms then H div 2 else H,
          if Suc i < length ms then W div 2 else W)"
proof -
  have ms: "ms \<noteq> []" using i by auto
  note ee = encoder_init_Inr(2)[OF e]
  have last: "(int i \<noteq> int (length ms) - 1) = (Suc i < length ms)" using i by auto
  have lv: "enc_down e ! i =
      fst (enc_level_init c ms n [int (length ms) - 2, int (length ms) - 3] i)"
    using i by (simp add: ee)
  have rb: "res_blocks_shape (zip (el_block (enc_down e ! i))
              (el_block_temporal (enc_down e ! i))) (B, C, T, H, W)
            = Inr (B, nat (c * ms ! i), T, H, W)"
    unfolding lv enc_level_init_pos[OF n] fst_conv enc_level.select_convs
    by (rule res_blocks_level[OF pos C])
  have ds: "el_downsample (enc_down e ! i) =
      (if Suc i < length ms then Some (c * ms ! i) else None)"
    unfolding lv enc_level_init_pos[OF n] fst_conv enc_level.select_convs last ..
  have dt: "el_downsample_temporal (enc_down e ! i) =
      (if tlevel (length ms) i then Some (c * ms ! i, c * ms ! i) else None)"
    unfolding lv enc_level_init_pos[OF n] fst_conv enc_level.select_convs tlevel_def
    by simp
  have nr: "enc_num_resolutions e = int (length ms)"
    and td: "(int i \<in> set (enc_tempo_ds e)) =
               (int i = int (length ms) - 2 \<or> int i = int (length ms) - 3)"
    and ca: "enc_is_causal e = causal"
    by (simp_all add: ee)
  show ?thesis
  proof (cases "Suc i < length ms")
    case False
    then have nt: "\<not> tlevel (length ms) i" using i by (auto simp: tlevel_def)
    show ?thesis using False nt
      by (simp add: enc_level_shape_def Let_def rb nr last)
  next
    case True
    then have hw: "1 \<le> H div 2" "1 \<le> W div 2" using H by auto
    show ?thesis
    proof (cases "tlevel (length ms) i")
      case True
      then have T2: "2 \<le> T" using T by simp
      have mem: "int i = int (length ms) - 2 \<or> int i = int (length ms) - 3"
        using True by (simp add: tlevel_def)
      show ?thesis using \<open>Suc i < length ms\<close> True pos mem
        by (simp add: enc_level_shape_def Let_def rb nr last ds dt td ca
            channels_block_def VidTokDownsample2D_shape_def
            VidTokDownsample3D_shape_ok[OF T2 hw])
    next
      case False
      then have mem: "\<not> (int i = int (length ms) - 2 \<or> int i = int (length ms) - 3)"
        using \<open>Suc i < length ms\<close> by (simp add: tlevel_def)
      show ?thesis using \<open>Suc i < length ms\<close> False pos mem
        by (simp add: enc_level_shape_def Let_def rb nr last ds dt td ca
            channels_block_def VidTokDownsample2D_shape_def)
    qed
  qed
qed

lemma tlevels_list:
  "filter (tlevel L) [0..<L] =
     (if 3 \<le> L then [L - 3, L - 2] else if L = 2 then [0] else [])"
proof -
  have "L = 0 \<or> L = 1 \<or> L = 2 \<or> (\<exists>k. L = k + 3)" by presburger
  then consider "L = 0" | "L = 1" | "L = 2" | k where "L = k + 3" by blast
  then show ?thesis
  proof cases
    case 4
    have "filter (tlevel (k + 3)) [0..<k] = []"
      by (auto simp: filter_empty_conv tlevel_def)
    then show ?thesis unfolding 4
      by (simp add: numeral_3_eq_3 tlevel_def)
  qed (simp_all add: tlevel_def numeral_2_eq_2)
qed

lemma tlevels_count: "length (filter (tlevel L) [0..<L]) = min 2 (L - 1)"
  unfolding tlevels_list by auto

lemma pow2_half: "2 ^ Suc t \<le> (T::nat) \<Longrightarrow> 2 ^ t \<le> T div 2"
  by (simp add: less_eq_div_iff_mult_less_eq mult.commute)

lemma div_pow2_Suc: "(T::nat) div 2 div 2 ^ t = T div 2 ^ Suc t"
  by (simp add: div_mult2_eq)

lemma enc_levels_shape_ok:
  assumes e: "VidTokEncoder3D_init ic c ms n dr z dz causal = Inr e" and n: "1 \<le> n"
    and pos: "\<forall>j<length ms. 0 \<le> c * ms ! j"
  shows "i \<le> length ms \<Longrightarrow> int C = c * (1 # ms) ! i
    \<Longrightarrow> 2 ^ length (filter (tlevel (length ms)) [i..<length ms]) \<le> T
    \<Longrightarrow> 2 ^ (length ms - 1 - i) \<le> H \<Longrightarrow> 2 ^ (length ms - 1 - i) \<le> W
    \<Longrightarrow> enc_levels_shape e [i..<length ms] (B, C, T, H, W) =
         Inr (B, nat (c * (1 # ms) ! length ms),
              T div 2 ^ length (filter (tlevel (length ms)) [i..<length ms]),
              H div 2 ^ (length ms - 1 - i), W div 2 ^ (length ms - 1 - i))"
proof (induction "length ms - i" arbitrary: i C T H W)
  case 0
  then have "i = length ms" by simp
  with 0 show ?case by simp
next
  case (Suc d)
  then have i: "i < length ms" by simp
  define L where "L = length ms"
  have upt: "[i..<length ms] = i # [Suc i..<length ms]" using i by (simp add: upt_conv_Cons)
  define t where "t = length (filter (tlevel L) [Suc i..<L])"
  have cnt: "length (filter (tlevel L) [i..<L]) = (if tlevel L i then Suc t else t)"
    unfolding L_def t_def upt by simp
  have pi: "0 \<le> c * ms ! i" using pos i by simp
  have T2: "tlevel (length ms) i \<longrightarrow> 2 \<le> T"
  proof
    assume "tlevel (length ms) i"
    then have "2 ^ Suc t \<le> T" using Suc.prems(3) cnt by (simp add: L_def)
    moreover have "(2::nat) \<le> 2 ^ Suc t" by simp
    ultimately show "2 \<le> T" by linarith
  qed
  have H2: "Suc i < length ms \<longrightarrow> 2 \<le> H \<and> 2 \<le> W"
  proof
    assume a: "Suc i < length ms"
    then have "length ms - 1 - i = Suc (length ms - 1 - Suc i)" by simp
    then have "2 ^ Suc (length ms - 1 - Suc i) \<le> H" "2 ^ Suc (length ms - 1 - Suc i) \<le> W"
      using Suc.prems(4,5) by simp_all
    moreover have "(2::nat) \<le> 2 ^ Suc (length ms - 1 - Suc i)" by simp
    ultimately show "2 \<le> H \<and> 2 \<le> W" by linarith
  qed
  define T' where "T' = (if tlevel (length ms) i then T div 2 else T)"
  define H' where "H' = (if Suc i < length ms then H div 2 else H)"
  define W' where "W' = (if Suc i < length ms then W div 2 else W)"
  have lvl: "enc_level_shape e i (B, C, T, H, W) = Inr (B, nat (c * ms ! i), T', H', W')"
    unfolding T'_def H'_def W'_def
    by (rule enc_level_shape_ok[OF e n i pi Suc.prems(2) T2 H2])
  have d: "d = length ms - Suc i" using Suc.hyps(2) by simp
  have C': "int (nat (c * ms ! i)) = c * (1 # ms) ! Suc i" using pi by simp
  have Tp: "2 ^ length (filter (tlevel (length ms)) [Suc i..<length ms]) \<le> T'"
    using Suc.prems(3) cnt pow2_half[of t T] by (auto simp: T'_def L_def t_def)
  have e2: "Suc i < length ms \<Longrightarrow> length ms - 1 - i = Suc (length ms - 1 - Suc i)" by simp
  have e3: "\<not> Suc i < length ms \<Longrightarrow> length ms - 1 - i = 0 \<and> length ms - 1 - Suc i = 0"
    by simp
  have Hp: "2 ^ (length ms - 1 - Suc i) \<le> H'"
    using Suc.prems(4) pow2_half[of "length ms - 1 - Suc i" H] e2 e3
    by (cases "Suc i < length ms") (auto simp: H'_def)
  have Wp: "2 ^ (length ms - 1 - Suc i) \<le> W'"
    using Suc.prems(5) pow2_half[of "length ms - 1 - Suc i" W] e2 e3
    by (cases "Suc i < length ms") (auto simp: W'_def)
  have ih: "enc_levels_shape e [Suc i..<length ms] (B, nat (c * ms ! i), T', H', W') =
         Inr (B, nat (c * (1 # ms) ! length ms),
              T' div 2 ^ length (filter (tlevel (length ms)) [Suc i..<length ms]),
              H' div 2 ^ (length ms - 1 - Suc i), W' div 2 ^ (length ms - 1 - Suc i))"
    using Suc.hyps(1)[OF d _ C' Tp Hp Wp] i by simp
  have Te: "T' div 2 ^ length (filter (tlevel (length ms)) [Suc i..<length ms])
            = T div 2 ^ length (filter (tlevel (length ms)) [i..<length ms])"
    using cnt div_pow2_Suc[of T t] by (auto simp: T'_def L_def t_def)
  have He: "H' div 2 ^ (length ms - 1 - Suc i) = H div 2 ^ (length ms - 1 - i)"
    using div_pow2_Suc[of H "length ms - 1 - Suc i"] e2 e3
    by (cases "Suc i < length ms") (auto simp: H'_def)
  have We: "W' div 2 ^ (length ms - 1 - Suc i) = W div 2 ^ (length ms - 1 - i)"
    using div_pow2_Suc[of W "length ms - 1 - Suc i"] e2 e3
    by (cases "Suc i < length ms") (auto simp: W'_def)
  note ih' = ih[unfolded Te He We]
  have "enc_levels_shape e (i # [Suc i..<length ms]) (B, C, T, H, W) =
         Inr (B, nat (c * (1 # ms) ! length ms),
              T div 2 ^ length (filter (tlevel (length ms)) [i..<length ms]),
              H div 2 ^ (length ms - 1 - i), W div 2 ^ (length ms - 1 - i))"
    unfolding enc_levels_shape.simps lvl bind_result_simps by (rule ih')
  then show ?case using upt by simp
qed

lemma VidTokEncoder3D_shape_ok:
  assumes e: "VidTokEncoder3D_init ic c ms n dr z dz causal = Inr e" and n: "1 \<le> n"
    and c: "0 \<le> c" and pos: "\<forall>j<length ms. 0 \<le> c * ms ! j"
    and z: "0 \<le> (if dz then 2 * z else z)"
    and C: "int C = ic"
    and T: "2 ^ min 2 (length ms - 1) \<le> T"
    and H: "2 ^ (length ms - 1) \<le> H" and W: "2 ^ (length ms - 1) \<le> W"
  shows "VidTokEncoder3D_shape e (B, C, T, H, W) =
     Inr (B, nat (if dz then 2 * z else z), T div 2 ^ min 2 (length ms - 1),
          H div 2 ^ (length ms - 1), W div 2 ^ (length ms - 1))"
proof -
  have ms: "ms \<noteq> []" by (rule encoder_init_Inr(1)[OF e])
  note ee = encoder_init_Inr(2)[OF e]
  have L: "0 < length ms" using ms by simp
  have mid: "enc_mid_channels e = c * ms ! (length ms - 1)"
    by (simp add: ee enc_level_init_pos[OF n])
  have lastc: "(1 # ms) ! length ms = ms ! (length ms - 1)" using L by (simp add: nth_Cons')
  have mp: "0 \<le> c * ms ! (length ms - 1)" using pos L by simp
  have C0: "int (nat c) = c * (1 # ms) ! 0" using c by simp
  have lv: "enc_levels_shape e [0..<length ms] (B, nat c, T, H, W) =
         Inr (B, nat (c * (1 # ms) ! length ms),
              T div 2 ^ length (filter (tlevel (length ms)) [0..<length ms]),
              H div 2 ^ (length ms - 1 - 0), W div 2 ^ (length ms - 1 - 0))"
    by (rule enc_levels_shape_ok[OF e n pos _ C0]) (use T H W in \<open>simp_all add: tlevels_count\<close>)
  have nr: "nat (enc_num_resolutions e) = length ms" by (simp add: ee)
  have io: "enc_in_channels e = ic" "enc_ch e = c"
      "enc_conv_out_channels e = (if dz then 2 * z else z)" by (simp_all add: ee)
  show ?thesis
    unfolding VidTokEncoder3D_shape_def nr io mid
    using C c mp z lv
    by (simp add: channels_block_def tlevels_count lastc)
qed

lemma dec_res_blocks_pos:
  assumes "0 \<le> n"
  shows "dec_res_blocks (nat (n + 1)) bi bo = ((bi, bo) # replicate (nat n) (bo, bo), bo)"
proof -
  have "nat (n + 1) = Suc (nat n)" using assms by simp
  then show ?thesis by (simp only: dec_res_blocks_Suc)
qed

lemma dec_up_init_rev:
  assumes n: "0 \<le> n"
  shows "dec_up_init c ms n (rev [0..<k]) b =
     (map (\<lambda>i. ((if Suc i = k then b else c * ms ! Suc i, c * ms ! i)
                   # replicate (nat n) (c * ms ! i, c * ms ! i),
                 if i \<noteq> 0 then Some (c * ms ! i) else None)) [0..<k],
      if k = 0 then b else c * ms ! 0)"
proof (induction k arbitrary: b)
  case 0
  show ?case by simp
next
  case (Suc k)
  have m: "map (\<lambda>i. ((if Suc i = k then c * ms ! k else c * ms ! Suc i, c * ms ! i)
                   # replicate (nat n) (c * ms ! i, c * ms ! i),
                 if i \<noteq> 0 then Some (c * ms ! i) else None)) [0..<k]
         = map (\<lambda>i. ((if Suc i = Suc k then b else c * ms ! Suc i, c * ms ! i)
                   # replicate (nat n) (c * ms ! i, c * ms ! i),
                 if i \<noteq> 0 then Some (c * ms ! i) else None)) [0..<k]"
    by (rule map_cong) auto
  show ?case
    using m by (simp add: dec_res_blocks_pos[OF n] Suc.IH)
qed







section \<open>Construction of the autoencoder\<close>





lemma resnet_init_ok:
  "0 \<le> i \<Longrightarrow> 0 \<le> o' \<Longrightarrow> 0 \<le> dr \<Longrightarrow> dr \<le> 1 \<Longrightarrow> VidTokResnetBlock_init (i, o') dr = Inr ()"
  by (simp add: VidTokResnetBlock_init_def layer_channels_def nn_Dropout_init_def)

lemma resnet_blocks_init_ok:
  assumes "\<And>io. io \<in> set blocks \<Longrightarrow> 0 \<le> fst io \<and> 0 \<le> snd io" and "0 \<le> dr" "dr \<le> 1"
  shows "resnet_blocks_init blocks dr = Inr ()"
proof -
  have "sequence_results (map (\<lambda>io. VidTokResnetBlock_init io dr) blocks)
      = Inr (map (\<lambda>_. ()) blocks)"
  proof (rule sequence_results_units)
    fix io assume "io \<in> set blocks"
    then have "0 \<le> fst io \<and> 0 \<le> snd io" by (rule assms(1))
    then show "VidTokResnetBlock_init io dr = Inr ()"
      using resnet_init_ok[of "fst io" "snd io" dr] assms(2,3) by simp
  qed
  then show ?thesis by (simp add: resnet_blocks_init_def)
qed

lemma in_ch_mult_pos:
  fixes c :: int
  assumes "0 \<le> c" and "\<forall>j<length ms. 0 \<le> c * ms ! j" and "i < length ms"
  shows "0 \<le> c * (1 # ms) ! i"
  using assms by (cases i) simp_all

lemma enc_level_layers_ok:
  assumes n: "1 \<le> n" and i: "i < length ms" and c: "0 \<le> c"
    and pos: "\<forall>j<length ms. 0 \<le> c * ms ! j" and dr: "0 \<le> dr" "dr \<le> 1"
  shows "enc_level_layers dr (fst (enc_level_init c ms n ds i)) = Inr ()"
proof -
  define a where "a = c * (1 # ms) ! i"
  define b where "b = c * ms ! i"
  have a: "0 \<le> a" unfolding a_def by (rule in_ch_mult_pos[OF c pos i])
  have b: "0 \<le> b" unfolding b_def using pos i by simp
  have z: "zip ((a, b) # replicate (nat n - 1) (b, b)) (replicate (Suc (nat n - 1)) (b, b))
      = ((a, b), (b, b)) # replicate (nat n - 1) ((b, b), (b, b))"
    by (simp add: zip_replicate)
  have blocks: "sequence_results (map (\<lambda>(block_s, block_t).
          bind_result (VidTokResnetBlock_init block_s dr) (\<lambda>_.
            VidTokResnetBlock_init block_t dr))
          (((a, b), (b, b)) # replicate (nat n - 1) ((b, b), (b, b))))
      = Inr (map (\<lambda>_. ()) (((a, b), (b, b)) # replicate (nat n - 1) ((b, b), (b, b))))"
    by (rule sequence_results_units) (use a b dr in \<open>auto simp: resnet_init_ok\<close>)
  show ?thesis
    unfolding enc_level_init_pos[OF n] fst_conv enc_level_layers_def a_def[symmetric]
      b_def[symmetric] enc_level.select_convs z blocks
    using b by (simp add: layer_channels_def resample3d_init_def)
qed

lemma encoder_init_ok:
  assumes ms: "ms \<noteq> []" and ic: "0 \<le> ic" and c: "0 \<le> c"
    and pos: "\<forall>j<length ms. 0 \<le> c * ms ! j" and n: "1 \<le> n"
    and dr: "0 \<le> dr" "dr \<le> 1" and z: "0 \<le> (if dz then 2 * z else z)"
  shows "\<exists>e. VidTokEncoder3D_init ic c ms n dr z dz causal = Inr e"
proof -
  define ds where "ds = [int (length ms) - 2, int (length ms) - 3]"
  define levels where "levels = map (enc_level_init c ms n ds) [0..<length ms]"
  have lv: "sequence_results (map (\<lambda>lv. enc_level_layers dr (fst lv)) levels)
      = Inr (map (\<lambda>_. ()) levels)"
  proof (rule sequence_results_units)
    fix x assume "x \<in> set levels"
    then obtain i where "i < length ms" "x = enc_level_init c ms n ds i"
      by (auto simp: levels_def)
    then show "enc_level_layers dr (fst x) = Inr ()"
      using enc_level_layers_ok[OF n _ c pos dr, of i ds] by simp
  qed
  have ne: "levels \<noteq> []" using ms by (simp add: levels_def)
  have "last [0..<length ms] = length ms - 1"
    using ms by (metis last_upt length_greater_0_conv)
  then have "snd (last levels) = snd (enc_level_init c ms n ds (length ms - 1))"
    using ms by (simp add: levels_def last_map)
  then have mid: "snd (last levels) = c * ms ! (length ms - 1)"
    by (simp add: enc_level_init_pos[OF n])
  have mp: "0 \<le> c * ms ! (length ms - 1)" using pos ms by simp
  show ?thesis
    unfolding VidTokEncoder3D_init_def Let_def ds_def[symmetric] levels_def[symmetric] lv
    using ne ic c mp z dr
    by (simp add: mid resnet_init_ok VidTokAttnBlockWrapper_init_def layer_channels_def)
qed

lemma decoder_init_ok:
  assumes ms: "ms \<noteq> []" and pos: "\<forall>j<length ms. 0 \<le> c * ms ! j" and n: "0 \<le> n"
    and dr: "0 \<le> dr" "dr \<le> 1" and z: "0 \<le> z" and oc: "0 \<le> oc"
  shows "\<exists>d. VidTokDecoder3D_init c ms n dr z oc causal = Inr d"
proof -
  define ups where "ups = fst (dec_up_init c ms n (rev [0..<length ms])
      (c * ms ! (length ms - 1)))"
  define upt where "upt = map (dec_up_temporal_init c ms n [1, 2]) [0..<length ms]"
  have mp: "0 \<le> c * ms ! (length ms - 1)" and p0: "0 \<le> c * ms ! 0" using pos ms by simp_all
  have ups: "ups = map (\<lambda>i. ((if Suc i = length ms then c * ms ! (length ms - 1)
                             else c * ms ! Suc i, c * ms ! i)
                   # replicate (nat n) (c * ms ! i, c * ms ! i),
                 if i \<noteq> 0 then Some (c * ms ! i) else None)) [0..<length ms]"
    unfolding ups_def dec_up_init_rev[OF n] by simp
  have upt: "upt = map (\<lambda>i. (replicate (Suc (nat n)) (c * ms ! i, c * ms ! i),
                 if i = 1 \<or> i = 2 then Some (c * ms ! i, c * ms ! i) else None))
        [0..<length ms]"
    unfolding upt_def
    by (rule map_cong) (auto simp: dec_up_temporal_init_def Let_def dec_res_blocks_pos[OF n])
  have u: "sequence_results (map (\<lambda>u.
                 bind_result (resnet_blocks_init (fst u) dr) (\<lambda>_.
                   case snd u of None \<Rightarrow> Inr () | Some c \<Rightarrow> layer_channels [c]))
                 (rev ups)) = Inr (map (\<lambda>_. ()) (rev ups))"
  proof (rule sequence_results_units)
    fix x assume "x \<in> set (rev ups)"
    then obtain i where i: "i < length ms"
      and x: "x = ((if Suc i = length ms then c * ms ! (length ms - 1)
                             else c * ms ! Suc i, c * ms ! i)
                   # replicate (nat n) (c * ms ! i, c * ms ! i),
                 if i \<noteq> 0 then Some (c * ms ! i) else None)"
      unfolding ups by auto
    have pi: "0 \<le> c * ms ! i" using pos i by simp
    have ps: "0 \<le> (if Suc i = length ms then c * ms ! (length ms - 1) else c * ms ! Suc i)"
      using pos i mp by auto
    have "resnet_blocks_init (fst x) dr = Inr ()"
      by (rule resnet_blocks_init_ok) (use pi ps dr in \<open>auto simp: x\<close>)
    then show "bind_result (resnet_blocks_init (fst x) dr) (\<lambda>_.
                   case snd x of None \<Rightarrow> Inr () | Some c \<Rightarrow> layer_channels [c]) = Inr ()"
      using pi by (simp add: x layer_channels_def)
  qed
  have t: "sequence_results (map (\<lambda>t.
                 bind_result (resnet_blocks_init (fst t) dr) (\<lambda>_.
                   case snd t of None \<Rightarrow> Inr () | Some io \<Rightarrow> resample3d_init io))
                 (rev upt)) = Inr (map (\<lambda>_. ()) (rev upt))"
  proof (rule sequence_results_units)
    fix x assume "x \<in> set (rev upt)"
    then obtain i where i: "i < length ms"
      and x: "x = (replicate (Suc (nat n)) (c * ms ! i, c * ms ! i),
                 if i = 1 \<or> i = 2 then Some (c * ms ! i, c * ms ! i) else None)"
      unfolding upt by auto
    have pi: "0 \<le> c * ms ! i" using pos i by simp
    have "resnet_blocks_init (fst x) dr = Inr ()"
      by (rule resnet_blocks_init_ok) (use pi dr in \<open>auto simp: x\<close>)
    then show "bind_result (resnet_blocks_init (fst x) dr) (\<lambda>_.
                   case snd x of None \<Rightarrow> Inr () | Some io \<Rightarrow> resample3d_init io) = Inr ()"
      using pi by (simp add: x layer_channels_def resample3d_init_def)
  qed
  show ?thesis
    unfolding VidTokDecoder3D_init_def Let_def ups_def[symmetric] upt_def[symmetric] u t
    using ms mp p0 z oc dr
    by (simp add: resnet_init_ok VidTokAttnBlockWrapper_init_def layer_channels_def)
qed

lemma well_formed_pos:
  assumes "well_formed_config c"
  shows "\<forall>j<length (ch_mult c). 0 \<le> ch c * ch_mult c ! j"
  using assms by (auto simp: well_formed_config_def list_all_length)

lemma init_eq_check:
  assumes wf: "well_formed_config c"
  shows "isl (AutoencoderVidTok_init lg c) = isl (check_regularizer lg c)"
    and "AutoencoderVidTok_init lg c = Inl e \<longleftrightarrow> check_regularizer lg c = Inl e"
proof -
  have w: "ch_mult c \<noteq> []" "0 \<le> in_channels c" "0 \<le> ch c" "1 \<le> num_res_blocks c"
    "0 \<le> num_res_blocks c" "0 \<le> dropout c" "dropout c \<le> 1" "0 \<le> z_channels c"
    "0 \<le> out_channels c"
    "0 \<le> (if double_z c then 2 * z_channels c else z_channels c)"
    using wf by (auto simp: well_formed_config_def)
  obtain enc where enc: "VidTokEncoder3D_init (in_channels c) (ch c) (ch_mult c)
      (num_res_blocks c) (dropout c) (z_channels c) (double_z c) (cfg_is_causal c) = Inr enc"
    using encoder_init_ok[OF w(1,2,3) well_formed_pos[OF wf] w(4,6,7,10)] by blast
  obtain dec where dec: "VidTokDecoder3D_init (ch c) (ch_mult c) (num_res_blocks c)
      (dropout c) (z_channels c) (out_channels c) (cfg_is_causal c) = Inr dec"
    using decoder_init_ok[OF w(1) well_formed_pos[OF wf] w(5,6,7,8,9)] by blast
  show "isl (AutoencoderVidTok_init lg c) = isl (check_regularizer lg c)"
    by (cases "check_regularizer lg c")
       (simp_all add: AutoencoderVidTok_init_def enc dec bind_result_def Let_def)
  show "AutoencoderVidTok_init lg c = Inl e \<longleftrightarrow> check_regularizer lg c = Inl e"
    by (cases "check_regularizer lg c")
       (simp_all add: AutoencoderVidTok_init_def enc dec bind_result_def Let_def)
qed




section \<open>The tiling toggle\<close>

text \<open>
  Claim C9. \<open>enable_tiling\<close> switches tiling on whatever the arguments are, and an
  argument of 0 (or 0.0, or \<open>None\<close>) for a tile size or an overlap factor leaves the
  stored value of that setting in place: it is not set to 0.
\<close>

theorem enable_tiling_falsy_keeps_stored:
  "use_tiling (enable_tiling m h w fh fw) = True
   \<and> tile_sample_min_height (enable_tiling m (Some 0) w fh fw) = tile_sample_min_height m
   \<and> tile_sample_min_height (enable_tiling m None w fh fw) = tile_sample_min_height m
   \<and> tile_sample_min_width (enable_tiling m h (Some 0) fh fw) = tile_sample_min_width m
   \<and> tile_sample_min_width (enable_tiling m h None fh fw) = tile_sample_min_width m
   \<and> tile_overlap_factor_height (enable_tiling m h w (Some 0) fw)
       = tile_overlap_factor_height m
   \<and> tile_overlap_factor_height (enable_tiling m h w None fw) = tile_overlap_factor_height m
   \<and> tile_overlap_factor_width (enable_tiling m h w fh (Some 0)) = tile_overlap_factor_width m
   \<and> tile_overlap_factor_width (enable_tiling m h w fh None) = tile_overlap_factor_width m"
  by (simp add: enable_tiling_def py_or_def Let_def)

section \<open>Temporal downsampling of the encoder\<close>

lemma enc_level_init_temporal:
  "el_downsample_temporal (fst (enc_level_init c ms n ds i)) = None
     \<longleftrightarrow> \<not> (int i \<noteq> int (length ms) - 1 \<and> int i \<in> set ds)"
  by (simp add: enc_level_init_def Let_def split: prod.splits)

lemma enc_temporal_levels_init:
  assumes "VidTokEncoder3D_init ic c ms n dr z dz causal = Inr e"
  shows "enc_temporal_levels e = filter (tlevel (length ms)) [0..<length ms]"
proof -
  have ms: "ms \<noteq> []" by (rule encoder_init_Inr(1)[OF assms])
  note ee = encoder_init_Inr(2)[OF assms]
  have p: "(el_downsample_temporal (enc_down e ! i) \<noteq> None) = tlevel (length ms) i"
    if "i \<in> set [0..<length ms]" for i
  proof -
    have "enc_down e ! i =
        fst (enc_level_init c ms n [int (length ms) - 2, int (length ms) - 3] i)"
      using that by (simp add: ee)
    then show ?thesis
      by (simp add: tlevel_def enc_level_init_temporal del: not_None_eq)
  qed
  have "filter (\<lambda>i. el_downsample_temporal (enc_down e ! i) \<noteq> None) [0..<length ms]
      = filter (tlevel (length ms)) [0..<length ms]"
    by (rule filter_cong[OF refl p])
  then show ?thesis by (simp add: enc_temporal_levels_def ee)
qed

lemma constructed_fromD:
  assumes "constructed_from lg c m"
  obtains enc dec where
    "VidTokEncoder3D_init (in_channels c) (ch c) (ch_mult c) (num_res_blocks c)
       (dropout c) (z_channels c) (double_z c) (cfg_is_causal c) = Inr enc"
    "VidTokDecoder3D_init (ch c) (ch_mult c) (num_res_blocks c) (dropout c) (z_channels c)
       (out_channels c) (cfg_is_causal c) = Inr dec"
    "check_regularizer lg c = Inr ()"
    "encoder m = enc" "decoder m = dec" "regularizer m = cfg_regularizer c"
    "temporal_compression_ratio m = cfg_temporal_compression_ratio c"
    "config m = c"
  using assms
  unfolding constructed_from_def AutoencoderVidTok_init_def bind_result_def Let_def
  by (auto split: sum.splits)

text \<open>
  Claim C4, as the code has it. In every constructed autoencoder the encoder downsamples
  time exactly at the levels \<open>i\<close> that are not the last level and equal \<open>L - 2\<close> or \<open>L - 3\<close>
  (\<open>L\<close> the length of \<open>ch_mult\<close>): there are \<open>min 2 (L - 1)\<close> of them, and for a well-formed
  configuration the encoder divides the time length by 2 to the power of their number
  (and height and width by \<open>2 ^ (L - 1)\<close>). The configured temporal compression ratio is
  stored as it is given; nothing compares it with this factor.
\<close>

theorem encoder_temporal_downsampling:
  assumes "constructed_from math_log8 cfg m"
  shows "enc_temporal_levels (encoder m) =
           filter (tlevel (length (ch_mult cfg))) [0..<length (ch_mult cfg)]
       \<and> length (enc_temporal_levels (encoder m)) = min 2 (length (ch_mult cfg) - 1)
       \<and> (well_formed_config cfg \<and> 2 ^ length (enc_temporal_levels (encoder m)) \<le> T
            \<and> 2 ^ (length (ch_mult cfg) - 1) \<le> H \<and> 2 ^ (length (ch_mult cfg) - 1) \<le> W
          \<longrightarrow> VidTokEncoder3D_shape (encoder m) (B, nat (in_channels cfg), T, H, W) =
                Inr (B, nat (if double_z cfg then 2 * z_channels cfg else z_channels cfg),
                     T div 2 ^ length (enc_temporal_levels (encoder m)),
                     H div 2 ^ (length (ch_mult cfg) - 1),
                     W div 2 ^ (length (ch_mult cfg) - 1)))
       \<and> temporal_compression_ratio m = cfg_temporal_compression_ratio cfg"
proof -
  from assms obtain enc dec where
    enc: "VidTokEncoder3D_init (in_channels cfg) (ch cfg) (ch_mult cfg) (num_res_blocks cfg)
       (dropout cfg) (z_channels cfg) (double_z cfg) (cfg_is_causal cfg) = Inr enc"
    and m: "encoder m = enc"
      "temporal_compression_ratio m = cfg_temporal_compression_ratio cfg"
    by (rule constructed_fromD)
  have lv: "enc_temporal_levels enc =
      filter (tlevel (length (ch_mult cfg))) [0..<length (ch_mult cfg)]"
    by (rule enc_temporal_levels_init[OF enc])
  have cnt: "length (enc_temporal_levels enc) = min 2 (length (ch_mult cfg) - 1)"
    unfolding lv by (rule tlevels_count)
  have sh: "VidTokEncoder3D_shape enc (B, nat (in_channels cfg), T, H, W) =
                Inr (B, nat (if double_z cfg then 2 * z_channels cfg else z_channels cfg),
                     T div 2 ^ min 2 (length (ch_mult cfg) - 1),
                     H div 2 ^ (length (ch_mult cfg) - 1),
                     W div 2 ^ (length (ch_mult cfg) - 1))"
    if wf: "well_formed_config cfg" and T: "2 ^ min 2 (length (ch_mult cfg) - 1) \<le> T"
      and H: "2 ^ (length (ch_mult cfg) - 1) \<le> H" and W: "2 ^ (length (ch_mult cfg) - 1) \<le> W"
  proof (rule VidTokEncoder3D_shape_ok[OF enc _ _ well_formed_pos[OF wf] _ _ T H W])
    show "1 \<le> num_res_blocks cfg" "0 \<le> ch cfg"
      "0 \<le> (if double_z cfg then 2 * z_channels cfg else z_channels cfg)"
      "int (nat (in_channels cfg)) = in_channels cfg"
      using wf by (auto simp: well_formed_config_def)
  qed
  show ?thesis unfolding m cnt using lv cnt sh by simp
qed

theorem encoder_temporal_downsampling_witness:
  "constructed_from exact_log8 test_config
     (enable_slicing (enable_tiling
        (projr (AutoencoderVidTok_init exact_log8 test_config)) None None None None))
   \<and> well_formed_config test_config
   \<and> VidTokEncoder3D_shape
        (encoder (projr (AutoencoderVidTok_init exact_log8 test_config)))
        (1, 3, 20, 256, 256) = Inr (1, 32, 5, 32, 32)
   \<and> cfg_temporal_compression_ratio test_config = 2 ^ 2"
proof -
  define m0 where "m0 = (projr (AutoencoderVidTok_init exact_log8 test_config))"
  have wf0: "well_formed_config test_config"
    by (simp add: well_formed_config_def test_config_def)
  have "\<not> isl (AutoencoderVidTok_init exact_log8 test_config)"
    using init_eq_check(1)[OF wf0] by (simp add: check_regularizer_def test_config_def)
  then have init: "AutoencoderVidTok_init exact_log8 test_config = Inr m0"
    unfolding m0_def by (cases "AutoencoderVidTok_init exact_log8 test_config") simp_all
  have c0: "constructed_from exact_log8 test_config m0"
    by (simp add: constructed_from_def init)
  have c: "constructed_from exact_log8 test_config
     (enable_slicing (enable_tiling m0 None None None None))"
    by (simp add: constructed_from_def init enable_slicing_def enable_tiling_def Let_def)
  have wf: "well_formed_config test_config"
    by (simp add: well_formed_config_def test_config_def)
  have e: "encoder (enable_slicing (enable_tiling m0 None None None None)) = encoder m0"
    by (simp add: enable_slicing_def enable_tiling_def Let_def)
  note th = encoder_temporal_downsampling[OF c, of 20 256 256 1, unfolded e]
  have len: "length (enc_temporal_levels (encoder m0)) = 2"
    using th[THEN conjunct2, THEN conjunct1] by (simp add: test_config_def)
  have "VidTokEncoder3D_shape (encoder m0) (1, nat (in_channels test_config), 20, 256, 256) =
                Inr (1, nat (if double_z test_config then 2 * z_channels test_config
                             else z_channels test_config),
                     20 div 2 ^ length (enc_temporal_levels (encoder m0)),
                     256 div 2 ^ (length (ch_mult test_config) - 1),
                     256 div 2 ^ (length (ch_mult test_config) - 1))"
    using th[THEN conjunct2, THEN conjunct2, THEN conjunct1] wf unfolding len
    by (simp add: test_config_def)
  then have sh: "VidTokEncoder3D_shape (encoder m0) (1, 3, 20, 256, 256) = Inr (1, 32, 5, 32, 32)"
    unfolding len by (simp add: test_config_def)
  show ?thesis
    unfolding m0_def[symmetric] using c wf sh by (simp add: test_config_def)
qed

text \<open>
  The factor need not be the configured ratio: the test configuration with a ratio of 8
  constructs, and its encoder downsamples time at the two levels 1 and 2, by 4.
\<close>

theorem encoder_temporal_downsampling_counterexample:
  "constructed_from exact_log8 (test_config \<lparr> cfg_temporal_compression_ratio := 8 \<rparr>)
     (projr (AutoencoderVidTok_init exact_log8 (test_config \<lparr> cfg_temporal_compression_ratio := 8 \<rparr>)))
   \<and> temporal_compression_ratio
        (projr (AutoencoderVidTok_init exact_log8 (test_config \<lparr> cfg_temporal_compression_ratio := 8 \<rparr>))) = 8
   \<and> enc_temporal_levels (encoder
        (projr (AutoencoderVidTok_init exact_log8 (test_config \<lparr> cfg_temporal_compression_ratio := 8 \<rparr>)))) = [1, 2]
   \<and> VidTokEncoder3D_shape (encoder
        (projr (AutoencoderVidTok_init exact_log8 (test_config \<lparr> cfg_temporal_compression_ratio := 8 \<rparr>)))) (1, 3, 16, 256, 256) = Inr (1, 32, 4, 32, 32)
   \<and> (2::int) ^ length [1::nat, 2] \<noteq> 8"
proof -
  define cfg where "cfg = test_config \<lparr> cfg_temporal_compression_ratio := 8 \<rparr>"
  define m0 where "m0 = projr (AutoencoderVidTok_init exact_log8 cfg)"
  have wf0: "well_formed_config cfg"
    by (simp add: well_formed_config_def cfg_def test_config_def)
  have "\<not> isl (AutoencoderVidTok_init exact_log8 cfg)"
    using init_eq_check(1)[OF wf0] by (simp add: check_regularizer_def cfg_def test_config_def)
  then have init: "AutoencoderVidTok_init exact_log8 cfg = Inr m0"
    unfolding m0_def by (cases "AutoencoderVidTok_init exact_log8 cfg") simp_all
  have c: "constructed_from exact_log8 cfg m0"
    by (simp add: constructed_from_def init)
  obtain enc dec where
    enc: "VidTokEncoder3D_init (in_channels cfg) (ch cfg) (ch_mult cfg) (num_res_blocks cfg)
       (dropout cfg) (z_channels cfg) (double_z cfg) (cfg_is_causal cfg) = Inr enc"
    and m: "encoder m0 = enc"
      "temporal_compression_ratio m0 = cfg_temporal_compression_ratio cfg"
    using c by (rule constructed_fromD)
  have lv: "enc_temporal_levels (encoder m0) = [1, 2]"
    unfolding m enc_temporal_levels_init[OF enc] tlevels_list
    by (simp add: cfg_def test_config_def)
  have "well_formed_config cfg"
    by (simp add: well_formed_config_def cfg_def test_config_def)
  then have pos: "\<forall>j<length (ch_mult cfg). 0 \<le> ch cfg * ch_mult cfg ! j"
    by (rule well_formed_pos)
  have sh: "VidTokEncoder3D_shape (encoder m0) (1, 3, 16, 256, 256) = Inr (1, 32, 4, 32, 32)"
    unfolding m
    using VidTokEncoder3D_shape_ok[OF enc _ _ pos, of 3 16 256 256 1]
    by (simp add: cfg_def test_config_def)
  show ?thesis
    unfolding cfg_def[symmetric] m0_def[symmetric]
    using c lv sh m(2) by (simp add: cfg_def)
qed

section \<open>The shape of the round trip\<close>












section \<open>Causality of the causal convolutions\<close>

lemma map_results_Inr: "map_results f xs = Inr ys \<longleftrightarrow> map f xs = map Inr ys"
  by (simp add: map_results_def sequence_results_Inr)

lemma map_results_nth:
  assumes "map_results f xs = Inr ys"
  shows "length ys = length xs" and "i < length xs \<Longrightarrow> f (xs ! i) = Inr (ys ! i)"
proof -
  have m: "map f xs = map Inr ys" using assms by (simp add: map_results_Inr)
  then show l: "length ys = length xs" by (metis length_map)
  show "f (xs ! i) = Inr (ys ! i)" if "i < length xs"
    using m l that by (metis nth_map)
qed

lemma map_results_rel:
  assumes "list_all2 R xs xs'"
    and "\<And>a a' b b'. R a a' \<Longrightarrow> f a = Inr b \<Longrightarrow> f' a' = Inr b' \<Longrightarrow> S b b'"
    and "map_results f xs = Inr ys" and "map_results f' xs' = Inr ys'"
  shows "list_all2 S ys ys'"
proof (rule list_all2_all_nthI)
  show "length ys = length ys'"
    using map_results_nth(1)[OF assms(3)] map_results_nth(1)[OF assms(4)]
      list_all2_lengthD[OF assms(1)] by simp
  fix i assume "i < length ys"
  then have i: "i < length xs" "i < length xs'"
    using map_results_nth(1)[OF assms(3)] list_all2_lengthD[OF assms(1)] by simp_all
  show "S (ys ! i) (ys' ! i)"
    using assms(2)[OF list_all2_nthD[OF assms(1) i(1)]
      map_results_nth(2)[OF assms(3) i(1)] map_results_nth(2)[OF assms(4) i(2)]] .
qed

lemma hd_or_rel: "list_all2 S xs xs' \<Longrightarrow> S z z' \<Longrightarrow> S (hd_or z xs) (hd_or z' xs')"
  by (cases xs; cases xs') (simp_all add: hd_or_def)

lemma list_all2_replicateI: "S z z' \<Longrightarrow> list_all2 S (replicate n z) (replicate n z')"
  by (induction n) simp_all

lemma list_all2_revI: "list_all2 S xs xs' \<Longrightarrow> list_all2 S (rev xs) (rev xs')"
  by simp

lemma pad_front_rel:
  "list_all2 S xs xs' \<Longrightarrow> S z z' \<Longrightarrow>
   list_all2 S (pad_front mode l z xs) (pad_front mode l z' xs')"
  by (auto simp: pad_front_def hd_or_rel list_all2_lengthD
      intro!: list_all2_takeI list_all2_dropI list_all2_replicateI)

lemma pad_back_rel:
  "list_all2 S xs xs' \<Longrightarrow> S z z' \<Longrightarrow>
   list_all2 S (pad_back mode r z xs) (pad_back mode r z' xs')"
  by (auto simp: pad_back_def hd_or_rel list_all2_lengthD
      intro!: list_all2_takeI list_all2_dropI list_all2_replicateI)

lemma F_pad_axis_rel:
  assumes "list_all2 S xs xs'" and "S z z'"
    and "F_pad_axis mode l r z xs = Inr p" and "F_pad_axis mode l r z' xs' = Inr p'"
  shows "list_all2 S p p'"
proof -
  have n: "length xs = length xs'" using assms(1) by (rule list_all2_lengthD)
  have p: "p = pad_front mode (nat l) z xs
                @ drop (nat (- l)) (take (nat (int (length xs) + min r 0)) xs)
                @ pad_back mode (nat r) z xs"
    using assms(3) by (auto simp: F_pad_axis_def Let_def split: if_splits)
  have p': "p' = pad_front mode (nat l) z' xs'
                @ drop (nat (- l)) (take (nat (int (length xs) + min r 0)) xs')
                @ pad_back mode (nat r) z' xs'"
    using assms(4) n by (auto simp: F_pad_axis_def Let_def split: if_splits)
  show ?thesis unfolding p p'
    by (intro list_all2_appendI pad_front_rel pad_back_rel list_all2_dropI list_all2_takeI
        assms(1,2))
qed

lemma pad_prefix:
  assumes mode: "mode = ''constant'' \<or> mode = ''replicate''"
    and len: "length xs = length xs'"
    and agree: "take t xs = take t xs'" and t: "0 < t"
    and p: "F_pad_axis mode l 0 z xs = Inr p" and p': "F_pad_axis mode l 0 z xs' = Inr p'"
  shows "take (nat (int t + l)) p = take (nat (int t + l)) p'"
proof -
  have pe: "p = pad_front mode (nat l) z xs @ drop (nat (- l)) xs"
    using p by (auto simp: F_pad_axis_def Let_def pad_back_def split: if_splits)
  have pe': "p' = pad_front mode (nat l) z xs' @ drop (nat (- l)) xs'"
    using p' by (auto simp: F_pad_axis_def Let_def pad_back_def split: if_splits)
  have hd: "hd_or z xs = hd_or z xs'"
  proof (cases xs)
    case Nil
    then show ?thesis using len by simp
  next
    case (Cons a as)
    then obtain a' as' where c': "xs' = a' # as'" using len by (cases xs') auto
    have "take 1 (take t xs) = take 1 (take t xs')" using agree by simp
    then show ?thesis using t Cons c' by (simp add: hd_or_def min_def)
  qed
  have pf: "pad_front mode (nat l) z xs = pad_front mode (nat l) z xs'"
    using mode hd by (auto simp: pad_front_def)
  show ?thesis
  proof (cases "0 \<le> l")
    case True
    have lf: "length (pad_front mode (nat l) z xs') = nat l"
      using mode by (auto simp: pad_front_def)
    have "nat (int t + l) = nat l + t" using True by simp
    then show ?thesis unfolding pe pe' pf using True agree lf by simp
  next
    case False
    then have e: "pad_front mode (nat l) z xs' = []" using mode by (auto simp: pad_front_def)
    have "take (nat (int t + l)) (drop (nat (- l)) ys) = drop (nat (- l)) (take t ys)" for ys :: "'a list"
    proof (cases "nat (- l) \<le> t")
      case True
      then have "nat (int t + l) + nat (- l) = t" using False by simp
      then show ?thesis by (metis take_drop add.commute)
    next
      case f: False
      then have "nat (int t + l) = 0" by simp
      then show ?thesis using f by simp
    qed
    then show ?thesis unfolding pe pe' pf e using agree by simp
  qed
qed

lemma take_upt_min: "take m [0..<n] = [0..<min m n]"
  by (cases "m \<le> n") (simp_all add: min_def)

lemma take_eq_nth: "take m p = take m p' \<Longrightarrow> i < m \<Longrightarrow> p ! i = p' ! i"
  by (metis nth_take)

lemma hd_len_rel:
  "list_all2 (\<lambda>r r'. length r = length r') xs xs' \<Longrightarrow> hd_len xs = hd_len xs'"
  by (cases xs; cases xs') (simp_all add: hd_len_def)

lemma list_all2_same_len:
  "list_all2 (\<lambda>r r'. length r = length r') xs xs' \<longleftrightarrow>
     length xs = length xs' \<and> (\<forall>i<length xs. length (xs ! i) = length (xs' ! i))"
  by (simp add: list_all2_conv_all_nth)

lemma is_tensor3_rel:
  assumes "is_tensor3 sh x" "is_tensor3 sh x'"
  shows "list_all2 (list_all2 (\<lambda>r r'. length r = length r')) x x'"
  using assms
  by (auto simp: is_tensor3_def list_all2_conv_all_nth list_all_length split: prod.splits)

lemma index_bound:
  fixes k d s :: int
  assumes "1 \<le> k" "1 \<le> d" "1 \<le> s" and "tau < t div nat s" and "i < nat k"
  shows "tau * nat s + i * nat d < nat (int t + (d * (k - 1) + (1 - s)))"
proof -
  have "Suc tau \<le> t div nat s" using assms(4) by simp
  then have "Suc tau * nat s \<le> t div nat s * nat s" by (rule mult_le_mono1)
  also have "\<dots> \<le> t" by simp
  finally have a: "(int tau + 1) * s \<le> int t"
    using assms(3) by (metis of_nat_Suc of_nat_mult int_nat_eq of_nat_le_iff
        add.commute zero_le_one order_trans of_nat_1 of_nat_add)
  have "int i \<le> k - 1" using assms(5,1) by simp
  then have b: "int i * d \<le> (k - 1) * d" using assms(2) by (simp add: mult_right_mono)
  have "int tau * s + int i * d < int t + (d * (k - 1) + (1 - s))"
    using a b by (simp add: algebra_simps)
  moreover have "int (tau * nat s + i * nat d) = int tau * s + int i * d"
    using assms(2,3) by simp
  ultimately show ?thesis by linarith
qed

lemma conv1d_causal:
  assumes c_def: "c = VidTokCausalConv1d_init k pm kd ks"
    and mode: "pm = ''constant'' \<or> pm = ''replicate''"
    and x: "is_tensor3 sh x" and x': "is_tensor3 sh x'"
    and agree: "\<forall>n<length x. \<forall>ch<length (x ! n). take t (x ! n ! ch) = take t (x' ! n ! ch)"
    and y: "VidTokCausalConv1d_forward c w b x = Inr y"
    and y': "VidTokCausalConv1d_forward c w b x' = Inr y'"
  shows "length y = length y' \<and> (\<forall>n<length y. length (y ! n) = length (y' ! n)
          \<and> (\<forall>out_ch<length (y ! n).
               take (t div nat (c1_stride c)) (y ! n ! out_ch)
                 = take (t div nat (c1_stride c)) (y' ! n ! out_ch)))"
proof -
  define d where "d = kwargs_pop kd 1"
  define s where "s = kwargs_pop ks 1"
  define l where "l = d * (k - 1) + (1 - s)"
  have cf: "c1_time_causal_padding c = (l, 0)" "c1_kernel_size c = k" "c1_dilation c = d"
    "c1_stride c = s" "c1_time_pad c = l" "c1_pad_mode c = pm"
    by (simp_all add: c_def VidTokCausalConv1d_init_def Let_def d_def s_def l_def)
  have R: "list_all2 (list_all2 (\<lambda>r r'. length r = length r')) x x'"
    by (rule is_tensor3_rel[OF x x'])
  have lenx: "length x = length x'" using R by (rule list_all2_lengthD)
  have T: "hd_len (hd_or [] x) = hd_len (hd_or [] x')"
    by (rule hd_len_rel[OF hd_or_rel[OF R]]) simp
  define mode where "mode = conv1d_forward_pad_mode c (hd_len (hd_or [] x))"
  have mode': "mode = conv1d_forward_pad_mode c (hd_len (hd_or [] x'))"
    by (simp add: mode_def T)
  have m: "mode = ''constant'' \<or> mode = ''replicate''"
    using mode by (auto simp: mode_def conv1d_forward_pad_mode_def cf)
  obtain xp where xp: "map_results (map_results (F_pad_axis mode l 0 0)) x = Inr xp"
    and yy: "nn_Conv1d w b k d s xp = Inr y"
    using y unfolding VidTokCausalConv1d_forward_def Let_def mode_def[symmetric] cf fst_conv snd_conv
    by (cases "map_results (map_results (F_pad_axis mode l 0 0)) x") simp_all
  obtain xp' where xp': "map_results (map_results (F_pad_axis mode l 0 0)) x' = Inr xp'"
    and yy': "nn_Conv1d w b k d s xp' = Inr y'"
    using y' unfolding VidTokCausalConv1d_forward_def Let_def mode'[symmetric] cf fst_conv snd_conv
    by (cases "map_results (map_results (F_pad_axis mode l 0 0)) x'") simp_all
  have Rp: "list_all2 (list_all2 (\<lambda>r r'. length r = length r')) xp xp'"
  proof (rule map_results_rel[OF R _ xp xp'])
    fix a a' :: "real list list" and bb bb'
    assume a: "list_all2 (\<lambda>r r'. length r = length r') a a'"
      and bb: "map_results (F_pad_axis mode l 0 0) a = Inr bb"
      and bb': "map_results (F_pad_axis mode l 0 0) a' = Inr bb'"
    show "list_all2 (\<lambda>r r'. length r = length r') bb bb'"
    proof (rule map_results_rel[OF a _ bb bb'])
      fix r r' :: "real list" and q q'
      assume "length r = length r'" and q: "F_pad_axis mode l 0 0 r = Inr q"
        and q': "F_pad_axis mode l 0 0 r' = Inr q'"
      then have "list_all2 (\<lambda>_ _. True) r r'" by (simp add: list_all2_conv_all_nth)
      from F_pad_axis_rel[OF this _ q q'] show "length q = length q'"
        by (simp add: list_all2_conv_all_nth)
    qed
  qed
  have Tp: "hd_len (hd_or [] xp) = hd_len (hd_or [] xp')"
    by (rule hd_len_rel[OF hd_or_rel[OF Rp]]) simp
  have kds: "1 \<le> k" "1 \<le> d"
    using yy by (auto simp: nn_Conv1d_def split: if_splits)
  obtain T' where T': "conv_len (int (hd_len (hd_or [] xp))) k d s = Inr T'"
    and ye: "y = map (\<lambda>sample. map (\<lambda>out_ch.
                 map (conv1d_at w b (nat k) (nat d) (nat s) sample out_ch) [0..<T'])
               [0..<length w]) xp"
    using yy by (cases "conv_len (int (hd_len (hd_or [] xp))) k d s")
      (auto simp: nn_Conv1d_def split: if_splits)
  have ye': "y' = map (\<lambda>sample. map (\<lambda>out_ch.
                 map (conv1d_at w b (nat k) (nat d) (nat s) sample out_ch) [0..<T'])
               [0..<length w]) xp'"
    using yy' T'[unfolded Tp] by (auto simp: nn_Conv1d_def split: if_splits)
  have s1: "1 \<le> s" using T' by (auto simp: conv_len_def split: if_splits)
  have lxp: "length xp = length x" "length xp' = length x"
    using map_results_nth(1)[OF xp] map_results_nth(1)[OF xp'] lenx by simp_all
  show ?thesis
  proof (intro conjI allI impI)
    show "length y = length y'" by (simp add: ye ye' lxp)
  next
    fix n assume "n < length y"
    then show "length (y ! n) = length (y' ! n)" by (simp add: ye ye' lxp)
  next
    fix n out_ch assume n: "n < length y" and "out_ch < length (y ! n)"
    then have n: "n < length x" and o: "out_ch < length w" by (simp_all add: ye lxp)
    have pn: "map_results (F_pad_axis mode l 0 0) (x ! n) = Inr (xp ! n)"
      by (rule map_results_nth(2)[OF xp n])
    have pn': "map_results (F_pad_axis mode l 0 0) (x' ! n) = Inr (xp' ! n)"
      using map_results_nth(2)[OF xp'] n lenx by simp
    have lc: "length (x ! n) = length (x' ! n)"
      using R n by (simp add: list_all2_conv_all_nth)
    have lcp: "length (xp ! n) = length (x ! n)" "length (xp' ! n) = length (x ! n)"
      using map_results_nth(1)[OF pn] map_results_nth(1)[OF pn'] lc by simp_all
    have at: "conv1d_at w b (nat k) (nat d) (nat s) (xp ! n) out_ch tau
            = conv1d_at w b (nat k) (nat d) (nat s) (xp' ! n) out_ch tau"
      if tau: "tau < t div nat s" for tau
    proof -
      have t0: "0 < t" using tau by (cases t) simp_all
      have e: "xp ! n ! ch ! (tau * nat s + i * nat d) = xp' ! n ! ch ! (tau * nat s + i * nat d)"
        if ch: "ch < length (x ! n)" and i: "i < nat k" for ch i
      proof -
        have p1: "F_pad_axis mode l 0 0 (x ! n ! ch) = Inr (xp ! n ! ch)"
          by (rule map_results_nth(2)[OF pn ch])
        have p2: "F_pad_axis mode l 0 0 (x' ! n ! ch) = Inr (xp' ! n ! ch)"
          using map_results_nth(2)[OF pn'] ch lc by simp
        have ll: "length (x ! n ! ch) = length (x' ! n ! ch)"
          using R n ch by (simp add: list_all2_conv_all_nth)
        have ag: "take t (x ! n ! ch) = take t (x' ! n ! ch)" using agree n ch by simp
        have "take (nat (int t + l)) (xp ! n ! ch) = take (nat (int t + l)) (xp' ! n ! ch)"
          by (rule pad_prefix[OF m ll ag t0 p1 p2])
        then show ?thesis
          by (rule take_eq_nth) (use index_bound[OF kds s1 tau i] in \<open>simp add: l_def\<close>)
      qed
      show ?thesis
        unfolding conv1d_at_def lcp
        by (intro arg_cong2[where f="(+)"] refl arg_cong[where f=sum_list] map_cong)
           (simp_all add: e)
    qed
    have "take (t div nat s) (y ! n ! out_ch)
        = map (conv1d_at w b (nat k) (nat d) (nat s) (xp ! n) out_ch) [0..<min (t div nat s) T']"
      using n o by (simp add: ye lxp take_map take_upt_min)
    also have "\<dots> = map (conv1d_at w b (nat k) (nat d) (nat s) (xp' ! n) out_ch)
                       [0..<min (t div nat s) T']"
      by (rule map_cong) (simp_all add: at)
    also have "\<dots> = take (t div nat s) (y' ! n ! out_ch)"
      using n o by (simp add: ye' lxp take_map take_upt_min)
    finally show "take (t div nat (c1_stride c)) (y ! n ! out_ch)
                 = take (t div nat (c1_stride c)) (y' ! n ! out_ch)"
      by (simp add: cf)
  qed
qed

lemma hd_len_rel2: "list_all2 (list_all2 P) xs xs' \<Longrightarrow> hd_len xs = hd_len xs'"
  by (cases xs; cases xs') (auto simp: hd_len_def dest: list_all2_lengthD)

lemma shape5_of_rel:
  assumes "list_all2 (list_all2 (list_all2 (list_all2 (\<lambda>r r'. length r = length r')))) x x'"
  shows "shape5_of x = shape5_of x'"
proof -
  have 1: "list_all2 (list_all2 (list_all2 (\<lambda>r r'. length r = length r')))
      (hd_or [] x) (hd_or [] x')"
    by (rule hd_or_rel[OF assms]) simp
  have 2: "list_all2 (list_all2 (\<lambda>r r'. length r = length r'))
      (hd_or [] (hd_or [] x)) (hd_or [] (hd_or [] x'))"
    by (rule hd_or_rel[OF 1]) simp
  have 3: "list_all2 (\<lambda>r r'. length r = length r')
      (hd_or [] (hd_or [] (hd_or [] x))) (hd_or [] (hd_or [] (hd_or [] x')))"
    by (rule hd_or_rel[OF 2]) simp
  show ?thesis
    unfolding shape5_of_def
    using list_all2_lengthD[OF assms] hd_len_rel2[OF assms] hd_len_rel2[OF 1]
      hd_len_rel2[OF 2] hd_len_rel[OF 3]
    by simp
qed

lemma is_tensor5_rel:
  assumes "is_tensor5 sh x" "is_tensor5 sh x'"
  shows "list_all2 (list_all2 (list_all2 (list_all2 (\<lambda>r r'. length r = length r')))) x x'"
  using assms
  by (auto simp: is_tensor5_def list_all2_conv_all_nth list_all_length split: prod.splits)

lemma F_pad_axis_len:
  assumes "length xs = length xs'"
    and "F_pad_axis mode l r z xs = Inr p" and "F_pad_axis mode l r z' xs' = Inr p'"
  shows "length p = length p'"
proof -
  have "list_all2 (\<lambda>_ _. True) xs xs'" using assms(1) by (simp add: list_all2_conv_all_nth)
  from F_pad_axis_rel[OF this _ assms(2,3)] show ?thesis by (simp add: list_all2_conv_all_nth)
qed

lemma pad_frame_rel:
  assumes "list_all2 (\<lambda>r r'. length r = length r') fr fr'"
    and "pad_frame mode pwl pwr phl phr zr fr = Inr q"
    and "pad_frame mode pwl pwr phl phr zr fr' = Inr q'"
  shows "list_all2 (\<lambda>r r'. length r = length r') q q'"
proof -
  obtain u where u: "map_results (F_pad_axis mode pwl pwr 0) fr = Inr u"
    and q: "F_pad_axis mode phl phr zr u = Inr q"
    using assms(2) by (auto simp: pad_frame_def bind_result_Inr)
  obtain u' where u': "map_results (F_pad_axis mode pwl pwr 0) fr' = Inr u'"
    and q': "F_pad_axis mode phl phr zr u' = Inr q'"
    using assms(3) by (auto simp: pad_frame_def bind_result_Inr)
  have "list_all2 (\<lambda>r r'. length r = length r') u u'"
    by (rule map_results_rel[OF assms(1) _ u u']) (rule F_pad_axis_len)
  then show ?thesis by (rule F_pad_axis_rel[OF _ _ q q']) simp
qed

lemma F_pad5_unfold:
  "F_pad5 mode (pwl, pwr, phl, phr, ptl, ptr) x =
     map_results (map_results (\<lambda>frames.
       bind_result
         (map_results (pad_frame mode pwl pwr phl phr
            (replicate (nat (int (snd (snd (snd (snd (shape5_of x))))) + pwl + pwr)) 0)) frames)
         (F_pad_axis mode ptl ptr
            (replicate (nat (int (fst (snd (snd (snd (shape5_of x))))) + phl + phr))
               (replicate (nat (int (snd (snd (snd (snd (shape5_of x))))) + pwl + pwr)) 0))))) x"
  by (cases "shape5_of x") (simp add: F_pad5_def Let_def)

lemma conv3d_init_fields:
  assumes "VidTokCausalConv3d_init ks0 pm kd ks = Inr c"
  shows "length (c3_kernel_size c) = 3" "3 \<le> length (c3_dilation c)" "3 \<le> length (c3_stride c)"
    "c3_pad_mode c = pm"
    "c3_time_pad c = c3_dilation c ! 0 * (c3_kernel_size c ! 0 - 1) + (1 - c3_stride c ! 0)"
    "\<exists>pwl pwr phl phr. c3_time_causal_padding c = (pwl, pwr, phl, phr, c3_time_pad c, 0)"
  using assms
  by (auto simp: VidTokCausalConv3d_init_def Let_def split: list.splits if_splits)

lemma conv3d_causal:
  assumes c: "VidTokCausalConv3d_init ks0 pm kd ks = Inr c"
    and mode: "pm = ''constant'' \<or> pm = ''replicate''"
    and x: "is_tensor5 sh x" and x': "is_tensor5 sh x'"
    and agree: "\<forall>n<length x. \<forall>ch<length (x ! n). take t (x ! n ! ch) = take t (x' ! n ! ch)"
    and y: "VidTokCausalConv3d_forward c w b x = Inr y"
    and y': "VidTokCausalConv3d_forward c w b x' = Inr y'"
  shows "length y = length y' \<and> (\<forall>n<length y. length (y ! n) = length (y' ! n)
          \<and> (\<forall>out_ch<length (y ! n).
               take (t div nat (c3_stride c ! 0)) (y ! n ! out_ch)
                 = take (t div nat (c3_stride c ! 0)) (y' ! n ! out_ch)))"
proof -
  define kk where "kk = c3_kernel_size c"
  define dd where "dd = c3_dilation c"
  define ss where "ss = c3_stride c"
  define l where "l = c3_time_pad c"
  note cf = conv3d_init_fields[OF c, folded kk_def dd_def ss_def l_def]
  obtain pwl pwr phl phr where pads: "c3_time_causal_padding c = (pwl, pwr, phl, phr, l, 0)"
    using cf(6) by blast
  have le: "l = dd ! 0 * (kk ! 0 - 1) + (1 - ss ! 0)" by (rule cf(5))
  have R: "list_all2 (list_all2 (list_all2 (list_all2 (\<lambda>r r'. length r = length r')))) x x'"
    by (rule is_tensor5_rel[OF x x'])
  have lenx: "length x = length x'" using R by (rule list_all2_lengthD)
  have sh: "shape5_of x = shape5_of x'" by (rule shape5_of_rel[OF R])
  define mode where "mode = conv3d_forward_pad_mode c (fst (snd (snd (shape5_of x))))"
  have m: "mode = ''constant'' \<or> mode = ''replicate''"
    using mode by (auto simp: mode_def conv3d_forward_pad_mode_def cf)
  define zr where "zr = replicate (nat (int (snd (snd (snd (snd (shape5_of x))))) + pwl + pwr)) (0::real)"
  define zf where "zf = replicate (nat (int (fst (snd (snd (snd (shape5_of x))))) + phl + phr)) zr"
  define P where "P = (\<lambda>frames. bind_result
         (map_results (pad_frame mode pwl pwr phl phr zr) frames) (F_pad_axis mode l 0 zf))"
  have Fx: "F_pad5 mode (pwl, pwr, phl, phr, l, 0) x = map_results (map_results P) x"
    unfolding F_pad5_unfold P_def zr_def zf_def ..
  have Fx': "F_pad5 mode (pwl, pwr, phl, phr, l, 0) x' = map_results (map_results P) x'"
    unfolding F_pad5_unfold P_def zr_def zf_def sh ..
  obtain xp where xp: "map_results (map_results P) x = Inr xp"
    and yy: "nn_Conv3d w b kk dd ss xp = Inr y"
    using y unfolding VidTokCausalConv3d_forward_def Let_def mode_def[symmetric] pads Fx
      kk_def dd_def ss_def
    by (auto simp: bind_result_Inr)
  obtain xp' where xp': "map_results (map_results P) x' = Inr xp'"
    and yy': "nn_Conv3d w b kk dd ss xp' = Inr y'"
    using y' unfolding VidTokCausalConv3d_forward_def Let_def sh[symmetric] mode_def[symmetric]
      pads Fx' kk_def dd_def ss_def
    by (auto simp: bind_result_Inr)
  have Prel: "list_all2 (list_all2 (\<lambda>r r'. length r = length r')) q q'"
    if rel: "list_all2 (list_all2 (\<lambda>r r'. length r = length r')) fr fr'"
      and pq: "P fr = Inr q" and pq': "P fr' = Inr q'" for fr fr' q q'
  proof -
    obtain u where u: "map_results (pad_frame mode pwl pwr phl phr zr) fr = Inr u"
      and q: "F_pad_axis mode l 0 zf u = Inr q"
      using pq by (auto simp: P_def bind_result_Inr)
    obtain u' where u': "map_results (pad_frame mode pwl pwr phl phr zr) fr' = Inr u'"
      and q': "F_pad_axis mode l 0 zf u' = Inr q'"
      using pq' by (auto simp: P_def bind_result_Inr)
    have "list_all2 (list_all2 (\<lambda>r r'. length r = length r')) u u'"
      by (rule map_results_rel[OF rel _ u u']) (rule pad_frame_rel)
    then show ?thesis
      by (rule F_pad_axis_rel[OF _ _ q q']) (simp add: list_all2_conv_all_nth)
  qed
  have Rp: "list_all2 (list_all2 (list_all2 (list_all2 (\<lambda>r r'. length r = length r')))) xp xp'"
    by (rule map_results_rel[OF R _ xp xp'], rule map_results_rel, assumption, rule Prel)
  have shp: "shape5_of xp = shape5_of xp'" by (rule shape5_of_rel[OF Rp])
  have k3: "length kk = 3" "3 \<le> length dd" "3 \<le> length ss" by (rule cf(1) cf(2) cf(3))+
  have ok: "list_all (\<lambda>v. 1 \<le> v) (kk @ dd)"
    using yy by (auto simp: nn_Conv3d_def split: if_splits)
  then have "list_all (\<lambda>v. 1 \<le> v) kk" "list_all (\<lambda>v. 1 \<le> v) dd" by simp_all
  then have "\<forall>n<length kk. 1 \<le> kk ! n" "\<forall>n<length dd. 1 \<le> dd ! n"
    by (simp_all add: list_all_length)
  moreover have "0 < length kk" "0 < length dd" using k3 by auto
  ultimately have kds: "1 \<le> kk ! 0" "1 \<le> dd ! 0" by blast+
  obtain B C T H W where shxp: "shape5_of xp = (B, C, T, H, W)" by (cases "shape5_of xp") auto
  obtain T' H' W' where T': "conv_len (int T) (kk ! 0) (dd ! 0) (ss ! 0) = Inr T'"
    and ye: "y = map (\<lambda>sample. map (\<lambda>out_ch.
                    map (\<lambda>t. map (\<lambda>y. map (\<lambda>x.
                      conv3d_at w b (map nat kk) (map nat dd) (map nat ss) sample out_ch t y x)
                      [0..<W']) [0..<H']) [0..<T'])
                  [0..<length w]) xp"
    and ye': "y' = map (\<lambda>sample. map (\<lambda>out_ch.
                    map (\<lambda>t. map (\<lambda>y. map (\<lambda>x.
                      conv3d_at w b (map nat kk) (map nat dd) (map nat ss) sample out_ch t y x)
                      [0..<W']) [0..<H']) [0..<T'])
                  [0..<length w]) xp'"
    using yy yy' unfolding nn_Conv3d_def shp[symmetric] shxp
    by (auto simp: bind_result_Inr split: if_splits)
  have s1: "1 \<le> ss ! 0" using T' by (auto simp: conv_len_def split: if_splits)
  have nk: "map nat kk ! 0 = nat (kk ! 0)" "map nat dd ! 0 = nat (dd ! 0)"
    "map nat ss ! 0 = nat (ss ! 0)"
  proof -
    have "0 < length kk" "0 < length dd" "0 < length ss" using k3 by auto
    then show "map nat kk ! 0 = nat (kk ! 0)" "map nat dd ! 0 = nat (dd ! 0)"
      "map nat ss ! 0 = nat (ss ! 0)" by simp_all
  qed
  have lxp: "length xp = length x" "length xp' = length x"
    using map_results_nth(1)[OF xp] map_results_nth(1)[OF xp'] lenx by simp_all
  show ?thesis
  proof (intro conjI allI impI)
    show "length y = length y'" by (simp add: ye ye' lxp)
  next
    fix n assume "n < length y"
    then show "length (y ! n) = length (y' ! n)" by (simp add: ye ye' lxp)
  next
    fix n out_ch assume n: "n < length y" and "out_ch < length (y ! n)"
    then have n: "n < length x" and o: "out_ch < length w" by (simp_all add: ye lxp)
    have pn: "map_results P (x ! n) = Inr (xp ! n)"
      by (rule map_results_nth(2)[OF xp n])
    have pn': "map_results P (x' ! n) = Inr (xp' ! n)"
      using map_results_nth(2)[OF xp'] n lenx by simp
    have lc: "length (x ! n) = length (x' ! n)"
      using R n by (simp add: list_all2_conv_all_nth)
    have lcp: "length (xp ! n) = length (x ! n)" "length (xp' ! n) = length (x ! n)"
      using map_results_nth(1)[OF pn] map_results_nth(1)[OF pn'] lc by simp_all
    have at: "conv3d_at w b (map nat kk) (map nat dd) (map nat ss) (xp ! n) out_ch tau
            = conv3d_at w b (map nat kk) (map nat dd) (map nat ss) (xp' ! n) out_ch tau"
      if tau: "tau < t div nat (ss ! 0)" for tau
    proof -
      have t0: "0 < t" using tau by (cases t) simp_all
      have e: "xp ! n ! ch ! (tau * nat (ss ! 0) + i * nat (dd ! 0))
             = xp' ! n ! ch ! (tau * nat (ss ! 0) + i * nat (dd ! 0))"
        if ch: "ch < length (x ! n)" and i: "i < nat (kk ! 0)" for ch i
      proof -
        have "P (x ! n ! ch) = Inr (xp ! n ! ch)"
          by (rule map_results_nth(2)[OF pn ch])
        then obtain u where u: "map_results (pad_frame mode pwl pwr phl phr zr) (x ! n ! ch) = Inr u"
          and p1: "F_pad_axis mode l 0 zf u = Inr (xp ! n ! ch)"
          by (auto simp: P_def bind_result_Inr)
        have "P (x' ! n ! ch) = Inr (xp' ! n ! ch)"
          using map_results_nth(2)[OF pn'] ch lc by simp
        then obtain u' where u': "map_results (pad_frame mode pwl pwr phl phr zr) (x' ! n ! ch) = Inr u'"
          and p2: "F_pad_axis mode l 0 zf u' = Inr (xp' ! n ! ch)"
          by (auto simp: P_def bind_result_Inr)
        have ll: "length (x ! n ! ch) = length (x' ! n ! ch)"
          using R n ch by (simp add: list_all2_conv_all_nth)
        have lu: "length u = length (x ! n ! ch)" "length u' = length (x ! n ! ch)"
          using map_results_nth(1)[OF u] map_results_nth(1)[OF u'] ll by simp_all
        have ag: "take t (x ! n ! ch) = take t (x' ! n ! ch)" using agree n ch by simp
        have "take t u = take t u'"
        proof (rule nth_equalityI)
          show "length (take t u) = length (take t u')" by (simp add: lu)
          fix j assume "j < length (take t u)"
          then have j: "j < t" "j < length (x ! n ! ch)" by (simp_all add: lu)
          have eq: "x ! n ! ch ! j = x' ! n ! ch ! j" using ag j(1) by (rule take_eq_nth)
          have a: "pad_frame mode pwl pwr phl phr zr (x ! n ! ch ! j) = Inr (u ! j)"
            by (rule map_results_nth(2)[OF u j(2)])
          have b: "pad_frame mode pwl pwr phl phr zr (x' ! n ! ch ! j) = Inr (u' ! j)"
            using map_results_nth(2)[OF u'] j(2) ll by simp
          have "u ! j = u' ! j" using a b unfolding eq by simp
          then show "take t u ! j = take t u' ! j" using j by simp
        qed
        then have "take (nat (int t + l)) (xp ! n ! ch) = take (nat (int t + l)) (xp' ! n ! ch)"
          using pad_prefix[OF m _ _ t0 p1 p2] lu by simp
        then show ?thesis
          by (rule take_eq_nth) (use index_bound[OF kds s1 tau i] in \<open>simp add: le\<close>)
      qed
      show ?thesis
        unfolding conv3d_at_def lcp nk
        by (intro arg_cong2[where f="(+)"] refl arg_cong[where f=sum_list] map_cong ext)
           (simp_all add: e)
    qed
    have "take (t div nat (ss ! 0)) (y ! n ! out_ch)
        = map (\<lambda>t. map (\<lambda>y. map (\<lambda>x.
                      conv3d_at w b (map nat kk) (map nat dd) (map nat ss) (xp ! n) out_ch t y x)
                      [0..<W']) [0..<H']) [0..<min (t div nat (ss ! 0)) T']"
      using n o by (simp add: ye lxp take_map take_upt_min)
    also have "\<dots> = map (\<lambda>t. map (\<lambda>y. map (\<lambda>x.
                      conv3d_at w b (map nat kk) (map nat dd) (map nat ss) (xp' ! n) out_ch t y x)
                      [0..<W']) [0..<H']) [0..<min (t div nat (ss ! 0)) T']"
      by (rule map_cong) (simp_all add: at)
    also have "\<dots> = take (t div nat (ss ! 0)) (y' ! n ! out_ch)"
      using n o by (simp add: ye' lxp take_map take_upt_min)
    finally show "take (t div nat (c3_stride c ! 0)) (y ! n ! out_ch)
                 = take (t div nat (c3_stride c ! 0)) (y' ! n ! out_ch)"
      by (simp add: ss_def)
  qed
qed

text \<open>
  Claim C5, as the code has it. For a causal convolution (1D or 3D) whose padding mode
  is \<open>constant\<close> (the default, and the only mode the repository uses) or \<open>replicate\<close>:
  when two inputs of one shape agree at all time steps before \<open>t\<close>, the outputs agree at
  every output step \<open>tau\<close> with \<open>(tau + 1) * stride \<le> t\<close>, that is on the first
  \<open>t div stride\<close> steps; with stride 1 these are all steps before \<open>t\<close>.
\<close>

theorem causal_conv_causality:
  "(c1 = VidTokCausalConv1d_init k pm kd ks \<and> (pm = ''constant'' \<or> pm = ''replicate'')
      \<and> is_tensor3 sh3 x3 \<and> is_tensor3 sh3 x3'
      \<and> (\<forall>n<length x3. \<forall>ch<length (x3 ! n). take t (x3 ! n ! ch) = take t (x3' ! n ! ch))
      \<and> VidTokCausalConv1d_forward c1 w1 b1 x3 = Inr y3
      \<and> VidTokCausalConv1d_forward c1 w1 b1 x3' = Inr y3'
    \<longrightarrow> (\<forall>n<length y3. \<forall>out_ch<length (y3 ! n).
           take (t div nat (c1_stride c1)) (y3 ! n ! out_ch)
             = take (t div nat (c1_stride c1)) (y3' ! n ! out_ch)))
   \<and> (VidTokCausalConv3d_init ks0 pm kd3 ks3 = Inr c3 \<and> (pm = ''constant'' \<or> pm = ''replicate'')
      \<and> is_tensor5 sh5 x5 \<and> is_tensor5 sh5 x5'
      \<and> (\<forall>n<length x5. \<forall>ch<length (x5 ! n). take t (x5 ! n ! ch) = take t (x5' ! n ! ch))
      \<and> VidTokCausalConv3d_forward c3 w3 b3 x5 = Inr y5
      \<and> VidTokCausalConv3d_forward c3 w3 b3 x5' = Inr y5'
    \<longrightarrow> (\<forall>n<length y5. \<forall>out_ch<length (y5 ! n).
           take (t div nat (c3_stride c3 ! 0)) (y5 ! n ! out_ch)
             = take (t div nat (c3_stride c3 ! 0)) (y5' ! n ! out_ch)))"
proof (intro conjI impI)
  assume a: "c1 = VidTokCausalConv1d_init k pm kd ks \<and> (pm = ''constant'' \<or> pm = ''replicate'')
      \<and> is_tensor3 sh3 x3 \<and> is_tensor3 sh3 x3'
      \<and> (\<forall>n<length x3. \<forall>ch<length (x3 ! n). take t (x3 ! n ! ch) = take t (x3' ! n ! ch))
      \<and> VidTokCausalConv1d_forward c1 w1 b1 x3 = Inr y3
      \<and> VidTokCausalConv1d_forward c1 w1 b1 x3' = Inr y3'"
  then have f: "c1 = VidTokCausalConv1d_init k pm kd ks" "pm = ''constant'' \<or> pm = ''replicate''"
    "is_tensor3 sh3 x3" "is_tensor3 sh3 x3'"
    "\<forall>n<length x3. \<forall>ch<length (x3 ! n). take t (x3 ! n ! ch) = take t (x3' ! n ! ch)"
    "VidTokCausalConv1d_forward c1 w1 b1 x3 = Inr y3"
    "VidTokCausalConv1d_forward c1 w1 b1 x3' = Inr y3'"
    by blast+
  have "length y3 = length y3' \<and> (\<forall>n<length y3. length (y3 ! n) = length (y3' ! n)
          \<and> (\<forall>out_ch<length (y3 ! n).
               take (t div nat (c1_stride c1)) (y3 ! n ! out_ch)
                 = take (t div nat (c1_stride c1)) (y3' ! n ! out_ch)))"
    by (rule conv1d_causal[OF f])
  then show "\<forall>n<length y3. \<forall>out_ch<length (y3 ! n).
           take (t div nat (c1_stride c1)) (y3 ! n ! out_ch)
             = take (t div nat (c1_stride c1)) (y3' ! n ! out_ch)"
    by blast
next
  assume a: "VidTokCausalConv3d_init ks0 pm kd3 ks3 = Inr c3
      \<and> (pm = ''constant'' \<or> pm = ''replicate'')
      \<and> is_tensor5 sh5 x5 \<and> is_tensor5 sh5 x5'
      \<and> (\<forall>n<length x5. \<forall>ch<length (x5 ! n). take t (x5 ! n ! ch) = take t (x5' ! n ! ch))
      \<and> VidTokCausalConv3d_forward c3 w3 b3 x5 = Inr y5
      \<and> VidTokCausalConv3d_forward c3 w3 b3 x5' = Inr y5'"
  then have f: "VidTokCausalConv3d_init ks0 pm kd3 ks3 = Inr c3"
    "pm = ''constant'' \<or> pm = ''replicate''"
    "is_tensor5 sh5 x5" "is_tensor5 sh5 x5'"
    "\<forall>n<length x5. \<forall>ch<length (x5 ! n). take t (x5 ! n ! ch) = take t (x5' ! n ! ch)"
    "VidTokCausalConv3d_forward c3 w3 b3 x5 = Inr y5"
    "VidTokCausalConv3d_forward c3 w3 b3 x5' = Inr y5'"
    by blast+
  have "length y5 = length y5' \<and> (\<forall>n<length y5. length (y5 ! n) = length (y5' ! n)
          \<and> (\<forall>out_ch<length (y5 ! n).
               take (t div nat (c3_stride c3 ! 0)) (y5 ! n ! out_ch)
                 = take (t div nat (c3_stride c3 ! 0)) (y5' ! n ! out_ch)))"
    by (rule conv3d_causal[OF f])
  then show "\<forall>n<length y5. \<forall>out_ch<length (y5 ! n).
           take (t div nat (c3_stride c3 ! 0)) (y5 ! n ! out_ch)
             = take (t div nat (c3_stride c3 ! 0)) (y5' ! n ! out_ch)"
    by blast
qed

theorem causal_conv_causality_witness:
  "is_tensor3 (1, 1, 4) [[[1, 2, 3, 4]]] \<and> is_tensor3 (1, 1, 4) [[[1, 2, 9, 9]]]
   \<and> take 2 ([[[1, 2, 3, 4]]] ! 0 ! 0) = take 2 ([[[1, 2, 9, 9::real]]] ! 0 ! 0)
   \<and> VidTokCausalConv1d_forward (VidTokCausalConv1d_init 3 ''constant'' None None)
        [[[1, 1, 1]]] [0] [[[1, 2, 3, 4]]] = Inr [[[1, 3, 6, 9]]]
   \<and> VidTokCausalConv1d_forward (VidTokCausalConv1d_init 3 ''constant'' None None)
        [[[1, 1, 1]]] [0] [[[1, 2, 9, 9]]] = Inr [[[1, 3, 12, 20]]]
   \<and> take 2 ([[[1, 3, 6, 9]]] ! 0 ! 0) = take 2 ([[[1, 3, 12, 20::real]]] ! 0 ! 0)
   \<and> is_tensor5 (1, 1, 3, 1, 1) [[[[[1]], [[2]], [[3]]]]]
   \<and> is_tensor5 (1, 1, 3, 1, 1) [[[[[1]], [[2]], [[7]]]]]
   \<and> VidTokCausalConv3d_forward
        (projr (VidTokCausalConv3d_init (IntArg 3) ''constant'' None None))
        ones_kernel3 [0] [[[[[1]], [[2]], [[3]]]]] = Inr [[[[[1]], [[3]], [[6]]]]]
   \<and> VidTokCausalConv3d_forward
        (projr (VidTokCausalConv3d_init (IntArg 3) ''constant'' None None))
        ones_kernel3 [0] [[[[[1]], [[2]], [[7]]]]] = Inr [[[[[1]], [[3]], [[10]]]]]
   \<and> take 2 ([[[[[1]], [[3]], [[6]]]]] ! 0 ! 0) = take 2 ([[[[[1]], [[3]], [[10::real]]]]] ! 0 ! 0)"
proof -
  define c1 where "c1 = VidTokCausalConv1d_init 3 ''constant'' None None"
  define c3 where "c3 = projr (VidTokCausalConv3d_init (IntArg 3) ''constant'' None None)"
  have i3: "VidTokCausalConv3d_init (IntArg 3) ''constant'' None None = Inr c3"
    by (simp add: c3_def causal_conv3d_stride1)
  have s: "c1_stride c1 = 1" "c3_stride c3 ! 0 = 1"
    by (simp_all add: c1_def c3_def causal_conv3d_stride1 VidTokCausalConv1d_init_def
        kwargs_pop_def Let_def)
  have t3: "is_tensor3 (1, 1, 4) [[[1, 2, 3, 4]]]" "is_tensor3 (1, 1, 4) [[[1, 2, 9, 9]]]"
    by (simp_all add: is_tensor3_def)
  have t5: "is_tensor5 (1, 1, 3, 1, 1) [[[[[1]], [[2]], [[3]]]]]"
    "is_tensor5 (1, 1, 3, 1, 1) [[[[[1]], [[2]], [[7]]]]]"
    by (simp_all add: is_tensor5_def)
  have a3: "\<forall>n<length [[[1, 2, 3, 4::real]]]. \<forall>ch<length ([[[1, 2, 3, 4::real]]] ! n).
      take 2 ([[[1, 2, 3, 4]]] ! n ! ch) = take 2 ([[[1, 2, 9, 9::real]]] ! n ! ch)"
    by simp
  have a5: "\<forall>n<length [[[[[1::real]], [[2]], [[3]]]]].
      \<forall>ch<length ([[[[[1::real]], [[2]], [[3]]]]] ! n).
      take 2 ([[[[[1]], [[2]], [[3]]]]] ! n ! ch) = take 2 ([[[[[1::real]], [[2]], [[7]]]]] ! n ! ch)"
    by simp
  have y3: "VidTokCausalConv1d_forward c1 [[[1, 1, 1]]] [0] [[[1, 2, 3, 4]]] = Inr [[[1, 3, 6, 9]]]"
    "VidTokCausalConv1d_forward c1 [[[1, 1, 1]]] [0] [[[1, 2, 9, 9]]] = Inr [[[1, 3, 12, 20]]]"
    unfolding c1_def by code_simp+
  have y5: "VidTokCausalConv3d_forward c3 ones_kernel3 [0] [[[[[1]], [[2]], [[3]]]]]
        = Inr [[[[[1]], [[3]], [[6]]]]]"
    "VidTokCausalConv3d_forward c3 ones_kernel3 [0] [[[[[1]], [[2]], [[7]]]]]
        = Inr [[[[[1]], [[3]], [[10]]]]]"
    unfolding c3_def by code_simp+
  note th = causal_conv_causality[of c1 3 "''constant''" None None "(1, 1, 4)"
      "[[[1, 2, 3, 4]]]" "[[[1, 2, 9, 9]]]" 2 "[[[1, 1, 1]]]" "[0]"
      "[[[1, 3, 6, 9]]]" "[[[1, 3, 12, 20]]]"
      "IntArg 3" None None c3 "(1, 1, 3, 1, 1)" "[[[[[1]], [[2]], [[3]]]]]"
      "[[[[[1]], [[2]], [[7]]]]]" ones_kernel3 "[0]"
      "[[[[[1]], [[3]], [[6]]]]]" "[[[[[1]], [[3]], [[10]]]]]"]
  have r3: "take 2 ([[[1, 3, 6, 9]]] ! 0 ! 0) = take 2 ([[[1, 3, 12, 20::real]]] ! 0 ! 0)"
    using th[THEN conjunct1] t3 a3 y3 s(1) c1_def by simp
  have r5: "take 2 ([[[[[1]], [[3]], [[6]]]]] ! 0 ! 0)
      = take 2 ([[[[[1]], [[3]], [[10::real]]]]] ! 0 ! 0)"
    using th[THEN conjunct2] i3 t5 a5 y5 s(2) by simp
  show ?thesis
    using t3 t5 y3 y5 r3 r5 unfolding c1_def c3_def by simp
qed

text \<open>
  The claim as stated fails for the causal convolution with time stride 2 that
  \<open>VidTokDownsample3D\<close> builds: output step 0 reads input steps 0 and 1, so two inputs
  that agree before step 1 differ at output step 0. It also fails in \<open>reflect\<close> mode,
  where the padding in front mirrors later steps.
\<close>

theorem causal_conv_causality_counterexample:
  "take 1 ([[[[[1]], [[0]]]]] ! 0 ! 0) = take 1 ([[[[[1::real]], [[5]]]]] ! 0 ! 0)
   \<and> VidTokCausalConv3d_forward
        (projr (VidTokCausalConv3d_init (IntArg 3) ''constant'' None (Some (TupleArg [2, 1, 1]))))
        ones_kernel3 [0] [[[[[1]], [[0]]]]] = Inr [[[[[1]]]]]
   \<and> VidTokCausalConv3d_forward
        (projr (VidTokCausalConv3d_init (IntArg 3) ''constant'' None (Some (TupleArg [2, 1, 1]))))
        ones_kernel3 [0] [[[[[1]], [[5]]]]] = Inr [[[[[6]]]]]
   \<and> take 1 ([[[[[1]]]]] ! 0 ! 0) \<noteq> take 1 ([[[[[6::real]]]]] ! 0 ! 0)
   \<and> take 2 ([[[1, 2, 3, 4]]] ! 0 ! 0) = take 2 ([[[1, 2, 9, 4::real]]] ! 0 ! 0)
   \<and> VidTokCausalConv1d_forward (VidTokCausalConv1d_init 3 ''reflect'' None None)
        [[[1, 1, 1]]] [0] [[[1, 2, 3, 4]]] = Inr [[[6, 5, 6, 9]]]
   \<and> VidTokCausalConv1d_forward (VidTokCausalConv1d_init 3 ''reflect'' None None)
        [[[1, 1, 1]]] [0] [[[1, 2, 9, 4]]] = Inr [[[12, 5, 12, 15]]]
   \<and> take 2 ([[[6, 5, 6, 9]]] ! 0 ! 0) \<noteq> take 2 ([[[12, 5, 12, 15::real]]] ! 0 ! 0)"
proof -
  have "VidTokCausalConv3d_forward
        (projr (VidTokCausalConv3d_init (IntArg 3) ''constant'' None (Some (TupleArg [2, 1, 1]))))
        ones_kernel3 [0] [[[[[1]], [[0]]]]] = Inr [[[[[1]]]]]"
    by code_simp
  moreover have "VidTokCausalConv3d_forward
        (projr (VidTokCausalConv3d_init (IntArg 3) ''constant'' None (Some (TupleArg [2, 1, 1]))))
        ones_kernel3 [0] [[[[[1]], [[5]]]]] = Inr [[[[[6]]]]]"
    by code_simp
  moreover have "VidTokCausalConv1d_forward (VidTokCausalConv1d_init 3 ''reflect'' None None)
        [[[1, 1, 1]]] [0] [[[1, 2, 3, 4]]] = Inr [[[6, 5, 6, 9]]]"
    by code_simp
  moreover have "VidTokCausalConv1d_forward (VidTokCausalConv1d_init 3 ''reflect'' None None)
        [[[1, 1, 1]]] [0] [[[1, 2, 9, 4]]] = Inr [[[12, 5, 12, 15]]]"
    by code_simp
  ultimately show ?thesis by simp
qed


section \<open>The limits of the mixed resampling blocks\<close>

lemma map2_keep_right:
  assumes "list_all2 P xs ys" and "\<And>a b. P a b \<Longrightarrow> f (g a) (h b) = b"
  shows "map2 f (map g xs) (map h ys) = ys"
  using assms(1) by (induction rule: list_all2_induct) (simp_all add: assms(2))

lemma map2_keep_left:
  assumes "list_all2 P xs ys" and "\<And>a b. P a b \<Longrightarrow> f (g a) (h b) = a"
  shows "map2 f (map g xs) (map h ys) = xs"
  using assms(1) by (induction rule: list_all2_induct) (simp_all add: assms(2))

lemma same_len_all2: "length r = length s \<Longrightarrow> list_all2 (\<lambda>_ _. True) r s"
  by (simp add: list_all2_conv_all_nth)

lemma mix_paths_zero:
  assumes "same_shape5 x1 x2"
  shows "mix_paths 0 x1 x2 = Inr x2"
proof -
  have s: "same_shape5 (tensor_scale 0 x1) (tensor_scale 1 x2)"
    using assms
    by (simp add: same_shape5_def tensor_scale_def list_all2_map1 list_all2_map2)
  have l1: "map2 (+) (map ((*) 0) r) (map ((*) 1) s) = s"
    if "length r = length s" for r s :: "real list"
    by (rule map2_keep_right[OF same_len_all2[OF that]]) simp
  have l2: "map2 (map2 (+)) (map (map ((*) 0)) r) (map (map ((*) 1)) s) = s"
    if "list_all2 (\<lambda>r s. length r = length s) r s" for r s :: "real list list"
    by (rule map2_keep_right[OF that]) (rule l1)
  have l3: "map2 (map2 (map2 (+))) (map (map (map ((*) 0))) r) (map (map (map ((*) 1))) s) = s"
    if "list_all2 (list_all2 (\<lambda>r s. length r = length s)) r s" for r s :: "real list list list"
    by (rule map2_keep_right[OF that]) (rule l2)
  have l4: "map2 (map2 (map2 (map2 (+)))) (map (map (map (map ((*) 0)))) r)
              (map (map (map (map ((*) 1)))) s) = s"
    if "list_all2 (list_all2 (list_all2 (\<lambda>r s. length r = length s))) r s"
    for r s :: "real list list list list"
    by (rule map2_keep_right[OF that]) (rule l3)
  have h: "map2 (map2 (map2 (map2 (map2 (+))))) (tensor_scale 0 x1) (tensor_scale 1 x2) = x2"
    unfolding tensor_scale_def
    by (rule map2_keep_right[OF assms[unfolded same_shape5_def]]) (rule l4)
  have "mix_paths 0 x1 x2 = tensor_add (tensor_scale 0 x1) (tensor_scale 1 x2)"
    by (simp only: mix_paths_def diff_zero)
  also have "\<dots> = Inr (map2 (map2 (map2 (map2 (map2 (+))))) (tensor_scale 0 x1)
                        (tensor_scale 1 x2))"
    using s by (simp only: tensor_add_def if_True)
  finally show ?thesis by (simp only: h)
qed

lemma mix_paths_one:
  assumes "same_shape5 x1 x2"
  shows "mix_paths 1 x1 x2 = Inr x1"
proof -
  have s: "same_shape5 (tensor_scale 1 x1) (tensor_scale 0 x2)"
    using assms
    by (simp add: same_shape5_def tensor_scale_def list_all2_map1 list_all2_map2)
  have l1: "map2 (+) (map ((*) 1) r) (map ((*) 0) s) = r"
    if "length r = length s" for r s :: "real list"
    by (rule map2_keep_left[OF same_len_all2[OF that]]) simp
  have l2: "map2 (map2 (+)) (map (map ((*) 1)) r) (map (map ((*) 0)) s) = r"
    if "list_all2 (\<lambda>r s. length r = length s) r s" for r s :: "real list list"
    by (rule map2_keep_left[OF that]) (rule l1)
  have l3: "map2 (map2 (map2 (+))) (map (map (map ((*) 1))) r) (map (map (map ((*) 0))) s) = r"
    if "list_all2 (list_all2 (\<lambda>r s. length r = length s)) r s" for r s :: "real list list list"
    by (rule map2_keep_left[OF that]) (rule l2)
  have l4: "map2 (map2 (map2 (map2 (+)))) (map (map (map (map ((*) 1)))) r)
              (map (map (map (map ((*) 0)))) s) = r"
    if "list_all2 (list_all2 (list_all2 (\<lambda>r s. length r = length s))) r s"
    for r s :: "real list list list list"
    by (rule map2_keep_left[OF that]) (rule l3)
  have h: "map2 (map2 (map2 (map2 (map2 (+))))) (tensor_scale 1 x1) (tensor_scale 0 x2) = x1"
    unfolding tensor_scale_def
    by (rule map2_keep_left[OF assms[unfolded same_shape5_def]]) (rule l4)
  have "mix_paths 1 x1 x2 = tensor_add (tensor_scale 1 x1) (tensor_scale 0 x2)"
    by (simp only: mix_paths_def diff_self)
  also have "\<dots> = Inr (map2 (map2 (map2 (map2 (map2 (+))))) (tensor_scale 1 x1)
                        (tensor_scale 0 x2))"
    using s by (simp only: tensor_add_def if_True)
  finally show ?thesis by (simp only: h)
qed

text \<open>
  Claim C2, as the code has it. Both mixed blocks return
  \<open>sigmoid(mix) * x1 + (1 - sigmoid(mix)) * x2\<close>, where \<open>x1\<close> is the averaging or
  interpolation path (path A) and \<open>x2\<close> the convolution path (path B). With the mix
  parameter at minus infinity the sigmoid is 0 and the output is exactly path B, the
  convolution; at plus infinity the sigmoid is 1 and the output is exactly path A.
\<close>

theorem mixed_blocks_limits:
  "(VidTokDownsample3D_paths blk x = Inr (pathA, pathB) \<and> same_shape5 pathA pathB
     \<longrightarrow> VidTokDownsample3D_forward (blk \<lparr> mb_mix_factor := MinusInfinity \<rparr>) x = Inr pathB
       \<and> VidTokDownsample3D_forward (blk \<lparr> mb_mix_factor := PlusInfinity \<rparr>) x = Inr pathA)
   \<and> (VidTokUpsample3D_paths blk' x' = Inr (pathA', pathB') \<and> same_shape5 pathA' pathB'
     \<longrightarrow> VidTokUpsample3D_forward (blk' \<lparr> mb_mix_factor := MinusInfinity \<rparr>) x' = Inr pathB'
       \<and> VidTokUpsample3D_forward (blk' \<lparr> mb_mix_factor := PlusInfinity \<rparr>) x' = Inr pathA')"
proof -
  have d: "VidTokDownsample3D_paths (blk \<lparr> mb_mix_factor := v \<rparr>) x
           = VidTokDownsample3D_paths blk x" for v
    by (simp add: VidTokDownsample3D_paths_def)
  have u: "VidTokUpsample3D_paths (blk' \<lparr> mb_mix_factor := v \<rparr>) x'
           = VidTokUpsample3D_paths blk' x'" for v
    by (simp add: VidTokUpsample3D_paths_def Let_def)
  show ?thesis
    by (simp add: VidTokDownsample3D_forward_def VidTokUpsample3D_forward_def d u
        torch_sigmoid_def mix_paths_zero mix_paths_one)
qed

theorem mixed_blocks_limits_witness:
  "VidTokDownsample3D_paths unit_block [[[[[3]], [[6]]]]] = Inr ([[[[[3]]]]], [[[[[9]]]]])
   \<and> same_shape5 [[[[[3]]]]] [[[[[9]]]]]
   \<and> VidTokDownsample3D_forward (unit_block \<lparr> mb_mix_factor := MinusInfinity \<rparr>)
        [[[[[3]], [[6]]]]] = Inr [[[[[9]]]]]
   \<and> VidTokDownsample3D_forward (unit_block \<lparr> mb_mix_factor := PlusInfinity \<rparr>)
        [[[[[3]], [[6]]]]] = Inr [[[[[3]]]]]
   \<and> VidTokUpsample3D_paths (unit_block \<lparr> mb_is_causal := False \<rparr>) [[[[[2]]]]]
        = Inr ([[[[[2]], [[2]]]]], [[[[[4]], [[4]]]]])
   \<and> same_shape5 [[[[[2]], [[2]]]]] [[[[[4]], [[4]]]]]
   \<and> VidTokUpsample3D_forward
        (unit_block \<lparr> mb_is_causal := False, mb_mix_factor := MinusInfinity \<rparr>) [[[[[2]]]]]
        = Inr [[[[[4]], [[4]]]]]
   \<and> VidTokUpsample3D_forward
        (unit_block \<lparr> mb_is_causal := False, mb_mix_factor := PlusInfinity \<rparr>) [[[[[2]]]]]
        = Inr [[[[[2]], [[2]]]]]"
proof -
  have d: "VidTokDownsample3D_paths unit_block [[[[[3]], [[6]]]]]
      = Inr ([[[[[3]]]]], [[[[[9]]]]])"
    by code_simp
  have u: "VidTokUpsample3D_paths (unit_block \<lparr> mb_is_causal := False \<rparr>) [[[[[2]]]]]
        = Inr ([[[[[2]], [[2]]]]], [[[[[4]], [[4]]]]])"
    by code_simp
  have s: "same_shape5 [[[[[3]]]]] [[[[[9]]]]]" "same_shape5 [[[[[2]], [[2]]]]] [[[[[4]], [[4]]]]]"
    by (simp_all add: same_shape5_def)
  from mixed_blocks_limits[of unit_block "[[[[[3]], [[6]]]]]" "[[[[[3]]]]]" "[[[[[9]]]]]"
      "unit_block \<lparr> mb_is_causal := False \<rparr>" "[[[[[2]]]]]"
      "[[[[[2]], [[2]]]]]" "[[[[[4]], [[4]]]]]"] d u s
  show ?thesis by simp
qed

text \<open>
  The claim as stated has the two limits the other way round: with the sigmoid at 0 the
  causal downsample block returns the convolution path, not the average, and the causal
  upsample block returns the convolution of the interpolated tensor, not the
  interpolated tensor.
\<close>

theorem mixed_blocks_limits_counterexample:
  "torch_sigmoid MinusInfinity = 0
   \<and> VidTokDownsample3D_paths unit_block [[[[[3]], [[6]]]]] = Inr ([[[[[3]]]]], [[[[[9]]]]])
   \<and> VidTokDownsample3D_forward (unit_block \<lparr> mb_mix_factor := MinusInfinity \<rparr>)
        [[[[[3]], [[6]]]]] = Inr [[[[[9]]]]]
   \<and> [[[[[9]]]]] \<noteq> [[[[[3::real]]]]]
   \<and> VidTokUpsample3D_paths unit_block [[[[[2]]]]]
        = Inr ([[[[[2]], [[2]]]]], [[[[[2]], [[4]]]]])
   \<and> VidTokUpsample3D_forward (unit_block \<lparr> mb_mix_factor := MinusInfinity \<rparr>) [[[[[2]]]]]
        = Inr [[[[[2]], [[4]]]]]
   \<and> [[[[[2]], [[4]]]]] \<noteq> [[[[[2]], [[2::real]]]]]"
proof -
  have d: "VidTokDownsample3D_paths unit_block [[[[[3]], [[6]]]]]
      = Inr ([[[[[3]]]]], [[[[[9]]]]])"
    by code_simp
  have u: "VidTokUpsample3D_paths unit_block [[[[[2]]]]]
        = Inr ([[[[[2]], [[2]]]]], [[[[[2]], [[4]]]]])"
    by code_simp
  have dp: "VidTokDownsample3D_paths (unit_block \<lparr> mb_mix_factor := v \<rparr>) x
           = VidTokDownsample3D_paths unit_block x" for v x
    by (simp add: VidTokDownsample3D_paths_def)
  have up: "VidTokUpsample3D_paths (unit_block \<lparr> mb_mix_factor := v \<rparr>) x
           = VidTokUpsample3D_paths unit_block x" for v x
    by (simp add: VidTokUpsample3D_paths_def Let_def)
  have s: "same_shape5 [[[[[3]]]]] [[[[[9]]]]]" "same_shape5 [[[[[2]], [[2]]]]] [[[[[2]], [[4]]]]]"
    by (simp_all add: same_shape5_def)
  show ?thesis
    using d u s
    by (simp add: VidTokDownsample3D_forward_def VidTokUpsample3D_forward_def dp up
        torch_sigmoid_def mix_paths_zero)
qed


section \<open>Blending of the tiles in place\<close>

lemma fold_results_append:
  "fold_results f (xs @ ys) s = bind_result (fold_results f xs s) (fold_results f ys)"
  by (induction xs arbitrary: s) (auto simp: bind_result_def split: sum.splits)

lemma fold_results_invariant:
  assumes "fold_results f [0..<n] s = Inr s'"
    and "P 0 s"
    and "\<And>k t t'. k < n \<Longrightarrow> P k t \<Longrightarrow> f k t = Inr t' \<Longrightarrow> P (Suc k) t'"
  shows "P n s'"
  using assms
proof (induction n arbitrary: s')
  case 0
  then show ?case by simp
next
  case (Suc n)
  from Suc.prems(1) obtain t where t: "fold_results f [0..<n] s = Inr t" and ft: "f n t = Inr s'"
    by (auto simp: fold_results_append bind_result_Inr bind_result_def split: sum.splits)
  have "P n t"
    by (rule Suc.IH[OF t Suc.prems(2)]) (rule Suc.prems(3), auto)
  then show ?case using Suc.prems(3)[of n t s'] ft by simp
qed

lemma blend_tile_step:
  assumes bt: "blend_tile beh bew i j S = Inr S'"
    and i: "i < length S" and j: "j < length (S ! i)"
  shows "\<exists>t. Inr t = blend_with (S ! (i - 1) ! j) (S ! i ! (j - 1)) (S ! i ! j) beh bew i j
           \<and> S' = S[i := (S ! i)[j := t]]"
proof -
  from bt obtain S1 where
    s1: "(if 0 < i then
          (if j < length (S ! (i - 1)) then
             bind_result (blend_v (S ! (i - 1) ! j) (S ! i ! j) beh)
               (\<lambda>tile. Inr (S[i := (S ! i)[j := tile]]))
           else Inl IndexError)
        else Inr S) = Inr S1"
    and s2: "(if 0 < j then
       bind_result (blend_h (S1 ! i ! (j - 1)) (S1 ! i ! j) bew)
         (\<lambda>tile. Inr (S1[i := (S1 ! i)[j := tile]]))
     else Inr S1) = Inr S'"
    unfolding blend_tile_def bind_result_Inr by blast
  obtain t1 where t1: "(if 0 < i then blend_v (S ! (i - 1) ! j) (S ! i ! j) beh else Inr (S ! i ! j)) = Inr t1"
    and S1: "S1 = S[i := (S ! i)[j := t1]]"
  proof (cases "0 < i")
    case True
    with s1 obtain t where "blend_v (S ! (i - 1) ! j) (S ! i ! j) beh = Inr t" "S1 = S[i := (S ! i)[j := t]]"
      by (auto simp: bind_result_Inr split: if_splits)
    with True that show ?thesis by simp
  next
    case False
    with s1 have "S1 = S" by simp
    then have "S1 = S[i := (S ! i)[j := S ! i ! j]]" by simp
    with False that show ?thesis by simp
  qed
  have r1: "S1 ! i ! (j - 1) = S ! i ! (j - 1)" if "0 < j"
    using that i by (simp add: S1)
  have r2: "S1 ! i ! j = t1" using i j by (simp add: S1)
  have upd: "S1[i := (S1 ! i)[j := t]] = S[i := (S ! i)[j := t]]" for t
    using i by (simp add: S1)
  obtain t2 where t2: "(if 0 < j then blend_h (S ! i ! (j - 1)) t1 bew else Inr t1) = Inr t2"
    and S': "S' = S[i := (S ! i)[j := t2]]"
  proof (cases "0 < j")
    case True
    with s2 obtain t where "blend_h (S1 ! i ! (j - 1)) (S1 ! i ! j) bew = Inr t"
      "S' = S1[i := (S1 ! i)[j := t]]"
      by (auto simp: bind_result_Inr)
    then have "blend_h (S ! i ! (j - 1)) t1 bew = Inr t" "S' = S[i := (S ! i)[j := t]]"
      unfolding r1[OF True] r2 upd by simp_all
    with True that[of t] show ?thesis by simp
  next
    case False
    with s2 have "S' = S1" by simp
    with False that show ?thesis by (simp add: S1)
  qed
  have "Inr t2 = blend_with (S ! (i - 1) ! j) (S ! i ! (j - 1)) (S ! i ! j) beh bew i j"
    unfolding blend_with_def using t1 t2 by simp
  with S' show ?thesis by blast
qed


lemma map_nth_upt: "length xs = n \<Longrightarrow> map (\<lambda>l. g (xs ! l)) [0..<n] = map g xs"
  by (auto simp: list_eq_iff_nth_eq)

lemma blend_with_cong:
  "(0 < i \<Longrightarrow> u = u') \<Longrightarrow> (0 < j \<Longrightarrow> l = l')
     \<Longrightarrow> blend_with u l t beh bew i j = blend_with u' l' t beh bew i j"
  by (cases "0 < i"; cases "0 < j") (simp_all add: blend_with_def)

lemma grid_update_nth:
  "i < length S \<Longrightarrow> j < length (S ! i)
     \<Longrightarrow> S[i := (S ! i)[j := t]] ! k ! l = (if k = i \<and> l = j then t else S ! k ! l)"
  by (cases "k = i"; cases "l = j") simp_all

lemma grid_state_step:
  assumes gs: "grid_state rows beh bew S i j"
    and i: "i < length rows" and j: "j < length (rows ! i)"
    and bt: "blend_tile beh bew i j S = Inr S'"
  shows "grid_state rows beh bew S' i (Suc j) \<and> (\<exists>t. S' = S[i := (S ! i)[j := t]])"
proof -
  from gs have len: "length S = length rows"
    and lens: "\<And>k. k < length rows \<Longrightarrow> length (S ! k) = length (rows ! k)"
    and st: "\<And>k l. k < length rows \<Longrightarrow> l < length (rows ! k) \<Longrightarrow>
          (if k < i \<or> (k = i \<and> l < j)
           then Inr (S ! k ! l)
                  = blend_with (S ! (k - 1) ! l) (S ! k ! (l - 1)) (rows ! k ! l) beh bew k l
           else S ! k ! l = rows ! k ! l)"
    unfolding grid_state_def by blast+
  have iS: "i < length S" and jS: "j < length (S ! i)"
    using i j len lens by simp_all
  from blend_tile_step[OF bt iS jS] obtain t where
    t: "Inr t = blend_with (S ! (i - 1) ! j) (S ! i ! (j - 1)) (S ! i ! j) beh bew i j"
    and S': "S' = S[i := (S ! i)[j := t]]"
    by blast
  have raw: "S ! i ! j = rows ! i ! j"
    using st[OF i j] by simp
  have nth: "S' ! k ! l = (if k = i \<and> l = j then t else S ! k ! l)" for k l
    unfolding S' by (rule grid_update_nth[OF iS jS])
  have len': "length S' = length rows" by (simp add: S' len)
  have lens': "length (S' ! k) = length (rows ! k)" if "k < length rows" for k
    using that lens[OF that] iS by (cases "k = i") (simp_all add: S')
  have st': "(if k < i \<or> (k = i \<and> l < Suc j)
           then Inr (S' ! k ! l)
                  = blend_with (S' ! (k - 1) ! l) (S' ! k ! (l - 1)) (rows ! k ! l) beh bew k l
           else S' ! k ! l = rows ! k ! l)"
    if k: "k < length rows" and l: "l < length (rows ! k)" for k l
  proof (cases "k = i \<and> l = j")
    case True
    have "blend_with (S' ! (i - 1) ! j) (S' ! i ! (j - 1)) (rows ! i ! j) beh bew i j
        = blend_with (S ! (i - 1) ! j) (S ! i ! (j - 1)) (rows ! i ! j) beh bew i j"
      by (rule blend_with_cong) (auto simp add: nth)
    with True t raw show ?thesis by (simp add: nth)
  next
    case False
    show ?thesis
    proof (cases "k < i \<or> (k = i \<and> l < j)")
      case before: True
      have "blend_with (S' ! (k - 1) ! l) (S' ! k ! (l - 1)) (rows ! k ! l) beh bew k l
          = blend_with (S ! (k - 1) ! l) (S ! k ! (l - 1)) (rows ! k ! l) beh bew k l"
        by (rule blend_with_cong) (use before in \<open>auto simp add: nth\<close>)
      moreover have "S' ! k ! l = S ! k ! l" using False by (auto simp add: nth)
      moreover have "k < i \<or> (k = i \<and> l < Suc j)" using before by auto
      ultimately show ?thesis using st[OF k l] before by (simp only: if_True)
    next
      case after: False
      have "S' ! k ! l = S ! k ! l" using False by (auto simp add: nth)
      with st[OF k l] after False show ?thesis by auto
    qed
  qed
  have "grid_state rows beh bew S' i (Suc j)"
    unfolding grid_state_def using len' lens' st' by blast
  with S' show ?thesis by blast
qed

lemma grid_state_next_row:
  assumes "grid_state rows beh bew S i (length (rows ! i))"
  shows "grid_state rows beh bew S (Suc i) 0"
proof -
  have "(k < i \<or> (k = i \<and> l < length (rows ! i))) = (k < Suc i \<or> (k = Suc i \<and> l < 0))"
    if "l < length (rows ! k)" for k l
    using that by (auto simp: less_Suc_eq)
  then show ?thesis using assms unfolding grid_state_def by simp
qed

lemma grid_state_start: "grid_state rows beh bew rows 0 0"
  by (simp add: grid_state_def)

lemma stitch_row_state:
  assumes gs: "grid_state rows beh bew S i 0" and i: "i < length rows"
    and sr: "stitch_row beh bew rlh rlw i S = Inr (S', r)"
  shows "grid_state rows beh bew S' (Suc i) 0"
    and "Inr r = cat_dim4_values (map (slice_hw 0 rlh 0 rlw) (S' ! i))"
    and "\<And>k. k < i \<Longrightarrow> S' ! k = S ! k"
proof -
  define n where "n = length (rows ! i)"
  have nS: "length (S ! i) = n"
    using gs i unfolding grid_state_def n_def by simp
  define f where "f = (\<lambda>j (rows, result_row).
          bind_result (blend_tile beh bew i j rows) (\<lambda>rows'.
            Inr (rows', result_row @ [slice_hw 0 rlh 0 rlw (rows' ! i ! j)])))"
  from sr obtain rr where fold: "fold_results f [0..<n] (S, []) = Inr (S', rr)"
    and r: "cat_dim4_values rr = Inr r"
    unfolding stitch_row_def nS f_def[symmetric]
    by (auto simp: bind_result_Inr)
  define P where "P = (\<lambda>j (T, rr). grid_state rows beh bew T i j
      \<and> rr = map (\<lambda>l. slice_hw 0 rlh 0 rlw (T ! i ! l)) [0..<j]
      \<and> (\<forall>k. k \<noteq> i \<longrightarrow> T ! k = S ! k))"
  have "P n (S', rr)"
  proof (rule fold_results_invariant[OF fold])
    show "P 0 (S, [])" using gs by (simp add: P_def)
  next
    fix k t t'
    assume k: "k < n" and Pk: "P k t" and ft: "f k t = Inr t'"
    obtain T rr0 where t: "t = (T, rr0)" by (cases t)
    obtain T' rr1 where t': "t' = (T', rr1)" by (cases t')
    from Pk have g: "grid_state rows beh bew T i k"
      and rr0: "rr0 = map (\<lambda>l. slice_hw 0 rlh 0 rlw (T ! i ! l)) [0..<k]"
      and same: "\<And>q. q \<noteq> i \<Longrightarrow> T ! q = S ! q"
      by (simp_all add: P_def t)
    from ft have bt: "blend_tile beh bew i k T = Inr T'"
      and rr1: "rr1 = rr0 @ [slice_hw 0 rlh 0 rlw (T' ! i ! k)]"
      by (auto simp: f_def t t' bind_result_Inr)
    from grid_state_step[OF g i _ bt] k obtain u where
      g': "grid_state rows beh bew T' i (Suc k)" and T': "T' = T[i := (T ! i)[k := u]]"
      unfolding n_def by blast
    have iT: "i < length T" and kT: "k < length (T ! i)"
      using g i k unfolding grid_state_def n_def by simp_all
    have old: "T' ! i ! l = T ! i ! l" if "l < k" for l
      using that grid_update_nth[OF iT kT, of u i l] unfolding T' by simp
    have "map (\<lambda>l. slice_hw 0 rlh 0 rlw (T' ! i ! l)) [0..<k] = rr0"
      unfolding rr0 by (rule map_cong) (simp_all add: old)
    then have "rr1 = map (\<lambda>l. slice_hw 0 rlh 0 rlw (T' ! i ! l)) [0..<Suc k]"
      by (simp add: rr1)
    moreover have "T' ! q = S ! q" if "q \<noteq> i" for q
      using that same[OF that] unfolding T' by simp
    ultimately show "P (Suc k) t'" using g' by (simp add: P_def t')
  qed
  then have g: "grid_state rows beh bew S' i n"
    and rr: "rr = map (\<lambda>l. slice_hw 0 rlh 0 rlw (S' ! i ! l)) [0..<n]"
    and same: "\<And>k. k \<noteq> i \<Longrightarrow> S' ! k = S ! k"
    by (simp_all add: P_def)
  show "grid_state rows beh bew S' (Suc i) 0"
    using g unfolding n_def by (rule grid_state_next_row)
  have "length (S' ! i) = n"
    using g i unfolding grid_state_def n_def by simp
  then have "map (\<lambda>l. slice_hw 0 rlh 0 rlw (S' ! i ! l)) [0..<n]
      = map (slice_hw 0 rlh 0 rlw) (S' ! i)"
    by (simp add: map_nth_upt)
  with rr r show "Inr r = cat_dim4_values (map (slice_hw 0 rlh 0 rlw) (S' ! i))" by simp
  show "S' ! k = S ! k" if "k < i" for k using that same[of k] by simp
qed

lemma stitch_rows_state:
  assumes sr: "stitch_rows rows beh bew rlh rlw = Inr (S', r)"
  shows "grid_state rows beh bew S' (length rows) 0"
    and "Inr r = crop_and_cat S' rlh rlw"
proof -
  define f where "f = (\<lambda>i (rows, result_rows).
          bind_result (stitch_row beh bew rlh rlw i rows) (\<lambda>(rows', r).
            Inr (rows', result_rows @ [r])))"
  define row_of where "row_of = (\<lambda>row. cat_dim4_values (map (slice_hw 0 rlh 0 rlw) row))"
  from sr obtain rrs where fold: "fold_results f [0..<length rows] (rows, []) = Inr (S', rrs)"
    and r: "cat_dim3_values rrs = Inr r"
    unfolding stitch_rows_def f_def[symmetric]
    by (auto simp: bind_result_Inr)
  define P where "P = (\<lambda>i (T, rrs). grid_state rows beh bew T i 0
      \<and> map Inr rrs = map (\<lambda>k. row_of (T ! k)) [0..<i])"
  have "P (length rows) (S', rrs)"
  proof (rule fold_results_invariant[OF fold])
    show "P 0 (rows, [])" by (simp add: P_def grid_state_start)
  next
    fix k t t'
    assume k: "k < length rows" and Pk: "P k t" and ft: "f k t = Inr t'"
    obtain T rr0 where t: "t = (T, rr0)" by (cases t)
    obtain T' rr1 where t': "t' = (T', rr1)" by (cases t')
    from Pk have g: "grid_state rows beh bew T k 0"
      and rr0: "map Inr rr0 = map (\<lambda>q. row_of (T ! q)) [0..<k]"
      by (simp_all add: P_def t)
    from ft obtain u where srow: "stitch_row beh bew rlh rlw k T = Inr (T', u)"
      and rr1: "rr1 = rr0 @ [u]"
      by (auto simp: f_def t t' bind_result_Inr)
    note facts = stitch_row_state[OF g k srow]
    have "map (\<lambda>q. row_of (T' ! q)) [0..<k] = map (\<lambda>q. row_of (T ! q)) [0..<k]"
      by (rule map_cong) (simp_all add: facts(3))
    then have "map Inr rr1 = map (\<lambda>q. row_of (T' ! q)) [0..<Suc k]"
      using rr0 facts(2) by (simp add: rr1 row_of_def)
    with facts(1) show "P (Suc k) t'" by (simp add: P_def t')
  qed
  then have g: "grid_state rows beh bew S' (length rows) 0"
    and rrs: "map Inr rrs = map (\<lambda>k. row_of (S' ! k)) [0..<length rows]"
    by (simp_all add: P_def)
  show "grid_state rows beh bew S' (length rows) 0" by (rule g)
  have "length S' = length rows" using g unfolding grid_state_def by simp
  then have "map (\<lambda>k. row_of (S' ! k)) [0..<length rows] = map row_of S'"
    by (simp add: map_nth_upt)
  with rrs have "map_results row_of S' = Inr rrs"
    by (simp add: map_results_Inr)
  with r show "Inr r = crop_and_cat S' rlh rlw"
    by (simp add: crop_and_cat_def row_of_def)
qed

lemma stitch_rows_tile:
  assumes sr: "stitch_rows rows beh bew rlh rlw = Inr (S', r)"
    and i: "i < length rows" and j: "j < length (rows ! i)"
  shows "Inr (S' ! i ! j)
           = blend_with (S' ! (i - 1) ! j) (S' ! i ! (j - 1)) (rows ! i ! j) beh bew i j"
  using stitch_rows_state(1)[OF sr] i j unfolding grid_state_def by simp



text \<open>
  C10. In \<open>tiled_encode\<close> and in \<open>tiled_decode\<close>, \<open>blend_v\<close> and \<open>blend_h\<close> write into the
  tile that is stored in the grid. So for every tile \<open>(i, j)\<close> the grid \<open>rows'\<close> that the
  second loop nest leaves holds the tile of the network, blended with the upper and the
  left neighbour as \<open>rows'\<close> has them: the upper neighbour that was read is the tile of row
  \<open>i - 1\<close> after its own blending with the tiles above it and to its left, not the tile
  the network returned. The result is cropped and concatenated from the tiles of \<open>rows'\<close>.
\<close>

theorem tiled_blend_reads_blended_neighbours:
  "(tiled_encode_locals m = (oh, ow, beh, bew, rlh, rlw)
      \<and> tiled_encode_run m enc x = Inr (rows, rows', r)
      \<and> i < length rows \<and> j < length (rows ! i)
    \<longrightarrow> Inr (rows' ! i ! j)
          = blend_with (rows' ! (i - 1) ! j) (rows' ! i ! (j - 1)) (rows ! i ! j) beh bew i j
        \<and> Inr r = crop_and_cat rows' rlh rlw)
   \<and> (tiled_decode_locals m2 = (oh2, ow2, beh2, bew2, rlh2, rlw2)
      \<and> tiled_decode_run m2 dec z = Inr (zrows, zrows', d)
      \<and> i2 < length zrows \<and> j2 < length (zrows ! i2)
    \<longrightarrow> Inr (zrows' ! i2 ! j2)
          = blend_with (zrows' ! (i2 - 1) ! j2) (zrows' ! i2 ! (j2 - 1)) (zrows ! i2 ! j2)
              beh2 bew2 i2 j2
        \<and> Inr d = crop_and_cat zrows' rlh2 rlw2)"
proof (intro conjI impI; elim conjE)
  assume loc: "tiled_encode_locals m = (oh, ow, beh, bew, rlh, rlw)"
    and run: "tiled_encode_run m enc x = Inr (rows, rows', r)"
    and i: "i < length rows" and j: "j < length (rows ! i)"
  from run have sr: "stitch_rows rows beh bew rlh rlw = Inr (rows', r)"
    unfolding tiled_encode_run_def loc by (auto simp: bind_result_Inr)
  show "Inr (rows' ! i ! j)
          = blend_with (rows' ! (i - 1) ! j) (rows' ! i ! (j - 1)) (rows ! i ! j) beh bew i j"
    by (rule stitch_rows_tile[OF sr i j])
  show "Inr r = crop_and_cat rows' rlh rlw"
    by (rule stitch_rows_state(2)[OF sr])
next
  assume loc: "tiled_decode_locals m2 = (oh2, ow2, beh2, bew2, rlh2, rlw2)"
    and run: "tiled_decode_run m2 dec z = Inr (zrows, zrows', d)"
    and i: "i2 < length zrows" and j: "j2 < length (zrows ! i2)"
  from run have sr: "stitch_rows zrows beh2 bew2 rlh2 rlw2 = Inr (zrows', d)"
    unfolding tiled_decode_run_def loc by (auto simp: bind_result_Inr)
  show "Inr (zrows' ! i2 ! j2)
          = blend_with (zrows' ! (i2 - 1) ! j2) (zrows' ! i2 ! (j2 - 1)) (zrows ! i2 ! j2)
              beh2 bew2 i2 j2"
    by (rule stitch_rows_tile[OF sr i j])
  show "Inr d = crop_and_cat zrows' rlh2 rlw2"
    by (rule stitch_rows_state(2)[OF sr])
qed


theorem tiled_blend_reads_blended_neighbours_witness:
  "tiled_encode_locals (tiled_model (7/8)) = (3, 3, 2, 2, 1, 1)
   \<and> tiled_encode_run (tiled_model (7/8)) unit_net (counting_plane 4 6)
       = Inr (encoded_tiles, encoded_tiles_blended, [[[[[18, 48], [66, 120]]]]])
   \<and> Inr (encoded_tiles_blended ! 1 ! 1)
       = blend_with (encoded_tiles_blended ! 0 ! 1) (encoded_tiles_blended ! 1 ! 0)
           (encoded_tiles ! 1 ! 1) 2 2 1 1
   \<and> Inr [[[[[18, 48], [66, 120]]]]] = crop_and_cat encoded_tiles_blended 1 1
   \<and> tiled_decode_locals (tiled_model (1/2)) = (1, 1, 12, 12, 12, 12)
   \<and> tiled_decode_run (tiled_model (1/2)) unit_net (counting_plane 2 4)
       = Inr (decoded_tiles, decoded_tiles_blended,
           [[[[[14, 24, 18, 14, 26, 62 / 3, 26, 64 / 3, 64 / 3],
               [14, 24, 18, 14, 26, 62 / 3, 26, 64 / 3, 64 / 3],
               [14, 24, 18, 14, 74 / 3, 178 / 9, 74 / 3, 185 / 9, 185 / 9]]]]])
   \<and> Inr (decoded_tiles_blended ! 1 ! 1)
       = blend_with (decoded_tiles_blended ! 0 ! 1) (decoded_tiles_blended ! 1 ! 0)
           (decoded_tiles ! 1 ! 1) 12 12 1 1
   \<and> Inr [[[[[14, 24, 18, 14, 26, 62 / 3, 26, 64 / 3, 64 / 3],
               [14, 24, 18, 14, 26, 62 / 3, 26, 64 / 3, 64 / 3],
               [14, 24, 18, 14, 74 / 3, 178 / 9, 74 / 3, 185 / 9, 185 / 9]]]]]
       = crop_and_cat decoded_tiles_blended 12 12
   \<and> decoded_tiles_blended ! 0 ! 1 \<noteq> decoded_tiles ! 0 ! 1
   \<and> blend_with (decoded_tiles ! 0 ! 1) (decoded_tiles_blended ! 1 ! 0)
           (decoded_tiles ! 1 ! 1) 12 12 1 1 = Inr [[[[[14, 26, 62 / 3]]]]]
   \<and> decoded_tiles_blended ! 1 ! 1 = [[[[[14, 74 / 3, 178 / 9]]]]]"
proof -
  have e1: "tiled_encode_locals (tiled_model (7/8)) = (3, 3, 2, 2, 1, 1)"
    by code_simp
  have e2: "tiled_encode_run (tiled_model (7/8)) unit_net (counting_plane 4 6)
       = Inr (encoded_tiles, encoded_tiles_blended, [[[[[18, 48], [66, 120]]]]])"
    by code_simp
  have d1: "tiled_decode_locals (tiled_model (1/2)) = (1, 1, 12, 12, 12, 12)"
    by code_simp
  have d2: "tiled_decode_run (tiled_model (1/2)) unit_net (counting_plane 2 4)
       = Inr (decoded_tiles, decoded_tiles_blended,
           [[[[[14, 24, 18, 14, 26, 62 / 3, 26, 64 / 3, 64 / 3],
               [14, 24, 18, 14, 26, 62 / 3, 26, 64 / 3, 64 / 3],
               [14, 24, 18, 14, 74 / 3, 178 / 9, 74 / 3, 185 / 9, 185 / 9]]]]])"
    by code_simp
  have le: "1 < length encoded_tiles" "1 < length (encoded_tiles ! 1)"
    by (simp_all add: encoded_tiles_def)
  have ld: "1 < length decoded_tiles" "1 < length (decoded_tiles ! 1)"
    by (simp_all add: decoded_tiles_def)
  have n1: "decoded_tiles_blended ! 0 ! 1 \<noteq> decoded_tiles ! 0 ! 1"
    by (simp add: decoded_tiles_def decoded_tiles_blended_def)
  have n2: "blend_with (decoded_tiles ! 0 ! 1) (decoded_tiles_blended ! 1 ! 0)
           (decoded_tiles ! 1 ! 1) 12 12 1 1 = Inr [[[[[14, 26, 62 / 3]]]]]"
    by code_simp
  have n3: "decoded_tiles_blended ! 1 ! 1 = [[[[[14, 74 / 3, 178 / 9]]]]]"
    by (simp add: decoded_tiles_blended_def)
  from tiled_blend_reads_blended_neighbours[where m = "tiled_model (7/8)"
      and oh = 3 and ow = 3 and beh = 2 and bew = 2 and rlh = 1 and rlw = 1
      and enc = unit_net and x = "counting_plane 4 6"
      and rows = encoded_tiles and rows' = encoded_tiles_blended
      and r = "[[[[[18, 48], [66, 120]]]]]" and i = 1 and j = 1
      and ?m2.0 = "tiled_model (1/2)"
      and ?oh2.0 = 1 and ?ow2.0 = 1 and ?beh2.0 = 12 and ?bew2.0 = 12
      and ?rlh2.0 = 12 and ?rlw2.0 = 12
      and dec = unit_net and z = "counting_plane 2 4"
      and zrows = decoded_tiles and zrows' = decoded_tiles_blended
      and d = "[[[[[14, 24, 18, 14, 26, 62 / 3, 26, 64 / 3, 64 / 3],
               [14, 24, 18, 14, 26, 62 / 3, 26, 64 / 3, 64 / 3],
               [14, 24, 18, 14, 74 / 3, 178 / 9, 74 / 3, 185 / 9, 185 / 9]]]]]"
      and ?i2.0 = 1 and ?j2.0 = 1] e1 e2 d1 d2 le ld n1 n2 n3
  show ?thesis by simp
qed

end
